theory Spec2Isabelle
  imports Main "HOL-Library.Sublist"
begin

section \<open>Values, errors and the session\<close>

text \<open>
  The backend is one module, \<^verbatim>\<open>src/backend/data/schema.js\<close>: a GraphQL schema whose
  resolvers run knex queries against a relational database and call two collaborators,
  the CRM client (\<^verbatim>\<open>BSDClient\<close>) and the mailer (\<^verbatim>\<open>Mailgun\<close>).
  Identifiers are compared for equality only, so they are strings, the form in which
  \<^verbatim>\<open>fromGlobalId\<close> hands them to the resolvers.
\<close>

type_synonym ident = string

datatype jsval = JUndefined | JNull | JBool bool | JNum int | JStr string | JDate int
  | JObj "(string \<times> jsval) list"

text \<open>JavaScript truthiness of a value, as used by \<^verbatim>\<open>if (x)\<close>.\<close>

fun truthy :: "jsval \<Rightarrow> bool" where
  "truthy JUndefined = False"
| "truthy JNull = False"
| "truthy (JBool b) = b"
| "truthy (JNum n) = (n \<noteq> 0)"
| "truthy (JStr s) = (s \<noteq> [])"
| "truthy (JDate t) = True"
| "truthy (JObj kvs) = True"

text \<open>
  What a resolver can throw. \<^verbatim>\<open>GraphQLError\<close> is the class of the module: its
  message is the JSON text of the error object it is built from. \<^verbatim>\<open>Error\<close> is a
  plain \<^verbatim>\<open>new Error(msg)\<close>, \<^verbatim>\<open>TypeError\<close> a property read on
  \<^verbatim>\<open>undefined\<close> or \<^verbatim>\<open>null\<close>, \<^verbatim>\<open>SyntaxError\<close> what
  \<^verbatim>\<open>JSON.parse\<close> throws, and \<^verbatim>\<open>Rejected\<close> the rejection of a collaborator's promise.
\<close>

datatype js_error =
    GraphQLError string
  | Error string
  | TypeError
  | SyntaxError
  | Rejected string

record errorObject =
  status :: nat
  message :: string

definition digit_char :: "nat \<Rightarrow> char" where
  "digit_char n = ''0123456789abcdef'' ! (n mod 16)"

fun string_of_nat :: "nat \<Rightarrow> string" where
  "string_of_nat n =
     (if n < 10 then [digit_char n] else string_of_nat (n div 10) @ [digit_char (n mod 10)])"

text \<open>
  \<^verbatim>\<open>JSON.stringify\<close> of a string: the quotation mark and the reverse solidus are
  escaped, the control characters get their short or \<^verbatim>\<open>\u00XX\<close> escape, every
  other character is copied.
\<close>

definition json_escape_char :: "char \<Rightarrow> string" where
  "json_escape_char c =
     (if c = CHR 0x22 then [CHR 0x5C, CHR 0x22]
      else if c = CHR 0x5C then [CHR 0x5C, CHR 0x5C]
      else if c = CHR 0x08 then [CHR 0x5C, CHR ''b'']
      else if c = CHR 0x0C then [CHR 0x5C, CHR ''f'']
      else if c = CHR 0x0A then [CHR 0x5C, CHR ''n'']
      else if c = CHR 0x0D then [CHR 0x5C, CHR ''r'']
      else if c = CHR 0x09 then [CHR 0x5C, CHR ''t'']
      else if (of_char c :: nat) < 32
        then [CHR 0x5C, CHR ''u'', CHR ''0'', CHR ''0'',
              digit_char (of_char c div 16), digit_char (of_char c mod 16)]
      else [c])"

definition json_quote :: "string \<Rightarrow> string" where
  "json_quote s = [CHR 0x22] @ concat (map json_escape_char s) @ [CHR 0x22]"

text \<open>\<^verbatim>\<open>JSON.stringify({status: ..., message: ...})\<close>: the keys in insertion order.\<close>

definition JSON_stringify :: "errorObject \<Rightarrow> string" where
  \<open>JSON_stringify e =
     ''{"status":'' @ string_of_nat (status e) @ '',"message":'' @ json_quote (message e) @ ''}''\<close>

text \<open>
  \<^verbatim>\<open>
  class GraphQLError extends Error {
    constructor(errorObject) {
      let message = JSON.stringify(errorObject)
      super(message)
      ...
  \<close>
\<close>

definition newGraphQLError :: "errorObject \<Rightarrow> js_error" where
  "newGraphQLError e = GraphQLError (JSON_stringify e)"

record user_row =
  user_id :: ident
  user_email :: string
  is_admin :: bool
  is_superuser :: bool

text \<open>The \<^verbatim>\<open>rootValue\<close> of a request: the session, whose user is absent before login.\<close>

record session =
  user :: "user_row option"

text \<open>
  \<^verbatim>\<open>
  function authRequired(session) {
    if (!session.user) {
      throw new GraphQLError({
        status: 401,
        message: 'You must login to access that resource.'
      })
    }
  }
  \<close>
\<close>

definition authRequired :: "session \<Rightarrow> js_error + unit" where
  "authRequired s =
     (case user s of
        None \<Rightarrow> Inl (newGraphQLError
                 \<lparr>status = 401, message = ''You must login to access that resource.''\<rparr>)
      | Some u \<Rightarrow> Inr ())"

text \<open>
  \<^verbatim>\<open>
  function adminRequired(session) {
    authRequired(session)
    if (!session.user || !session.user.is_admin) {
      throw new GraphQLError({
        status: 403,
        message: 'You are not authorized to access that resource.'
      })
    }
  }
  \<close>
\<close>

definition notAuthorized :: js_error where
  "notAuthorized = newGraphQLError
     \<lparr>status = 403, message = ''You are not authorized to access that resource.''\<rparr>"

definition adminRequired :: "session \<Rightarrow> js_error + unit" where
  "adminRequired s =
     (case authRequired s of
        Inl e \<Rightarrow> Inl e
      | Inr _ \<Rightarrow>
          (case user s of
             None \<Rightarrow> Inl notAuthorized
           | Some u \<Rightarrow> if \<not> is_admin u then Inl notAuthorized else Inr ()))"

definition superuserRequired :: "session \<Rightarrow> js_error + unit" where
  "superuserRequired s =
     (case authRequired s of
        Inl e \<Rightarrow> Inl e
      | Inr _ \<Rightarrow>
          (case user s of
             None \<Rightarrow> Inl notAuthorized
           | Some u \<Rightarrow> if \<not> is_superuser u then Inl notAuthorized else Inr ()))"

section \<open>The database and the collaborators\<close>

text \<open>
  A table is the list of its rows and \<^verbatim>\<open>.first()\<close> takes the first row of the
  result; rows are records of the columns the resolvers read or write. Events are kept
  as objects (key/value lists), since \<^verbatim>\<open>EditEvents\<close> merges and prunes them by key.
\<close>

type_synonym js_object = "(string \<times> jsval) list"

definition js_get :: "js_object \<Rightarrow> string \<Rightarrow> jsval" where
  "js_get obj k = (case map_of obj k of None \<Rightarrow> JUndefined | Some v \<Rightarrow> v)"

text \<open>
  The keys of an object come in the order of its own properties: first the array indices
  (the whole numbers below \<open>2\<^sup>3\<^sup>2 - 1\<close>, written without a leading zero) in ascending
  order, then the other keys in the order in which they were created. A character is a
  code unit below 256.
\<close>

definition is_digit :: "char \<Rightarrow> bool" where
  "is_digit c = (c \<in> set ''0123456789'')"

definition digit_value :: "char \<Rightarrow> nat" where
  "digit_value c = length (takeWhile (\<lambda>d. d \<noteq> c) ''0123456789'')"

definition decimal_value :: "string \<Rightarrow> nat" where
  "decimal_value ds = foldl (\<lambda>n c. 10 * n + digit_value c) 0 ds"

definition is_array_index :: "string \<Rightarrow> bool" where
  "is_array_index k =
     (k \<noteq> [] \<and> list_all is_digit k \<and> (if hd k = CHR ''0'' then k = ''0'' else True)
      \<and> decimal_value k < 4294967295)"

text \<open>
  Assignment to a property, \<^verbatim>\<open>obj[k] = v\<close>: in place when the key is there; a new
  key goes where the order of the keys puts it.
\<close>

fun js_set :: "js_object \<Rightarrow> string \<Rightarrow> jsval \<Rightarrow> js_object" where
  "js_set [] k v = [(k, v)]"
| "js_set ((k', v') # kvs) k v =
     (if k' = k then (k, v) # kvs
      else if is_array_index k \<and> k \<notin> set (map fst kvs)
              \<and> (if is_array_index k' then decimal_value k < decimal_value k' else True)
        then (k, v) # (k', v') # kvs
      else (k', v') # js_set kvs k v)"

type_synonym geom = string

record person_row =
  cons_id :: ident
  firstname :: string
  lastname :: string

record email_row =
  email_cons_id :: ident
  email_is_primary :: bool
  email :: string

record phone_row =
  phone_cons_id :: ident
  phone_is_primary :: bool
  phone :: string

record address_row =
  cons_addr_id :: ident
  addr_cons_id :: ident
  addr_is_primary :: bool
  zip :: string
  addr_geom :: geom

record zip_code_row =
  zc_zip :: string
  timezone_offset :: int

record assigned_call_row =
  ac_id :: nat
  ac_caller_id :: ident
  ac_interviewee_id :: ident
  ac_call_assignment_id :: ident
  ac_create_dt :: int
  ac_modified_dt :: int

record call_row =
  call_id :: nat
  call_completed :: bool
  attempted_at :: int
  left_voicemail :: "bool option"
  sent_text :: "bool option"
  reason_not_completed :: "string option"
  call_caller_id :: ident
  call_interviewee_id :: ident
  call_call_assignment_id :: ident

record call_assignment_row =
  ca_id :: ident
  ca_name :: string
  ca_renderer :: string
  ca_instructions :: "string option"
  interviewee_group :: ident
  gc_bsd_survey_id :: ident
  ca_start_dt :: int
  ca_end_dt :: "int option"
  caller_group :: "ident option"

record gc_bsd_survey_row =
  survey_id :: ident
  survey_signup_form_id :: ident
  processors :: "string list"

record gc_bsd_group_row =
  group_id :: ident
  group_cons_group_id :: "ident option"
  group_query :: "string option"

record person_bsd_group_row =
  pg_cons_id :: ident
  pg_cons_group_id :: ident

record person_gc_bsd_group_row =
  pgc_cons_id :: ident
  pgc_gc_bsd_group_id :: ident

record survey_field_row =
  signup_form_field_id :: ident
  field_signup_form_id :: ident
  field_label :: string

record gc_bsd_event_row =
  gce_event_id :: ident
  pending_review :: bool

record event_attendee_row =
  attendee_cons_id :: ident
  attendee_event_id :: ident

record communication_row =
  comm_id :: nat
  comm_person_id :: ident
  comm_type :: string

record subscription_row =
  sub_cons_id :: ident
  isunsub :: bool

record fast_fwd_request_row =
  ffr_id :: ident
  ffr_event_id :: ident
  host_message :: string
  email_sent_dt :: "string option"

text \<open>
  How a request to the CRM can fail: the two error classes of \<^verbatim>\<open>../bsd\<close> that the
  module tells apart, and any other failure with the status code of its response.
\<close>

datatype api_failure =
    BSDValidationError string
  | BSDExistsError string
  | HttpError nat string

fun failure_message :: "api_failure \<Rightarrow> string" where
  "failure_message (BSDValidationError m) = m"
| "failure_message (BSDExistsError m) = m"
| "failure_message (HttpError code m) = m"

record bsd_survey_row =
  bs_signup_form_id :: ident
  bs_signup_form_slug :: string

record bsd_group_row =
  bg_cons_group_id :: ident
  bg_name :: string

record database =
  bsd_people :: "person_row list"
  bsd_emails :: "email_row list"
  bsd_phones :: "phone_row list"
  bsd_addresses :: "address_row list"
  zip_codes :: "zip_code_row list"
  bsd_assigned_calls :: "assigned_call_row list"
  bsd_calls :: "call_row list"
  bsd_call_assignments :: "call_assignment_row list"
  gc_bsd_surveys :: "gc_bsd_survey_row list"
  gc_bsd_groups :: "gc_bsd_group_row list"
  bsd_person_bsd_groups :: "person_bsd_group_row list"
  bsd_person_gc_bsd_groups :: "person_gc_bsd_group_row list"
  bsd_survey_fields :: "survey_field_row list"
  bsd_events :: "js_object list"
  gc_bsd_events :: "gc_bsd_event_row list"
  bsd_event_attendees :: "event_attendee_row list"
  communications :: "communication_row list"
  bsd_subscriptions :: "subscription_row list"
  fast_fwd_request :: "fast_fwd_request_row list"
  bsd_surveys :: "bsd_survey_row list"
  bsd_groups :: "bsd_group_row list"
  seq :: nat

text \<open>
  Serial keys: an insert takes the next value of the sequence, which is never given twice.
\<close>

definition next_id :: "database \<Rightarrow> nat" where
  "next_id db = Suc (seq db)"

text \<open>
  What the module takes from outside itself: library functions
  (\<^verbatim>\<open>fromGlobalId\<close> of graphql-relay, \<^verbatim>\<open>JSON.parse\<close>, PostGIS's
  \<^verbatim>\<open>st_dwithin\<close>, the database's \<^verbatim>\<open>ilike\<close>, \<^verbatim>\<open>humps.decamelize\<close>,
  \<^verbatim>\<open>Date.prototype.toISOString\<close>), the clock (\<^verbatim>\<open>new Date()\<close> and
  \<^verbatim>\<open>moment()\<close>, milliseconds since the epoch, and the text
  \<^verbatim>\<open>moment().format('YYYY-MM-DD HH:mm:ss')\<close> of it; one reading for the whole
  request), \<^verbatim>\<open>process.env.NODE_ENV\<close>, and the behaviour of the two collaborators:
  which CRM requests fail (and how), what the CRM answers to the three requests whose
  answer is stored, which credentials the CRM accepts, and which mails cannot be sent.
  Two answers of the database are taken from outside as well: to the comparison of an id column with an object
  (in \<^verbatim>\<open>fastFwdRequest\<close>) and to a raw SQL text (in
  \<^verbatim>\<open>CreateCallAssignment\<close>).

  \<^verbatim>\<open>JSON.parse\<close> throws on a text that is not JSON (\<^verbatim>\<open>Unparsable\<close>),
  and gives an object, with its keys in the order of its own properties, or a value that
  is none (\<^verbatim>\<open>NonObject\<close>: a number, a string, a boolean or \<^verbatim>\<open>null\<close>). The last
  two fields are the texts that a template string shows for a date (in the time zone of
  the server) and for a number of 22 digits or more (in exponent notation).
\<close>

datatype parsed = Unparsable | NonObject | Object js_object

datatype api_request =
    AddRSVPToEvent "string option" string "string option" jsval
  | ProcessSignup ident js_object
  | DeleteEvents "ident list"
  | UpdateEvent js_object
  | CheckCredentials string "string option"
  | SetConstituentPassword string "string option"
  | GetForm ident
  | ListFormFields ident
  | GetConstituentGroup ident

record mail =
  mail_kind :: string
  mail_recipients :: "string option list"
  mail_subject :: "string option"
  mail_text :: "string option"

record env =
  fromGlobalId :: "string \<Rightarrow> string \<times> string"
  JSON_parse :: "string \<Rightarrow> parsed"
  st_dwithin :: "geom \<Rightarrow> jsval \<Rightarrow> nat \<Rightarrow> bool"
  ilike :: "string \<Rightarrow> string \<Rightarrow> bool"
  now :: int
  NODE_ENV :: string
  decamelize :: "string \<Rightarrow> string"
  toISOString :: "int \<Rightarrow> string"
  timestamp_text :: string
  api_fails :: "api_request \<Rightarrow> api_failure option"
  getForm_response :: "ident \<Rightarrow> bsd_survey_row"
  listFormFields_response :: "ident \<Rightarrow> survey_field_row list"
  getConstituentGroup_response :: "ident \<Rightarrow> bsd_group_row"
  credentials_valid :: "string \<Rightarrow> string option \<Rightarrow> bool"
  ffr_where_id_object :: "database \<Rightarrow> string \<times> string \<Rightarrow> js_error + fast_fwd_request_row list"
  raw_query_fails :: "string \<Rightarrow> string option"
  mail_fails :: "mail \<Rightarrow> bool"
  date_text :: "int \<Rightarrow> string"
  exponent_text :: "int \<Rightarrow> string"

text \<open>
  The pattern of the module for an id that may be global or local:
  \<^verbatim>\<open>
  let localCallAssignmentId = fromGlobalId(callAssignmentId)
  if (localCallAssignmentId.type !== 'CallAssignment')
    localCallAssignmentId = callAssignmentId
  else
    localCallAssignmentId = localCallAssignmentId.id
  \<close>
\<close>

definition localIdOf :: "env \<Rightarrow> string \<Rightarrow> string \<Rightarrow> ident" where
  "localIdOf e ty globalId =
     (let localId = fromGlobalId e globalId
      in if fst localId \<noteq> ty then globalId else snd localId)"

text \<open>
  The loaders of \<^verbatim>\<open>rootValue\<close> are built outside this module, one per table;
  \<^verbatim>\<open>load(key)\<close> is taken to give the row with that key, or nothing.
\<close>

definition load_bsdPeople :: "database \<Rightarrow> ident \<Rightarrow> person_row option" where
  "load_bsdPeople db k = find (\<lambda>r. cons_id r = k) (bsd_people db)"

definition load_bsdCallAssignments :: "database \<Rightarrow> ident \<Rightarrow> call_assignment_row option" where
  "load_bsdCallAssignments db k = find (\<lambda>r. ca_id r = k) (bsd_call_assignments db)"

definition load_gcBsdGroups :: "database \<Rightarrow> ident \<Rightarrow> gc_bsd_group_row option" where
  "load_gcBsdGroups db k = find (\<lambda>r. group_id r = k) (gc_bsd_groups db)"

definition load_bsdEvents :: "database \<Rightarrow> ident \<Rightarrow> js_object option" where
  "load_bsdEvents db k = find (\<lambda>r. js_get r ''event_id'' = JStr k) (bsd_events db)"

section \<open>Primary e-mail, address and phone of a person\<close>

text \<open>
  \<^verbatim>\<open>
  async function getPrimaryEmail(person, transaction) {
    let query = knex('bsd_emails')
      .where({ is_primary: true, cons_id: person.cons_id })
      .select('email')
      .first()
    ...
    let emails = await query
    return emails ? emails.email : null
  }
  \<close>
  The optional transaction only chooses the connection the query runs on; the database
  passed to the model is the one that connection sees. \<^verbatim>\<open>None\<close> is JavaScript's
  \<^verbatim>\<open>null\<close> for the e-mail and the phone, and \<^verbatim>\<open>undefined\<close> (no row) for the address.
\<close>

definition getPrimaryEmail :: "database \<Rightarrow> person_row \<Rightarrow> string option" where
  "getPrimaryEmail db person =
     (case find (\<lambda>r. email_is_primary r = True \<and> email_cons_id r = cons_id person) (bsd_emails db) of
        None \<Rightarrow> None
      | Some emails \<Rightarrow> Some (email emails))"

definition getPrimaryAddress :: "database \<Rightarrow> person_row \<Rightarrow> address_row option" where
  "getPrimaryAddress db person =
     find (\<lambda>r. addr_is_primary r = True \<and> addr_cons_id r = cons_id person) (bsd_addresses db)"

definition getPrimaryPhone :: "database \<Rightarrow> person_row \<Rightarrow> string option" where
  "getPrimaryPhone db person =
     (case find (\<lambda>r. phone_is_primary r = True \<and> phone_cons_id r = cons_id person) (bsd_phones db) of
        None \<Rightarrow> None
      | Some phones \<Rightarrow> Some (phone phones))"

section \<open>People near an event\<close>

text \<open>
  The \<^verbatim>\<open>nearbyPeople\<close> field of an event. One round of its loop runs
  \<^verbatim>\<open>
  knex('bsd_addresses')
    .distinct('bsd_emails.email')
    .select('bsd_people.*')
    .join('bsd_people', 'bsd_addresses.cons_id', 'bsd_people.cons_id')
    .join('bsd_emails', 'bsd_people.cons_id', 'bsd_emails.cons_id')
    .leftJoin('communications', 'bsd_people.cons_id', 'communications.person_id')
    .innerJoin('bsd_subscriptions', 'bsd_people.cons_id', 'bsd_subscriptions.cons_id')
    .where('bsd_addresses.is_primary', true)
    .where('bsd_emails.is_primary', true)
    .where('bsd_subscriptions.isunsub', false)
    .whereNotIn('bsd_people.cons_id', foundConsIds)
    .whereRaw(`st_dwithin(bsd_addresses.geom, '${event.geom}', ${radius})`)
    .whereNull('communications.id')
    .limit(500)
  \<close>
  A row of the result is the e-mail together with the columns of the person.
\<close>

type_synonym nearby_row = "string \<times> person_row"

definition left_join :: "'a list \<Rightarrow> 'a option list" where
  "left_join xs = (if xs = [] then [None] else map Some xs)"

definition nearbyPeople_query ::
  "env \<Rightarrow> database \<Rightarrow> jsval \<Rightarrow> ident list \<Rightarrow> nat \<Rightarrow> nearby_row list" where
  "nearbyPeople_query e db event_geom foundConsIds radius =
     take 500 (remdups
       [(email m, p).
          a \<leftarrow> bsd_addresses db,
          p \<leftarrow> bsd_people db, addr_cons_id a = cons_id p,
          m \<leftarrow> bsd_emails db, cons_id p = email_cons_id m,
          c \<leftarrow> left_join (filter (\<lambda>c. cons_id p = comm_person_id c) (communications db)),
          s \<leftarrow> bsd_subscriptions db, cons_id p = sub_cons_id s,
          addr_is_primary a = True,
          email_is_primary m = True,
          isunsub s = False,
          cons_id p \<notin> set foundConsIds,
          st_dwithin e (addr_geom a) event_geom radius,
          c = None])"

text \<open>
  \<^verbatim>\<open>
  let maxRadius   = 50000;
  let radius      = 1000;
  let backoff     = 1000;
  let foundPeople = [];

  while (foundPeople.length < 500 && radius <= maxRadius) {
    let foundConsIds = foundPeople.map((person) => person.cons_id)
    let query        = ...
    log.info(`Running query: ${query.toString()}`)
    let people  = await query
    foundPeople = foundPeople.concat(people)
    radius += backoff;
    if (radius === 15000)
      backoff = 5000;
  }
  return foundPeople.slice(0, 500)
  \<close>
  The loop is a recursion on its three variables; from a state with \<^verbatim>\<open>backoff = 0\<close>
  it would not end, so it is a partial function and its return from the initial state is
  proved. The model also gives the log: for each query run, its radius and its exclusion list.
\<close>

definition maxRadius :: nat where
  "maxRadius = 50000"

type_synonym query_log = "(nat \<times> ident list) list"

partial_function (option) nearbyPeople_loop ::
  "env \<Rightarrow> database \<Rightarrow> jsval \<Rightarrow> nearby_row list \<Rightarrow> nat \<Rightarrow> nat \<Rightarrow> query_log
     \<Rightarrow> (nearby_row list \<times> query_log) option" where
  "nearbyPeople_loop e db event_geom foundPeople radius backoff lg =
     (if length foundPeople < 500 \<and> radius \<le> maxRadius then
        (let foundConsIds = map (\<lambda>person. cons_id (snd person)) foundPeople;
             people = nearbyPeople_query e db event_geom foundConsIds radius;
             radius' = radius + backoff
         in nearbyPeople_loop e db event_geom (foundPeople @ people) radius'
              (if radius' = 15000 then 5000 else backoff) (lg @ [(radius, foundConsIds)]))
      else Some (foundPeople, lg))"

declare nearbyPeople_loop.simps [code]

definition nearbyPeople ::
  "env \<Rightarrow> database \<Rightarrow> js_object \<Rightarrow> (nearby_row list \<times> query_log) option" where
  "nearbyPeople e db event =
     (case nearbyPeople_loop e db (js_get event ''geom'') [] 1000 1000 [] of
        None \<Rightarrow> None
      | Some (foundPeople, lg) \<Rightarrow> Some (take 500 foundPeople, lg))"

section \<open>Choosing an interviewee\<close>

text \<open>
  The \<^verbatim>\<open>intervieweeForCallAssignment\<close> field of a user.
  \<^verbatim>\<open>
  let allOffsets     = [-10, -9, -8, -7, -6, -5, -4]
  let validOffsets   = []
  // So that I can program late at night
  if (process.env.NODE_ENV === 'development')
    validOffsets = allOffsets

  allOffsets.forEach((offset) => {
    let time = moment().utcOffset(offset)

    if (time.hours() >= 9 && time.hours() < 21)
      validOffsets.push(offset)
  })
  \<close>
  An offset is a number of hours, so the local hour is the hour of the clock shifted by
  it. In development \<^verbatim>\<open>validOffsets\<close> is the array \<^verbatim>\<open>allOffsets\<close> itself:
  \<^verbatim>\<open>forEach\<close> visits its seven elements and the pushes land behind them.
\<close>

definition local_hour :: "int \<Rightarrow> int \<Rightarrow> int" where
  "local_hour t offset = (t div 3600000 + offset) mod 24"

definition allOffsets :: "int list" where
  "allOffsets = [-10, -9, -8, -7, -6, -5, -4]"

definition validOffsets :: "env \<Rightarrow> int list" where
  "validOffsets e =
     (if NODE_ENV e = ''development'' then allOffsets else []) @
     filter (\<lambda>offset. local_hour (now e) offset \<ge> 9 \<and> local_hour (now e) offset < 21) allOffsets"

text \<open>
  \<^verbatim>\<open>
  let previousCallsSubquery = knex('bsd_calls')
    .select('interviewee_id')
    .where(function () {
      this.where('completed', true)
        .where('call_assignment_id', localCallAssignmentId)
    })
    .orWhereIn('reason_not_completed', ['WRONG_NUMBER', 'DISCONNECTED_NUMBER', 'OTHER_LANGUAGE'])
    .orWhere(function () {
      this.whereIn('reason_not_completed', ['NO_PICKUP', 'CALL_BACK'])
        .where('attempted_at', '>', new Date(new Date() - 24 * 60 * 60 * 1000))
    })
    .orWhere(function () {
      this.where('call_assignment_id', localCallAssignmentId)
        .where('reason_not_completed', 'NOT_INTERESTED')
    })
  \<close>
\<close>

definition previousCallsSubquery :: "env \<Rightarrow> database \<Rightarrow> ident \<Rightarrow> ident list" where
  "previousCallsSubquery e db localCallAssignmentId =
     [call_interviewee_id c. c \<leftarrow> bsd_calls db,
        (call_completed c = True \<and> call_call_assignment_id c = localCallAssignmentId)
      \<or> reason_not_completed c \<in>
            set [Some ''WRONG_NUMBER'', Some ''DISCONNECTED_NUMBER'', Some ''OTHER_LANGUAGE'']
      \<or> (reason_not_completed c \<in> set [Some ''NO_PICKUP'', Some ''CALL_BACK'']
           \<and> attempted_at c > now e - 24 * 60 * 60 * 1000)
      \<or> (call_call_assignment_id c = localCallAssignmentId
           \<and> reason_not_completed c = Some ''NOT_INTERESTED'')]"

definition assignedCallsSubquery :: "database \<Rightarrow> ident list" where
  "assignedCallsSubquery db = map ac_interviewee_id (bsd_assigned_calls db)"

text \<open>Truthiness of a nullable string column.\<close>

definition truthy_str :: "string option \<Rightarrow> bool" where
  "truthy_str v = (case v of None \<Rightarrow> False | Some s \<Rightarrow> s \<noteq> [])"

definition EVERYONE_GROUP :: string where
  "EVERYONE_GROUP = ''everyone''"

text \<open>
  \<^verbatim>\<open>
  let query = knex.select('bsd_people.cons_id')
  if (group.cons_group_id) {
    query = query
      .from('bsd_person_bsd_groups as bsd_people')
      .where('bsd_people.cons_group_id', group.cons_group_id)
  } else if (group.query && group.query !== EVERYONE_GROUP) {
    query = query
      .from('bsd_person_gc_bsd_groups as bsd_people')
      .where('gc_bsd_group_id', group.id)
  } else {
    query = query.from('bsd_people')
  }
  \<close>
\<close>

definition intervieweeSource :: "database \<Rightarrow> gc_bsd_group_row \<Rightarrow> ident list" where
  "intervieweeSource db grp =
     (if truthy_str (group_cons_group_id grp) then
        [pg_cons_id r. r \<leftarrow> bsd_person_bsd_groups db,
           Some (pg_cons_group_id r) = group_cons_group_id grp]
      else if truthy_str (group_query grp) \<and> group_query grp \<noteq> Some EVERYONE_GROUP then
        [pgc_cons_id r. r \<leftarrow> bsd_person_gc_bsd_groups db,
           pgc_gc_bsd_group_id r = group_id grp]
      else map cons_id (bsd_people db))"

text \<open>
  \<^verbatim>\<open>
  query = query
    .join('bsd_phones', 'bsd_people.cons_id', 'bsd_phones.cons_id')
    .join('bsd_addresses', 'bsd_people.cons_id', 'bsd_addresses.cons_id')
    .join('zip_codes', 'zip_codes.zip', 'bsd_addresses.zip')
    .whereNotIn('bsd_people.cons_id', previousCallsSubquery)
    .whereNotIn('bsd_people.cons_id', assignedCallsSubquery)
    .whereIn('zip_codes.timezone_offset', validOffsets)
    .where('bsd_phones.is_primary', true)
    .where('bsd_addresses.is_primary', true)
    .limit(1)
    .first()

  // Don't ask the user to call themselves.
  let userAddress = await knex('bsd_emails')
    .select('bsd_emails.cons_id')
    .where('bsd_emails.email', user.email)
    .first()
  if (userAddress)
    query = query.whereNot('bsd_people.cons_id', userAddress.cons_id)
  \<close>
\<close>

definition intervieweeQuery ::
  "env \<Rightarrow> database \<Rightarrow> gc_bsd_group_row \<Rightarrow> ident \<Rightarrow> email_row option \<Rightarrow> ident list" where
  "intervieweeQuery e db grp localCallAssignmentId userAddress =
     [c. c \<leftarrow> intervieweeSource db grp,
         ph \<leftarrow> bsd_phones db, c = phone_cons_id ph,
         a \<leftarrow> bsd_addresses db, c = addr_cons_id a,
         z \<leftarrow> zip_codes db, zc_zip z = zip a,
         c \<notin> set (previousCallsSubquery e db localCallAssignmentId),
         c \<notin> set (assignedCallsSubquery db),
         timezone_offset z \<in> set (validOffsets e),
         phone_is_primary ph = True,
         addr_is_primary a = True,
         (case userAddress of None \<Rightarrow> True | Some u \<Rightarrow> c \<noteq> email_cons_id u)]"

text \<open>
  What \<^verbatim>\<open>log.info(`Running query: ${query}`)\<close> records of the query: the table it
  selects from, the call assignment of its subquery, the offsets and the excluded caller.
\<close>

record interviewee_query =
  iq_from :: string
  iq_call_assignment_id :: ident
  iq_valid_offsets :: "int list"
  iq_not_cons_id :: "ident option"

definition intervieweeQuery_logged ::
  "env \<Rightarrow> gc_bsd_group_row \<Rightarrow> ident \<Rightarrow> email_row option \<Rightarrow> interviewee_query" where
  "intervieweeQuery_logged e grp localCallAssignmentId userAddress =
     \<lparr>iq_from =
        (if truthy_str (group_cons_group_id grp) then ''bsd_person_bsd_groups''
         else if truthy_str (group_query grp) \<and> group_query grp \<noteq> Some EVERYONE_GROUP
           then ''bsd_person_gc_bsd_groups''
         else ''bsd_people''),
      iq_call_assignment_id = localCallAssignmentId,
      iq_valid_offsets = validOffsets e,
      iq_not_cons_id = map_option email_cons_id userAddress\<rparr>"

text \<open>
  The resolver. It gives the value it returns or the error it throws, the database it
  leaves, and the queries it logged. Nothing here runs in a transaction, so what was
  written before a throw stays written.
  \<^verbatim>\<open>
  resolve: async(user, {callAssignmentId}, {rootValue}) => {
    let localCallAssignmentId = ...
    await knex('bsd_assigned_calls')
      .where('caller_id', user.id)
      .delete()
    let callAssignment = await rootValue.loaders.bsdCallAssignments.load(localCallAssignmentId)
    ...
    if (validOffsets.length === 0)
      return null

    let group = await rootValue.loaders.gcBsdGroups.load(callAssignment.interviewee_group)
    ...
    let person    = await query
    let timestamp = new Date()

    if (person) {
      // Do this check again to avoid race conditions
      let assignedCall = await knex('bsd_assigned_calls').where({
        'caller_id': user.id,
        'call_assignment_id': localCallAssignmentId
      }).first()

      if (assignedCall)
        return rootValue.loaders.bsdPeople.load(assignedCall.interviewee_id)

      await knex('bsd_assigned_calls')
        .insert({
          caller_id: user.id,
          interviewee_id: person.cons_id,
          call_assignment_id: localCallAssignmentId,
          create_dt: timestamp,
          modified_dt: timestamp
        })

      return rootValue.loaders.bsdPeople.load(person.cons_id)
    }

    return null
  }
  \<close>
\<close>

definition delete_assigned_calls_of :: "ident \<Rightarrow> database \<Rightarrow> database" where
  "delete_assigned_calls_of caller db =
     db\<lparr>bsd_assigned_calls := filter (\<lambda>r. ac_caller_id r \<noteq> caller) (bsd_assigned_calls db)\<rparr>"

definition insert_assigned_call :: "env \<Rightarrow> ident \<Rightarrow> ident \<Rightarrow> ident \<Rightarrow> database \<Rightarrow> database" where
  "insert_assigned_call e caller interviewee localCallAssignmentId db =
     db\<lparr>bsd_assigned_calls := bsd_assigned_calls db @
          [\<lparr>ac_id = next_id db, ac_caller_id = caller, ac_interviewee_id = interviewee,
            ac_call_assignment_id = localCallAssignmentId,
            ac_create_dt = now e, ac_modified_dt = now e\<rparr>],
        seq := next_id db\<rparr>"

definition intervieweeForCallAssignment ::
  "env \<Rightarrow> database \<Rightarrow> user_row \<Rightarrow> string
     \<Rightarrow> (js_error + person_row option) \<times> database \<times> interviewee_query list" where
  "intervieweeForCallAssignment e db usr callAssignmentId =
     (let localCallAssignmentId = localIdOf e ''CallAssignment'' callAssignmentId;
          db1 = delete_assigned_calls_of (user_id usr) db;
          callAssignment = load_bsdCallAssignments db1 localCallAssignmentId
      in if length (validOffsets e) = 0 then (Inr None, db1, [])
         else
          (case callAssignment of
             None \<Rightarrow> (Inl TypeError, db1, [])
           | Some ca \<Rightarrow>
              (case load_gcBsdGroups db1 (interviewee_group ca) of
                 None \<Rightarrow> (Inl TypeError, db1, [])
               | Some grp \<Rightarrow>
                  (let userAddress = find (\<lambda>r. email r = user_email usr) (bsd_emails db1);
                       lg = [intervieweeQuery_logged e grp localCallAssignmentId userAddress]
                   in case intervieweeQuery e db1 grp localCallAssignmentId userAddress of
                        [] \<Rightarrow> (Inr None, db1, lg)
                      | person # _ \<Rightarrow>
                         (case find (\<lambda>r. ac_caller_id r = user_id usr
                                        \<and> ac_call_assignment_id r = localCallAssignmentId)
                                 (bsd_assigned_calls db1) of
                            Some assignedCall \<Rightarrow>
                              (Inr (load_bsdPeople db1 (ac_interviewee_id assignedCall)), db1, lg)
                          | None \<Rightarrow>
                              (let db2 = insert_assigned_call e (user_id usr) person
                                           localCallAssignmentId db1
                               in (Inr (load_bsdPeople db2 person), db2, lg)))))))"

section \<open>Operations for a logged-in user\<close>

text \<open>
  \<^verbatim>\<open>
  currentUser: {
    resolve: async(parent, _, {rootValue}) => {
      authRequired(rootValue)
      return rootValue.user
    }
  },
  callAssignment: {
    resolve: async(root, {id}, {rootValue}) => {
      authRequired(rootValue)
      let localId = ...
      return rootValue.loaders.bsdCallAssignments.load(localId)
    }
  },
  \<close>
\<close>

definition currentUser :: "session \<Rightarrow> js_error + user_row option" where
  "currentUser s = (case authRequired s of Inl err \<Rightarrow> Inl err | Inr _ \<Rightarrow> Inr (user s))"

definition callAssignment ::
  "env \<Rightarrow> database \<Rightarrow> session \<Rightarrow> string \<Rightarrow> js_error + call_assignment_row option" where
  "callAssignment e db s gid =
     (case authRequired s of
        Inl err \<Rightarrow> Inl err
      | Inr _ \<Rightarrow> Inr (load_bsdCallAssignments db (localIdOf e ''CallAssignment'' gid)))"

text \<open>
  \<^verbatim>\<open>
  fastFwdRequest: {
    resolve: async(root, {id}, {rootValue}) => {
      authRequired(rootValue)
      let localId = fromGlobalId(id)
      if (localId.type === 'FastFwdRequest')
        return knex('fast_fwd_request').where('id', localId)
      else {
        if (localId.type !== 'Event')
          localId = id
        else
          localId = localId.id
        let event = await rootValue.loaders.bsdEvents.load(localId)
        return knex('fast_fwd_request')
          .where('event_id', event.event_id)
      }
    }
  },
  \<close>
  In the first branch the id column is compared with the object \<^verbatim>\<open>localId\<close>, not
  with its id.
\<close>

definition fastFwdRequest ::
  "env \<Rightarrow> database \<Rightarrow> session \<Rightarrow> string \<Rightarrow> js_error + fast_fwd_request_row list" where
  "fastFwdRequest e db s gid =
     (case authRequired s of
        Inl err \<Rightarrow> Inl err
      | Inr _ \<Rightarrow>
         (let localId = fromGlobalId e gid
          in if fst localId = ''FastFwdRequest'' then ffr_where_id_object e db localId
             else
              (case load_bsdEvents db (if fst localId \<noteq> ''Event'' then gid else snd localId) of
                 None \<Rightarrow> Inl TypeError
               | Some event \<Rightarrow>
                   Inr (filter (\<lambda>r. JStr (ffr_event_id r) = js_get event ''event_id'')
                          (fast_fwd_request db)))))"

text \<open>
  The CRM client. \<^verbatim>\<open>BSDClient\<close> is defined outside this module; a request to the CRM
  either succeeds or is rejected with a message, as the environment says.
\<close>

definition apiRequest :: "env \<Rightarrow> api_request \<Rightarrow> js_error + unit" where
  "apiRequest e r =
     (case api_fails e r of Some f \<Rightarrow> Inl (Rejected (failure_message f)) | None \<Rightarrow> Inr ())"

text \<open>
  \<^verbatim>\<open>
  mutateAndGetPayload: async({currentPassword, newPassword}, {rootValue}) => {
    authRequired(rootValue)
    const user = rootValue.user
    const bsdCredentialsResponse = await BSDClient.checkCredentials(user.email, currentPassword)
    const bsdCredentialsValid    = (typeof bsdCredentialsResponse === 'object' && bsdCredentialsResponse.api.cons)
    if (!bsdCredentialsValid) {
      throw new GraphQLError({
        status: 403,
        message: 'The current password you entered does not match our records. Please try again.'
      })
    }
    try {
      await BSDClient.setConstituentPassword(user.email, newPassword)
    }
    catch (ex) {
      throw new GraphQLError({
        status: 500,
        message: `Something went wrong while changing your password: ${ex.message}`
      })
    }
    return {dummy: ''} //Dummy to satisfy Relay's requirement for some output
  }
  \<close>
  The result is the payload or the error, with the CRM requests made.
\<close>

definition changeUserPassword ::
  "env \<Rightarrow> session \<Rightarrow> string option \<Rightarrow> string option
     \<Rightarrow> (js_error + string) \<times> api_request list" where
  "changeUserPassword e s currentPassword newPassword =
     (case authRequired s of
        Inl err \<Rightarrow> (Inl err, [])
      | Inr _ \<Rightarrow>
         (case user s of
            None \<Rightarrow> (Inl TypeError, [])
          | Some usr \<Rightarrow>
             (let check = CheckCredentials (user_email usr) currentPassword;
                  setpw = SetConstituentPassword (user_email usr) newPassword
              in case apiRequest e check of
                   Inl err \<Rightarrow> (Inl err, [check])
                 | Inr _ \<Rightarrow>
                    if \<not> credentials_valid e (user_email usr) currentPassword then
                      (Inl (newGraphQLError \<lparr>status = 403, message =
                         ''The current password you entered does not match our records. Please try again.''\<rparr>),
                       [check])
                    else
                      (case api_fails e setpw of
                         Some f \<Rightarrow>
                           (Inl (newGraphQLError \<lparr>status = 500, message =
                              ''Something went wrong while changing your password: ''
                              @ failure_message f\<rparr>),
                            [check, setpw])
                       | None \<Rightarrow> (Inr '''', [check, setpw])))))"

section \<open>Submitting a call survey\<close>

text \<open>
  Modelled from the spec: \<^verbatim>\<open>noFailApiRequest\<close> of the CRM client is defined in
  \<^verbatim>\<open>../bsd\<close>, outside this module. The spec says of it that CRM API failures are
  caught and partially retried or ignored: the request is made, and a failure of it is
  caught, so the call itself does not fail.
\<close>

definition noFailApiRequest :: "env \<Rightarrow> api_request \<Rightarrow> js_error + unit" where
  "noFailApiRequest e r = (case apiRequest e r of Inl err \<Rightarrow> Inr () | Inr v \<Rightarrow> Inr v)"

text \<open>
  \<^verbatim>\<open>knex.transaction(async(trx) => { ... })\<close>: the handler works on the
  transaction's view of the database; when it returns the view is committed, when it
  throws the view is dropped and the error is passed on. What the handler did outside the
  database (the third component) stays done.
\<close>

definition transaction ::
  "(database \<Rightarrow> (js_error + 'a \<times> database) \<times> 'l) \<Rightarrow> database
     \<Rightarrow> (js_error + 'a) \<times> database \<times> 'l" where
  "transaction handler db =
     (case handler db of
        (Inl err, lg) \<Rightarrow> (Inl err, db, lg)
      | (Inr (v, db'), lg) \<Rightarrow> (Inr v, db', lg))"

record submitCallSurvey_input =
  callAssignmentId :: string
  intervieweeId :: string
  completed :: bool
  leftVoicemail :: "bool option"
  sentText :: "bool option"
  reasonNotCompleted :: "string option"
  surveyFieldValues :: string

definition person_object :: "person_row option \<Rightarrow> jsval" where
  "person_object p =
     (case p of
        None \<Rightarrow> JUndefined
      | Some r \<Rightarrow> JObj [(''cons_id'', JStr (cons_id r)), (''firstname'', JStr (firstname r)),
                        (''lastname'', JStr (lastname r))])"

text \<open>\<^verbatim>\<open>/^\d+$/.test(field)\<close>\<close>

definition is_numeric_id :: "string \<Rightarrow> bool" where
  "is_numeric_id field = (field \<noteq> [] \<and> (\<forall>c \<in> set field. c \<in> set ''0123456789''))"

text \<open>
  The field id under which a survey answer is sent to the CRM form:
  \<^verbatim>\<open>
  let fieldId = field
  // Field is not a numeric id
  if (!(/^\d+$/.test(field))) {
    let fieldObj = await knex('bsd_survey_fields')
      .select('signup_form_field_id')
      .where('signup_form_id', survey.signup_form_id)
      .where('label', field)
      .transacting(trx)
      .first()

    if (!fieldObj)
      fieldObj = await knex('bsd_survey_fields')
        .where('signup_form_id', survey.signup_form_id)
        .where('label', 'ilike', `[${field}]%`)
        .transacting(trx)
        .first()

    if (fieldObj) {
      fieldId = fieldObj.signup_form_field_id
    } else {
      fieldId = null
    }
  }
  \<close>
\<close>

definition survey_field_id ::
  "env \<Rightarrow> database \<Rightarrow> gc_bsd_survey_row \<Rightarrow> string \<Rightarrow> ident option" where
  "survey_field_id e db survey field =
     (if is_numeric_id field then Some field
      else
       (case find (\<lambda>r. field_signup_form_id r = survey_signup_form_id survey
                      \<and> field_label r = field) (bsd_survey_fields db) of
          Some fieldObj \<Rightarrow> Some (signup_form_field_id fieldObj)
        | None \<Rightarrow>
           (case find (\<lambda>r. field_signup_form_id r = survey_signup_form_id survey
                          \<and> ilike e (field_label r) (''['' @ field @ '']%''))
                   (bsd_survey_fields db) of
              Some fieldObj \<Rightarrow> Some (signup_form_field_id fieldObj)
            | None \<Rightarrow> None)))"

text \<open>
  \<^verbatim>\<open>
  let fields = Object.keys(fieldValues)
  for (let index = 0; index < fields.length; index++) {
    let field   = fields[index]
    ...
    if (fieldId)
      bsdFormValues[fieldId] = fieldValues[field]
  }
  \<close>
\<close>

fun bsdFormValues_of ::
  "env \<Rightarrow> database \<Rightarrow> gc_bsd_survey_row \<Rightarrow> js_object \<Rightarrow> string list \<Rightarrow> js_object \<Rightarrow> js_object" where
  "bsdFormValues_of e db survey fieldValues [] bsdFormValues = bsdFormValues"
| "bsdFormValues_of e db survey fieldValues (field # rest) bsdFormValues =
     bsdFormValues_of e db survey fieldValues rest
       (if truthy_str (survey_field_id e db survey field)
        then js_set bsdFormValues (the (survey_field_id e db survey field)) (js_get fieldValues field)
        else bsdFormValues)"

text \<open>
  The processors of the survey, run in order on a completed call:
  \<^verbatim>\<open>
  switch (processor) {
    case 'bsd-event-rsvper':
      if (fieldValues['event_id']) {
        let address = await getPrimaryAddress(person, trx)
        let phone   = await getPrimaryPhone(person, trx)
        let zip     = address.zip
        await BSDClient.noFailApiRequest('addRSVPToEvent',
          {email: email, zip: zip, phone: phone, event_id_obfuscated: fieldValues['event_id']})
      }
      break

    case 'bsd-form-submitter':
      let bsdFormValues = {}

      if (email) {
        fieldValues['Email'] = email
        ...
        await BSDClient.noFailApiRequest('processSignup', survey.signup_form_id, bsdFormValues)
      } else {
        log.error(`Could not find an e-mail address for constituent: ${localIntervieweeId}`)
      }
      break
  }
  \<close>
  The result is the error thrown, if any, and the CRM requests made.
\<close>

fun run_processors ::
  "env \<Rightarrow> database \<Rightarrow> gc_bsd_survey_row \<Rightarrow> person_row \<Rightarrow> string option \<Rightarrow> string list
     \<Rightarrow> js_object \<Rightarrow> api_request list \<Rightarrow> (js_error + unit) \<times> api_request list" where
  "run_processors e db survey person eml [] fieldValues lg = (Inr (), lg)"
| "run_processors e db survey person eml (processor # rest) fieldValues lg =
     (if processor = ''bsd-event-rsvper'' then
        (if truthy (js_get fieldValues ''event_id'') then
           (case getPrimaryAddress db person of
              None \<Rightarrow> (Inl TypeError, lg)
            | Some address \<Rightarrow>
               (let req = AddRSVPToEvent eml (zip address) (getPrimaryPhone db person)
                            (js_get fieldValues ''event_id'')
                in case noFailApiRequest e req of
                     Inl err \<Rightarrow> (Inl err, lg @ [req])
                   | Inr _ \<Rightarrow> run_processors e db survey person eml rest fieldValues (lg @ [req])))
         else run_processors e db survey person eml rest fieldValues lg)
      else if processor = ''bsd-form-submitter'' then
        (if truthy_str eml then
           (let fieldValues' = js_set fieldValues ''Email'' (JStr (the eml));
                req = ProcessSignup (survey_signup_form_id survey)
                        (bsdFormValues_of e db survey fieldValues' (map fst fieldValues') [])
            in case noFailApiRequest e req of
                 Inl err \<Rightarrow> (Inl err, lg @ [req])
               | Inr _ \<Rightarrow> run_processors e db survey person eml rest fieldValues' (lg @ [req]))
         else run_processors e db survey person eml rest fieldValues lg)
      else run_processors e db survey person eml rest fieldValues lg)"

text \<open>
  The two messages of the checks on the assigned call:
  \<^verbatim>\<open>
  throw new Error(`No assigned call found when caller ${caller.id} submitted call survey for interviwee ${localIntervieweeId}`)
  ...
  throw new Error('Assigned call does not match submitted call info.\n assignedCallInfo:' + JSON.stringify(assignedCallInfo) + '\nsubmittedCallInfo:' + JSON.stringify(submittedCallInfo))
  \<close>
\<close>

definition noAssignedCall :: "ident \<Rightarrow> ident \<Rightarrow> js_error" where
  "noAssignedCall caller localIntervieweeId =
     Error (''No assigned call found when caller '' @ caller
            @ '' submitted call survey for interviwee '' @ localIntervieweeId)"

definition stringify_callInfo :: "ident \<times> ident \<times> ident \<Rightarrow> string" where
  \<open>stringify_callInfo info =
     (case info of (caller, interviewee, assignment) \<Rightarrow>
        ''{"callerId":'' @ json_quote caller @ '',"intervieweeId":'' @ json_quote interviewee
        @ '',"callAssignmentId":'' @ json_quote assignment @ ''}'')\<close>

definition callMismatch :: "ident \<times> ident \<times> ident \<Rightarrow> ident \<times> ident \<times> ident \<Rightarrow> js_error" where
  "callMismatch assignedCallInfo submittedCallInfo =
     Error (''Assigned call does not match submitted call info.'' @ [CHR 0x0A]
            @ '' assignedCallInfo:'' @ stringify_callInfo assignedCallInfo @ [CHR 0x0A]
            @ ''submittedCallInfo:'' @ stringify_callInfo submittedCallInfo)"

text \<open>
  The handler of the transaction of \<^verbatim>\<open>SubmitCallSurvey\<close>; every query in it is
  \<^verbatim>\<open>.transacting(trx)\<close>.
  \<^verbatim>\<open>
  let assignedCall = await knex('bsd_assigned_calls')
    .transacting(trx)
    .where('caller_id', caller.id)
    .where('call_assignment_id', localCallAssignmentId)
    .first()

  if (!assignedCall) { throw new Error(...) }

  let assignedCallInfo = {
    callerId: assignedCall.caller_id,
    intervieweeId: assignedCall.interviewee_id,
    callAssignmentId: assignedCall.call_assignment_id
  }
  let submittedCallInfo = {
    callerId: caller.id,
    intervieweeId: localIntervieweeId,
    callAssignmentId: localCallAssignmentId
  }
  Object.keys(assignedCallInfo).forEach((key) => {
    if (assignedCallInfo[key] !== submittedCallInfo[key]) { throw new Error(...) }
  })

  let callAssignment = await knex('bsd_call_assignments')
    .transacting(trx).where('id', localCallAssignmentId).first()
  let survey = await knex('gc_bsd_surveys')
    .transacting(trx).where('id', callAssignment.gc_bsd_survey_id).first()
  let fieldValues = JSON.parse(surveyFieldValues)
  fieldValues['person'] = await knex('bsd_people')
    .transacting(trx).where('cons_id', localIntervieweeId).first()
  let person           = fieldValues['person']
  let email            = await getPrimaryEmail(person, trx)
  let processorsLength = survey.processors.length

  if (completed && processorsLength > 0) { ... }

  let promises = [
    knex('bsd_assigned_calls').transacting(trx).where('id', assignedCall.id).del(),
    knex.insertAndFetch('bsd_calls', {
      completed: completed,
      attempted_at: new Date(),
      left_voicemail: leftVoicemail,
      sent_text: sentText,
      reason_not_completed: reasonNotCompleted,
      caller_id: caller.id,
      interviewee_id: assignedCall.interviewee_id,
      call_assignment_id: assignedCall.call_assignment_id
    }, {transaction: trx})
  ]
  await Promise.all(promises)
  return caller
  \<close>
\<close>

definition record_call ::
  "env \<Rightarrow> user_row \<Rightarrow> submitCallSurvey_input \<Rightarrow> assigned_call_row \<Rightarrow> database \<Rightarrow> database" where
  "record_call e caller inp assignedCall db =
     db\<lparr>bsd_assigned_calls :=
          filter (\<lambda>r. ac_id r \<noteq> ac_id assignedCall) (bsd_assigned_calls db),
        bsd_calls := bsd_calls db @
          [\<lparr>call_id = next_id db,
            call_completed = completed inp,
            attempted_at = now e,
            left_voicemail = leftVoicemail inp,
            sent_text = sentText inp,
            reason_not_completed = reasonNotCompleted inp,
            call_caller_id = user_id caller,
            call_interviewee_id = ac_interviewee_id assignedCall,
            call_call_assignment_id = ac_call_assignment_id assignedCall\<rparr>],
        seq := next_id db\<rparr>"

definition submitCallSurvey_handler ::
  "env \<Rightarrow> user_row \<Rightarrow> submitCallSurvey_input \<Rightarrow> ident \<Rightarrow> ident \<Rightarrow> database
     \<Rightarrow> (js_error + user_row \<times> database) \<times> api_request list" where
  "submitCallSurvey_handler e caller inp localIntervieweeId localCallAssignmentId db =
     (case find (\<lambda>r. ac_caller_id r = user_id caller
                    \<and> ac_call_assignment_id r = localCallAssignmentId)
             (bsd_assigned_calls db) of
        None \<Rightarrow> (Inl (noAssignedCall (user_id caller) localIntervieweeId), [])
      | Some assignedCall \<Rightarrow>
         (let assignedCallInfo = (ac_caller_id assignedCall, ac_interviewee_id assignedCall,
                                  ac_call_assignment_id assignedCall);
              submittedCallInfo = (user_id caller, localIntervieweeId, localCallAssignmentId)
          in if ac_caller_id assignedCall \<noteq> user_id caller
                \<or> ac_interviewee_id assignedCall \<noteq> localIntervieweeId
                \<or> ac_call_assignment_id assignedCall \<noteq> localCallAssignmentId
             then (Inl (callMismatch assignedCallInfo submittedCallInfo), [])
             else
              (case find (\<lambda>r. ca_id r = localCallAssignmentId) (bsd_call_assignments db) of
                 None \<Rightarrow> (Inl TypeError, [])
               | Some assignment \<Rightarrow>
                  (let survey = find (\<lambda>r. survey_id r = gc_bsd_survey_id assignment)
                                  (gc_bsd_surveys db)
                   in case JSON_parse e (surveyFieldValues inp) of
                        Unparsable \<Rightarrow> (Inl SyntaxError, [])
                      | NonObject \<Rightarrow> (Inl TypeError, [])
                      | Object parsedValues \<Rightarrow>
                         (let person = find (\<lambda>r. cons_id r = localIntervieweeId) (bsd_people db);
                              fieldValues = js_set parsedValues ''person'' (person_object person)
                          in case person of
                               None \<Rightarrow> (Inl TypeError, [])
                             | Some p \<Rightarrow>
                                (let eml = getPrimaryEmail db p
                                 in case survey of
                                      None \<Rightarrow> (Inl TypeError, [])
                                    | Some sv \<Rightarrow>
                                       (case (if completed inp \<and> length (processors sv) > 0
                                              then run_processors e db sv p eml (processors sv)
                                                     fieldValues []
                                              else (Inr (), [])) of
                                          (Inl err, lg) \<Rightarrow> (Inl err, lg)
                                        | (Inr _, lg) \<Rightarrow>
                                            (Inr (caller, record_call e caller inp assignedCall db),
                                             lg))))))))"

text \<open>
  \<^verbatim>\<open>
  mutateAndGetPayload: async({callAssignmentId, intervieweeId, completed, ...}, {rootValue}) => {
    authRequired(rootValue)

    let caller             = rootValue.user
    let localIntervieweeId = fromGlobalId(intervieweeId).id
    let localCallAssignmentId = ...

    return knex.transaction(async(trx) => { ... })
  }
  \<close>
\<close>

definition submitCallSurvey ::
  "env \<Rightarrow> session \<Rightarrow> submitCallSurvey_input \<Rightarrow> database
     \<Rightarrow> (js_error + user_row) \<times> database \<times> api_request list" where
  "submitCallSurvey e s inp db =
     (case authRequired s of
        Inl err \<Rightarrow> (Inl err, db, [])
      | Inr _ \<Rightarrow>
         (case user s of
            None \<Rightarrow> (Inl TypeError, db, [])
          | Some caller \<Rightarrow>
             transaction
               (submitCallSurvey_handler e caller inp
                  (snd (fromGlobalId e (intervieweeId inp)))
                  (localIdOf e ''CallAssignment'' (callAssignmentId inp)))
               db))"

section \<open>Operations for administrators\<close>

text \<open>
  Numbers are doubles. A number is kept as the numeral that denotes it, so that nothing is
  rounded before it has to be: \<^verbatim>\<open>Decimal negative m x\<close> stands for the double nearest to
  \<open>m \<sqdot> 10\<^sup>x\<close>, with the sign in front. What the module does with a number is to compare it
  with whole numbers, and that is \<^verbatim>\<open>number_is\<close>: whether the double is the whole number
  \<open>n\<close>. With \<open>k\<close> the number of binary digits of \<open>n\<close>, the doubles next to \<open>n\<close> are
  \<open>2\<^sup>k\<^sup>-\<^sup>5\<^sup>3\<close> away (half that below a power of two), a numeral is rounded to the nearest
  double, and half way to the double with the even mantissa; the bounds are compared
  after scaling by \<open>2\<^sup>5\<^sup>5\<close> and by the power of ten.
\<close>

datatype number = NaN | Infinity bool | Decimal bool nat int

fun bit_length :: "nat \<Rightarrow> nat" where
  "bit_length n = (if n = 0 then 0 else Suc (bit_length (n div 2)))"

definition nearest_double_is :: "nat \<Rightarrow> int \<Rightarrow> nat \<Rightarrow> bool" where
  "nearest_double_is m x a =
     (let k = bit_length a;
          mantissa = (if k < 53 then a * 2 ^ (53 - k) else a div 2 ^ (k - 53));
          below = a * 2 ^ 55 - (if a = 2 ^ (k - 1) then 2 ^ k else 2 ^ (k + 1));
          above = a * 2 ^ 55 + 2 ^ (k + 1);
          v = m * 2 ^ 55 * (if 0 \<le> x then 10 ^ nat x else 1);
          scale = (if 0 \<le> x then 1 else 10 ^ nat (- x))
      in 0 < a \<and> k \<le> 1024 \<and> a mod 2 ^ (k - 53) = 0
         \<and> (if even mantissa then below * scale \<le> v \<and> v \<le> above * scale
            else below * scale < v \<and> v < above * scale))"

definition number_is :: "number \<Rightarrow> int \<Rightarrow> bool" where
  "number_is v n =
     (case v of
        NaN \<Rightarrow> False
      | Infinity negative \<Rightarrow> False
      | Decimal negative m x \<Rightarrow>
         (if n = 0 then m = 0 \<or> (x < 0 \<and> m * 2 ^ 1075 \<le> 10 ^ nat (- x))
          else negative = (n < 0) \<and> nearest_double_is m x (nat \<bar>n\<bar>)))"

text \<open>
  White space is what \<^verbatim>\<open>trim\<close>, \<^verbatim>\<open>parseInt\<close> and \<^verbatim>\<open>Number\<close> skip: the white space
  and the line terminators of the language.
\<close>

definition is_space :: "char \<Rightarrow> bool" where
  "is_space c =
     (c \<in> set [CHR '' '', CHR 0x09, CHR 0x0A, CHR 0x0B, CHR 0x0C, CHR 0x0D, CHR 0xA0])"

definition trim :: "string \<Rightarrow> string" where
  "trim s = rev (dropWhile is_space (rev (dropWhile is_space s)))"

text \<open>
  \<^verbatim>\<open>parseInt(text, 10)\<close>: leading white space, a sign, then digits as far as they go;
  \<^verbatim>\<open>NaN\<close> when no digit follows.
\<close>

definition parseInt10 :: "string \<Rightarrow> number" where
  "parseInt10 s =
     (let t = dropWhile is_space s;
          negative = (t \<noteq> [] \<and> hd t = CHR ''-'');
          u = (if t \<noteq> [] \<and> (hd t = CHR ''-'' \<or> hd t = CHR ''+'') then tl t else t);
          ds = takeWhile is_digit u
      in if ds = [] then NaN else Decimal negative (decimal_value ds) 0)"

text \<open>
  \<^verbatim>\<open>Number(value)\<close>. Of a string it is the number that the trimmed text denotes: nothing
  is zero; \<^verbatim>\<open>0x\<close>, \<^verbatim>\<open>0o\<close> and \<^verbatim>\<open>0b\<close> start a whole number in that radix;
  otherwise a sign, then \<^verbatim>\<open>Infinity\<close> or digits with an optional fraction and an optional
  exponent; anything else is \<^verbatim>\<open>NaN\<close>.
\<close>

definition radix_digit :: "char \<Rightarrow> nat" where
  "radix_digit c =
     (if c \<in> set ''ABCDEF'' then 10 + length (takeWhile (\<lambda>d. d \<noteq> c) ''ABCDEF'')
      else length (takeWhile (\<lambda>d. d \<noteq> c) ''0123456789abcdef''))"

definition radix_literal :: "nat \<Rightarrow> string \<Rightarrow> number" where
  "radix_literal r ds =
     (if ds \<noteq> [] \<and> list_all (\<lambda>c. radix_digit c < r) ds
      then Decimal False (foldl (\<lambda>n c. r * n + radix_digit c) 0 ds) 0 else NaN)"

definition decimal_literal :: "bool \<Rightarrow> string \<Rightarrow> number" where
  "decimal_literal negative u =
     (let whole = takeWhile is_digit u;
          r1 = dropWhile is_digit u;
          dot = (r1 \<noteq> [] \<and> hd r1 = CHR ''.'');
          fraction = (if dot then takeWhile is_digit (tl r1) else []);
          r2 = (if dot then dropWhile is_digit (tl r1) else r1);
          marked = (r2 \<noteq> [] \<and> (hd r2 = CHR ''e'' \<or> hd r2 = CHR ''E''));
          ex = (if marked then tl r2 else []);
          ex_negative = (ex \<noteq> [] \<and> hd ex = CHR ''-'');
          ed = (if ex \<noteq> [] \<and> (hd ex = CHR ''-'' \<or> hd ex = CHR ''+'') then tl ex else ex);
          m = decimal_value (whole @ fraction)
      in if whole = [] \<and> fraction = [] then NaN
         else if r2 = [] then Decimal negative m (- int (length fraction))
         else if marked \<and> ed \<noteq> [] \<and> list_all is_digit ed
           then Decimal negative m
                  ((if ex_negative then - int (decimal_value ed) else int (decimal_value ed))
                   - int (length fraction))
         else NaN)"

definition StringToNumber :: "string \<Rightarrow> number" where
  "StringToNumber s =
     (let t = trim s
      in if t = [] then Decimal False 0 0
         else if take 2 t \<in> set [''0x'', ''0X''] then radix_literal 16 (drop 2 t)
         else if take 2 t \<in> set [''0o'', ''0O''] then radix_literal 8 (drop 2 t)
         else if take 2 t \<in> set [''0b'', ''0B''] then radix_literal 2 (drop 2 t)
         else
          (let negative = (hd t = CHR ''-'');
               u = (if hd t = CHR ''-'' \<or> hd t = CHR ''+'' then tl t else t)
           in if u = ''Infinity'' then Infinity negative else decimal_literal negative u))"

fun to_number :: "jsval \<Rightarrow> number" where
  "to_number JUndefined = NaN"
| "to_number JNull = Decimal False 0 0"
| "to_number (JBool b) = Decimal False (if b then 1 else 0) 0"
| "to_number (JNum n) = Decimal (n < 0) (nat \<bar>n\<bar>) 0"
| "to_number (JStr s) = StringToNumber s"
| "to_number (JDate t) = Decimal (t < 0) (nat \<bar>t\<bar>) 0"
| "to_number (JObj kvs) = NaN"

text \<open>
  What a query compares a column of ids with: a text, which the column has to equal, or a
  number, which the column has to be; the column holds whole numbers in decimal.
\<close>

datatype id_param = Text ident | Numeric number

definition whole_number :: "string \<Rightarrow> int option" where
  "whole_number s =
     (let negative = (s \<noteq> [] \<and> hd s = CHR ''-'');
          ds = (if negative then tl s else s)
      in if ds \<noteq> [] \<and> list_all is_digit ds
         then Some (if negative then - int (decimal_value ds) else int (decimal_value ds))
         else None)"

definition matches_id :: "id_param \<Rightarrow> ident \<Rightarrow> bool" where
  "matches_id p column =
     (case p of
        Text s \<Rightarrow> column = s
      | Numeric v \<Rightarrow> (case whole_number column of None \<Rightarrow> False | Some n \<Rightarrow> number_is v n))"

text \<open>
  \<^verbatim>\<open>
  const SharedListContainer = {
    id: 1,
    _type: 'list_container'
  }
  ...
  listContainer: {
    type: GraphQLListContainer,
    resolve: (parent, _, {rootValue}) => {
      adminRequired(rootValue)
      return SharedListContainer
    }
  },
  \<close>
\<close>

definition SharedListContainer :: "nat \<times> string" where
  "SharedListContainer = (1, ''list_container'')"

definition listContainer :: "session \<Rightarrow> js_error + nat \<times> string" where
  "listContainer s =
     (case adminRequired s of Inl err \<Rightarrow> Inl err | Inr _ \<Rightarrow> Inr SharedListContainer)"

text \<open>
  \<^verbatim>\<open>
  const markEventsReviewed  = async(ids, pendingReview = false) => {
    await knex('gc_bsd_events')
      .whereIn('event_id', ids)
      .update('pending_review', pendingReview)
    return ids
  }
  ...
  mutateAndGetPayload: async({ids, pendingReview}, {rootValue}) => {
    adminRequired(rootValue)
    const localIds = ids.map((id) => fromGlobalId(id).id)
    log.info(...)
    return await markEventsReviewed(localIds, pendingReview)
  }
  \<close>
  An argument that is left out takes its default.
\<close>

definition markEventsReviewed :: "id_param list \<Rightarrow> bool \<Rightarrow> database \<Rightarrow> database" where
  "markEventsReviewed ids pendingReview db =
     db\<lparr>gc_bsd_events :=
          map (\<lambda>r. if list_ex (\<lambda>p. matches_id p (gce_event_id r)) ids
                    then r\<lparr>pending_review := pendingReview\<rparr> else r)
            (gc_bsd_events db)\<rparr>"

definition reviewEvents ::
  "env \<Rightarrow> session \<Rightarrow> string list \<Rightarrow> bool option \<Rightarrow> database
     \<Rightarrow> (js_error + ident list) \<times> database" where
  "reviewEvents e s ids pendingReview db =
     (case adminRequired s of
        Inl err \<Rightarrow> (Inl err, db)
      | Inr _ \<Rightarrow>
         (let localIds = map (\<lambda>gid. snd (fromGlobalId e gid)) ids
          in (Inr localIds,
              markEventsReviewed (map Text localIds)
                (case pendingReview of None \<Rightarrow> False | Some b \<Rightarrow> b) db)))"

text \<open>
  The mailer. \<^verbatim>\<open>Mailgun\<close> is built outside this module; a mail is sent, or the sending
  throws, as the environment says.
\<close>

definition send_mail :: "env \<Rightarrow> mail \<Rightarrow> js_error + unit" where
  "send_mail e m = (if mail_fails e m then Inl (Rejected ''mail'') else Inr ())"

text \<open>The key of a person, read from a column of an event; a loader refuses a key that is none.\<close>

fun ident_of :: "jsval \<Rightarrow> ident option" where
  "ident_of (JStr k) = Some k"
| "ident_of v = None"

definition event_in :: "ident list \<Rightarrow> js_object \<Rightarrow> bool" where
  "event_in ids ev = (js_get ev ''event_id'' \<in> set (map JStr ids))"

text \<open>
  One loop of the notification of a deletion, over the hosts or over the attendees:
  \<^verbatim>\<open>
  for (let i = 0; i < hostIds.length; i++) {
    let host      = await rootValue.loaders.bsdPeople.load(hostIds[i].creator_cons_id);
    let recipient = await getPrimaryEmail(host);
    if (recipient)
      await Mailgun.sendEventDeletionNotification({recipient, message: hostMessage, events})
  }
  \<close>
  The result says whether the loop ran to its end, and gives the mails sent.
\<close>

definition deletion_notification :: "string \<Rightarrow> string \<Rightarrow> mail" where
  "deletion_notification recipient hostMessage =
     \<lparr>mail_kind = ''EventDeletionNotification'', mail_recipients = [Some recipient],
      mail_subject = None, mail_text = Some hostMessage\<rparr>"

fun notify_people ::
  "env \<Rightarrow> database \<Rightarrow> string \<Rightarrow> ident option list \<Rightarrow> mail list \<Rightarrow> bool \<times> mail list" where
  "notify_people e db hostMessage [] sent = (True, sent)"
| "notify_people e db hostMessage (k # ks) sent =
     (case k of
        None \<Rightarrow> (False, sent)
      | Some key \<Rightarrow>
         (case load_bsdPeople db key of
            None \<Rightarrow> (False, sent)
          | Some person \<Rightarrow>
             (if truthy_str (getPrimaryEmail db person) then
                (let m = deletion_notification (the (getPrimaryEmail db person)) hostMessage
                 in case send_mail e m of
                      Inl err \<Rightarrow> (False, sent)
                    | Inr _ \<Rightarrow> notify_people e db hostMessage ks (sent @ [m]))
              else notify_people e db hostMessage ks sent)))"

text \<open>
  The block of \<^verbatim>\<open>DeleteEvents\<close> that writes to the hosts, the attendees and the user;
  whatever is thrown in it is caught and logged.
  \<^verbatim>\<open>
  try {
    if (hostMessage.length > 0) {
      const hostIds     = await knex('bsd_events').select('creator_cons_id').whereIn('event_id', localIds);
      const attendeeIds = await knex('bsd_event_attendees').select('attendee_cons_id', 'event_id').whereIn('event_id', localIds);
      const events      = await knex('bsd_events').select(...).whereIn('event_id', localIds);
      ...
      await Mailgun.sendEventDeletionNotification({recipient: rootValue.user.email, message: hostMessage, events})
    }
  }
  catch (ex) {
    log.error('Could not send deletion email')
    log.error(ex)
  }
  \<close>
\<close>

definition deletion_mails ::
  "env \<Rightarrow> database \<Rightarrow> user_row \<Rightarrow> ident list \<Rightarrow> string option \<Rightarrow> mail list" where
  "deletion_mails e db usr localIds hostMessage =
     (case hostMessage of
        None \<Rightarrow> []
      | Some msg \<Rightarrow>
         (if length msg > 0 then
            (let hostIds = [ident_of (js_get ev ''creator_cons_id'').
                              ev \<leftarrow> bsd_events db, event_in localIds ev];
                 attendeeIds = [Some (attendee_cons_id a).
                              a \<leftarrow> bsd_event_attendees db, attendee_event_id a \<in> set localIds]
             in case notify_people e db msg hostIds [] of
                  (False, sent) \<Rightarrow> sent
                | (True, sent) \<Rightarrow>
                   (case notify_people e db msg attendeeIds sent of
                      (False, sent') \<Rightarrow> sent'
                    | (True, sent') \<Rightarrow>
                       (let m = deletion_notification (user_email usr) msg
                        in case send_mail e m of
                             Inl err \<Rightarrow> sent'
                           | Inr _ \<Rightarrow> sent' @ [m])))
          else []))"

text \<open>
  \<^verbatim>\<open>
  mutateAndGetPayload: async({ids, hostMessage}, {rootValue}) => {
    adminRequired(rootValue)
    if (!rootValue.user.is_superuser && ids.length !== 1)
      throw new GraphQLError({
        status: 403,
        message: 'Your account is only authorized to delete one event at a time.'
      })
    let localIds = ids.map((id) => fromGlobalId(id).id)
    await BSDClient.deleteEvents(localIds)

    log.info(...)

    try { ... } catch (ex) { ... }

    await knex('bsd_events')
      .whereIn('event_id', localIds)
      .del()
    await markEventsReviewed(localIds)

    return localIds
  }
  \<close>
  The result is the value or the error, the database, the CRM requests made and the
  mails sent.
\<close>

definition oneEventAtATime :: js_error where
  "oneEventAtATime = newGraphQLError
     \<lparr>status = 403,
      message = ''Your account is only authorized to delete one event at a time.''\<rparr>"

definition deleteEvents ::
  "env \<Rightarrow> session \<Rightarrow> string list \<Rightarrow> string option \<Rightarrow> database
     \<Rightarrow> (js_error + ident list) \<times> database \<times> api_request list \<times> mail list" where
  "deleteEvents e s ids hostMessage db =
     (case adminRequired s of
        Inl err \<Rightarrow> (Inl err, db, [], [])
      | Inr _ \<Rightarrow>
         (case user s of
            None \<Rightarrow> (Inl TypeError, db, [], [])
          | Some usr \<Rightarrow>
             (if \<not> is_superuser usr \<and> length ids \<noteq> 1 then (Inl oneEventAtATime, db, [], [])
              else
               (let localIds = map (\<lambda>gid. snd (fromGlobalId e gid)) ids;
                    req = DeleteEvents localIds
                in case apiRequest e req of
                     Inl err \<Rightarrow> (Inl err, db, [req], [])
                   | Inr _ \<Rightarrow>
                      (let sent = deletion_mails e db usr localIds hostMessage;
                           db1 = db\<lparr>bsd_events :=
                                     filter (\<lambda>ev. \<not> event_in localIds ev) (bsd_events db)\<rparr>
                       in (Inr localIds, markEventsReviewed (map Text localIds) False db1, [req],
                           sent))))))"

text \<open>
  \<^verbatim>\<open>
  mutateAndGetPayload: async({ids, replyTo, bcc, subject, message, target}, {rootValue}) => {
    adminRequired(rootValue)
    let localIds   = ids.map((id) => fromGlobalId(id).id)
    let recipients = []
    ...
    if (target === 'host' || target === 'hostAndAttendees') {
      const hostIds = await knex('bsd_events').select('creator_cons_id').whereIn('event_id', localIds);
      for (let i = 0; i < hostIds.length; i++) {
        let host      = await rootValue.loaders.bsdPeople.load(hostIds[i].creator_cons_id);
        let recipient = await getPrimaryEmail(host)
        recipients.push(recipient)
      }
    }
    if (target === 'attendees' || target === 'hostAndAttendees') {
      const attendeeIds = await knex('bsd_event_attendees').select('attendee_cons_id', 'event_id').whereIn('event_id', localIds);
      for (let i = 0; i < attendeeIds.length; i++) {
        let attendee  = await rootValue.loaders.bsdPeople.load(attendeeIds[i].attendee_cons_id);
        let recipient = await getPrimaryEmail(attendee)
        if (recipient)
          recipients.push(recipient)
      }
    }
    const email = {
      from: 'info@ourrevolution.com',
      'h:Reply-To': replyTo,
      to: 'info@ourrevolution.com',
      bcc: [...bcc, ...recipients],
      subject: subject,
      text: message
    }
    const result = await Mailgun.send(email)
    return {success: true, message: `Message sent to ${recipients.length} recipients.`}
  }
  \<close>
  A host without a primary e-mail is pushed as \<^verbatim>\<open>null\<close>, an attendee without one is
  left out. Nothing is written to the database.
\<close>

fun collect_recipients ::
  "database \<Rightarrow> bool \<Rightarrow> ident option list \<Rightarrow> string option list
     \<Rightarrow> js_error + string option list" where
  "collect_recipients db keep_null [] recipients = Inr recipients"
| "collect_recipients db keep_null (k # ks) recipients =
     (case k of
        None \<Rightarrow> Inl TypeError
      | Some key \<Rightarrow>
         (case load_bsdPeople db key of
            None \<Rightarrow> Inl TypeError
          | Some person \<Rightarrow>
             collect_recipients db keep_null ks
               (if keep_null \<or> truthy_str (getPrimaryEmail db person)
                then recipients @ [getPrimaryEmail db person] else recipients)))"

definition emailHostAttendees ::
  "env \<Rightarrow> session \<Rightarrow> string list \<Rightarrow> string option \<Rightarrow> string list option \<Rightarrow> string option
     \<Rightarrow> string option \<Rightarrow> string option \<Rightarrow> database \<Rightarrow> (js_error + string) \<times> mail list" where
  "emailHostAttendees e s ids replyTo bcc subject msg target db =
     (case adminRequired s of
        Inl err \<Rightarrow> (Inl err, [])
      | Inr _ \<Rightarrow>
         (let localIds = map (\<lambda>gid. snd (fromGlobalId e gid)) ids;
              hostIds = [ident_of (js_get ev ''creator_cons_id'').
                           ev \<leftarrow> bsd_events db, event_in localIds ev];
              attendeeIds = [Some (attendee_cons_id a).
                           a \<leftarrow> bsd_event_attendees db, attendee_event_id a \<in> set localIds]
          in case (if target = Some ''host'' \<or> target = Some ''hostAndAttendees''
                   then collect_recipients db True hostIds [] else Inr []) of
               Inl err \<Rightarrow> (Inl err, [])
             | Inr hosts \<Rightarrow>
                (case (if target = Some ''attendees'' \<or> target = Some ''hostAndAttendees''
                       then collect_recipients db False attendeeIds hosts else Inr hosts) of
                   Inl err \<Rightarrow> (Inl err, [])
                 | Inr recipients \<Rightarrow>
                    (case bcc of
                       None \<Rightarrow> (Inl TypeError, [])
                     | Some bs \<Rightarrow>
                        (let m = \<lparr>mail_kind = ''send'',
                                  mail_recipients = map Some bs @ recipients,
                                  mail_subject = subject, mail_text = msg\<rparr>
                         in case send_mail e m of
                              Inl err \<Rightarrow> (Inl err, [])
                            | Inr _ \<Rightarrow>
                               (Inr (''Message sent to '' @ string_of_nat (length recipients)
                                     @ '' recipients.''), [m]))))))"

record createAdminEventEmail_input =
  hostEmail :: string
  senderEmail :: string
  adminEmail :: string
  hostEmailSubject :: string
  hostMessage :: string
  senderMessage :: string
  recipients :: "string list option"
  toolPassword :: string
  eventId :: string

definition admin_event_invite :: "createAdminEventEmail_input \<Rightarrow> string option \<Rightarrow> mail" where
  "admin_event_invite inp recipientAddress =
     \<lparr>mail_kind = ''AdminEventInvite'', mail_recipients = [recipientAddress],
      mail_subject = Some (hostEmailSubject inp), mail_text = Some (hostMessage inp)\<rparr>"

text \<open>
  The transaction of \<^verbatim>\<open>CreateAdminEventEmail\<close>, one recipient after the other:
  \<^verbatim>\<open>
  knex.transaction(async(trx) => {
    for (let i = 0; i < recipients.length; i++) {
      let recipientId    = fromGlobalId(recipients[i]).id
      let recipient      = await rootValue.loaders.bsdPeople.load(recipientId)
      let recipientEmail = await getPrimaryEmail(recipient)

      await Mailgun.sendAdminEventInvite({ ..., recipientAddress: recipientEmail, ... })

      await knex.insertAndFetch('communications',
        { person_id: recipientId, type: 'EMAIL' }, {transaction: trx})
    }
  })
  \<close>
\<close>

fun invite_recipients ::
  "env \<Rightarrow> createAdminEventEmail_input \<Rightarrow> string list \<Rightarrow> database \<Rightarrow> mail list
     \<Rightarrow> (js_error + unit \<times> database) \<times> mail list" where
  "invite_recipients e inp [] db sent = (Inr ((), db), sent)"
| "invite_recipients e inp (r # rs) db sent =
     (let recipientId = snd (fromGlobalId e r)
      in case load_bsdPeople db recipientId of
           None \<Rightarrow> (Inl TypeError, sent)
         | Some recipient \<Rightarrow>
            (let m = admin_event_invite inp (getPrimaryEmail db recipient)
             in case send_mail e m of
                  Inl err \<Rightarrow> (Inl err, sent)
                | Inr _ \<Rightarrow>
                   invite_recipients e inp rs
                     (db\<lparr>communications := communications db @
                           [\<lparr>comm_id = next_id db, comm_person_id = recipientId,
                             comm_type = ''EMAIL''\<rparr>],
                         seq := next_id db\<rparr>)
                     (sent @ [m])))"

text \<open>
  \<^verbatim>\<open>
  mutateAndGetPayload: async({hostEmail, ..., recipients, toolPassword, eventId}, {rootValue}) => {

    adminRequired(rootValue)

    // TODO: remove this goofy protection when the tool is ready
    // for all admins to use it.
    if (toolPassword !== 'solidarity') {
      throw new GraphQLError({ status: 401, message: 'Incorrect password for this tool.' })
    }

    await Mailgun.sendAdminEventInvite({ ..., recipientAddress: adminEmail, ... })

    let existingLookup = await knex.table('fast_fwd_request')
      .select('email_sent_dt')
      .where('event_id', parseInt(fromGlobalId(eventId).id, 10));

    if (existingLookup.length > 0 && existingLookup[0]['email_sent_dt']) {
      throw new GraphQLError({ status: 403, message: 'Fast Forward has already been sent for this event.' })
    }

    knex.transaction(async(trx) => { ... })

    // somewhat hackish; catches Test Mode.
    // don't mark it as sent until it goes out to volunteers.
    if (recipients.length > 0) {
      await knex.table('fast_fwd_request')
        .where('event_id', fromGlobalId(eventId).id)
        .update({ 'email_sent_dt': moment().format('YYYY-MM-DD HH:mm:ss') })
    }
    ...
    return []
  }
  \<close>
  The transaction is started and not awaited: what it throws reaches nobody, and the
  model gives the database as it is once the transaction has ended. The transaction
  writes to \<^verbatim>\<open>communications\<close> only and the rest of the mutation to
  \<^verbatim>\<open>fast_fwd_request\<close> only, so the order of the two does not matter.
\<close>

definition createAdminEventEmail ::
  "env \<Rightarrow> session \<Rightarrow> createAdminEventEmail_input \<Rightarrow> database
     \<Rightarrow> (js_error + unit) \<times> database \<times> mail list" where
  "createAdminEventEmail e s inp db =
     (case adminRequired s of
        Inl err \<Rightarrow> (Inl err, db, [])
      | Inr _ \<Rightarrow>
         (if toolPassword inp \<noteq> ''solidarity'' then
            (Inl (newGraphQLError
                   \<lparr>status = 401, message = ''Incorrect password for this tool.''\<rparr>), db, [])
          else
           (let first_mail = admin_event_invite inp (Some (adminEmail inp))
            in case send_mail e first_mail of
                 Inl err \<Rightarrow> (Inl err, db, [])
               | Inr _ \<Rightarrow>
                  (let localId = snd (fromGlobalId e (eventId inp));
                       existingLookup =
                         filter (\<lambda>r. matches_id (Numeric (parseInt10 localId)) (ffr_event_id r))
                           (fast_fwd_request db)
                   in if length existingLookup > 0
                         \<and> truthy_str (email_sent_dt (hd existingLookup))
                      then (Inl (newGraphQLError
                              \<lparr>status = 403,
                               message = ''Fast Forward has already been sent for this event.''\<rparr>),
                            db, [first_mail])
                      else
                       (case recipients inp of
                          None \<Rightarrow> (Inl TypeError, db, [first_mail])
                        | Some rs \<Rightarrow>
                           (case transaction (\<lambda>trx. invite_recipients e inp rs trx [first_mail]) db of
                              (outcome, db1, sent) \<Rightarrow>
                                (Inr (),
                                 (if length rs > 0 then
                                    db1\<lparr>fast_fwd_request :=
                                          map (\<lambda>r. if ffr_event_id r = localId
                                                    then r\<lparr>email_sent_dt := Some (timestamp_text e)\<rparr>
                                                    else r)
                                            (fast_fwd_request db1)\<rparr>
                                  else db1),
                                 sent)))))))"

text \<open>
  Strings, as \<^verbatim>\<open>CreateCallAssignment\<close> treats the text of a group:
  \<^verbatim>\<open>query.toLowerCase().trim().replace(/;*$/, '')\<close> and \<^verbatim>\<open>query.indexOf(word) !== -1\<close>.
  The capital letters are A to Z and, above ASCII, the code units from 0xC0 to 0xDE but
  for the multiplication sign 0xD7; the small letter is 32 further on.
\<close>

definition toLowerCase :: "string \<Rightarrow> string" where
  "toLowerCase s =
     map (\<lambda>c. let n = (of_char c :: nat)
              in if (65 \<le> n \<and> n \<le> 90) \<or> (192 \<le> n \<and> n \<le> 222 \<and> n \<noteq> 215)
                 then char_of (n + 32) else c) s"

definition strip_semicolons :: "string \<Rightarrow> string" where
  "strip_semicolons s = rev (dropWhile (\<lambda>c. c = CHR '';'') (rev s))"

fun contains :: "string \<Rightarrow> string \<Rightarrow> bool" where
  "contains [] word = (word = [])"
| "contains (c # cs) word = (prefix word (c # cs) \<or> contains cs word)"

record createCallAssignment_input =
  cca_name :: string
  intervieweeGroup :: string
  surveyId :: ident
  renderer :: string
  cca_processors :: "string list option"
  instructions :: "string option"
  startDate :: "int option"
  endDate :: "int option"
  callerGroupId :: "string option"

text \<open>
  What the two \<^verbatim>\<open>catch\<close> blocks of \<^verbatim>\<open>CreateCallAssignment\<close> make of a failure of the
  CRM:
  \<^verbatim>\<open>
  if (err && err.response && err.response.statusCode === 409)
    throw new GraphQLError({ status: 400, message: 'Provided survey ID does not exist in BSD.' })
  else
    throw err
  \<close>
\<close>

fun not_in_BSD :: "string \<Rightarrow> api_failure \<Rightarrow> js_error" where
  "not_in_BSD msg (HttpError code m) =
     (if code = 409 then newGraphQLError \<lparr>status = 400, message = msg\<rparr> else Rejected m)"
| "not_in_BSD msg f = Rejected (failure_message f)"

text \<open>
  The survey of the CRM behind the call assignment, fetched and stored when it is not yet
  known:
  \<^verbatim>\<open>
  let underlyingSurvey = await knex('bsd_surveys')
    .transacting(trx).where('signup_form_id', surveyId).first()

  if (!underlyingSurvey) {
    try {
      let BSDSurveyResponse       = await BSDClient.getForm(surveyId)
      let model                   = modelFromBSDResponse(BSDSurveyResponse, 'bsd_surveys')
      let BSDSurveyFieldsResponse = await BSDClient.listFormFields(surveyId)
      underlyingSurvey            = await knex.insertAndFetch('bsd_surveys', model, {
        transaction: trx, idField: 'signup_form_id'
      })
      let fieldInsertionPromises  = BSDSurveyFieldsResponse.map(async(field) => {
        let model   = modelFromBSDResponse(field, 'bsd_survey_fields')
        let dbField = await knex('bsd_survey_fields').where('signup_form_field_id', model.signup_form_field_id).first()
        return dbField || knex('bsd_survey_fields').insert(model)
      })
      await Promise.all(fieldInsertionPromises);
    } catch (err) { ... }
  }
  \<close>
  The fields are looked up and inserted without \<^verbatim>\<open>.transacting(trx)\<close>: they are
  written outside the transaction and stay when it is rolled back. All the lookups are
  issued before the first insert, so each field is checked against the table as it was.
  The result is the error or the transaction's view with the fields to insert outside it,
  and the CRM requests made.
\<close>

definition ensure_survey ::
  "env \<Rightarrow> ident \<Rightarrow> database \<Rightarrow> database
     \<Rightarrow> (js_error + database \<times> survey_field_row list) \<times> api_request list" where
  "ensure_survey e sid outer db =
     (case find (\<lambda>r. bs_signup_form_id r = sid) (bsd_surveys db) of
        Some underlyingSurvey \<Rightarrow> (Inr (db, []), [])
      | None \<Rightarrow>
         (case api_fails e (GetForm sid) of
            Some f \<Rightarrow>
              (Inl (not_in_BSD ''Provided survey ID does not exist in BSD.'' f), [GetForm sid])
          | None \<Rightarrow>
             (case api_fails e (ListFormFields sid) of
                Some f \<Rightarrow>
                  (Inl (not_in_BSD ''Provided survey ID does not exist in BSD.'' f),
                   [GetForm sid, ListFormFields sid])
              | None \<Rightarrow>
                  (Inr (db\<lparr>bsd_surveys := bsd_surveys db @ [getForm_response e sid]\<rparr>,
                        filter (\<lambda>field. find (\<lambda>r. signup_form_field_id r
                                                     = signup_form_field_id field)
                                          (bsd_survey_fields outer) = None)
                          (listFormFields_response e sid)),
                   [GetForm sid, ListFormFields sid]))))"

text \<open>
  The group of interviewees: a constituent group of the CRM when the text is a number,
  \<^verbatim>\<open>
  if (/^\d+$/.test(groupText)) {
    let underlyingGroup = await knex('bsd_groups')
      .transacting(trx).where('cons_group_id', groupText).first()
    if (!underlyingGroup) {
      try {
        let BSDGroupResponse = await BSDClient.getConstituentGroup(groupText)
        let model            = modelFromBSDResponse(BSDGroupResponse, 'bsd_groups')
        underlyingGroup      = await knex.insertAndFetch('bsd_groups', model, {...})
      } catch (err) { ... 'Provided group ID does not exist in BSD.' ... }
    }
    let consGroupID = groupText
    group           = await knex('gc_bsd_groups')
      .transacting(trx).where('cons_group_id', consGroupID).first()
    if (!group)
      group = await knex.insertAndFetch('gc_bsd_groups', {'cons_group_id': consGroupID}, {transaction: trx})
  }
  \<close>
  and a query otherwise:
  \<^verbatim>\<open>
  else {
    let query = groupText
    query     = query.toLowerCase().trim().replace(/;*$/, '')

    if (query.indexOf('drop') !== -1 ||
        query.indexOf('truncate') !== -1 ||
        query.indexOf('delete') !== -1 ||
        query.indexOf('update') !== -1) {
      throw new GraphQLError({ status: 400, message: 'Cannot use DROP in your SQL' })
    }

    if (query !== EVERYONE_GROUP) {
      let limitedQuery = query
      if (query.indexOf('order by') === -1)
        limitedQuery = limitedQuery + ' order by cons_id'
      limitedQuery = `${limitedQuery} limit 1 offset 0`
      try {
        await knex.raw(limitedQuery)
      } catch (ex) {
        let error = `Invalid SQL query: ${ex.message}`
        throw new GraphQLError({ status: 400, message: error })
      }
    }

    group = await knex('gc_bsd_groups')
      .transacting(trx).where('query', query).first()
    if (!group)
      group = await knex.insertAndFetch('gc_bsd_groups', {query: query}, {transaction: trx})
  }
  \<close>
  Of the raw query only its success or failure is modelled.
\<close>

definition insert_gc_bsd_group ::
  "ident option \<Rightarrow> string option \<Rightarrow> database \<Rightarrow> gc_bsd_group_row \<times> database" where
  "insert_gc_bsd_group cons_group query db =
     (let g = \<lparr>group_id = string_of_nat (next_id db), group_cons_group_id = cons_group,
                group_query = query\<rparr>
      in (g, db\<lparr>gc_bsd_groups := gc_bsd_groups db @ [g], seq := next_id db\<rparr>))"

definition ensure_group ::
  "env \<Rightarrow> string \<Rightarrow> database
     \<Rightarrow> (js_error + gc_bsd_group_row \<times> database) \<times> api_request list" where
  "ensure_group e groupText db =
     (if is_numeric_id groupText then
        (case (case find (\<lambda>r. bg_cons_group_id r = groupText) (bsd_groups db) of
                 Some underlyingGroup \<Rightarrow> (Inr db, [])
               | None \<Rightarrow>
                  (case api_fails e (GetConstituentGroup groupText) of
                     Some f \<Rightarrow>
                       (Inl (not_in_BSD ''Provided group ID does not exist in BSD.'' f),
                        [GetConstituentGroup groupText])
                   | None \<Rightarrow>
                       (Inr (db\<lparr>bsd_groups := bsd_groups db
                                   @ [getConstituentGroup_response e groupText]\<rparr>),
                        [GetConstituentGroup groupText]))) of
           (Inl err, lg) \<Rightarrow> (Inl err, lg)
         | (Inr db1, lg) \<Rightarrow>
            (case find (\<lambda>r. group_cons_group_id r = Some groupText) (gc_bsd_groups db1) of
               Some g \<Rightarrow> (Inr (g, db1), lg)
             | None \<Rightarrow> (Inr (insert_gc_bsd_group (Some groupText) None db1), lg)))
      else
        (let query = strip_semicolons (trim (toLowerCase groupText))
         in if contains query ''drop'' \<or> contains query ''truncate''
               \<or> contains query ''delete'' \<or> contains query ''update''
            then (Inl (newGraphQLError
                         \<lparr>status = 400, message = ''Cannot use DROP in your SQL''\<rparr>), [])
            else
             (case (if query \<noteq> EVERYONE_GROUP
                    then raw_query_fails e
                           ((if \<not> contains query ''order by'' then query @ '' order by cons_id''
                             else query) @ '' limit 1 offset 0'')
                    else None) of
                Some msg \<Rightarrow>
                  (Inl (newGraphQLError
                          \<lparr>status = 400, message = ''Invalid SQL query: '' @ msg\<rparr>), [])
              | None \<Rightarrow>
                 (case find (\<lambda>r. group_query r = Some query) (gc_bsd_groups db) of
                    Some g \<Rightarrow> (Inr (g, db), [])
                  | None \<Rightarrow> (Inr (insert_gc_bsd_group None (Some query) db), [])))))"

text \<open>
  The handler of the transaction of \<^verbatim>\<open>CreateCallAssignment\<close>:
  \<^verbatim>\<open>
  return knex.transaction(async(trx) => {
    ...
    survey = await knex.insertAndFetch('gc_bsd_surveys', {
      signup_form_id: surveyId,
      processors: processors
    }, {transaction: trx})
    ...
    startDate     = startDate || new Date()
    callerGroupId = callerGroupId ? fromGlobalId(callerGroupId).id : null

    return knex.insertAndFetch('bsd_call_assignments', {
      name: name,
      renderer: renderer,
      instructions: instructions,
      interviewee_group: group.id,
      gc_bsd_survey_id: survey.id,
      start_dt: startDate,
      end_dt: endDate,
      caller_group: callerGroupId
    }, {transaction: trx});
  })
  \<close>
  A survey created without processors is taken to have none.
\<close>

definition createCallAssignment_handler ::
  "env \<Rightarrow> createCallAssignment_input \<Rightarrow> database
     \<Rightarrow> (js_error + call_assignment_row \<times> database)
        \<times> (api_request list \<times> survey_field_row list)" where
  "createCallAssignment_handler e inp db =
     (case ensure_survey e (surveyId inp) db db of
        (Inl err, lg) \<Rightarrow> (Inl err, (lg, []))
      | (Inr (db1, new_fields), lg) \<Rightarrow>
         (let survey = \<lparr>survey_id = string_of_nat (next_id db1),
                         survey_signup_form_id = surveyId inp,
                         processors = (case cca_processors inp of None \<Rightarrow> [] | Some ps \<Rightarrow> ps)\<rparr>;
              db2 = db1\<lparr>gc_bsd_surveys := gc_bsd_surveys db1 @ [survey], seq := next_id db1\<rparr>
          in case ensure_group e (intervieweeGroup inp) db2 of
               (Inl err, lg') \<Rightarrow> (Inl err, (lg @ lg', new_fields))
             | (Inr (grp, db3), lg') \<Rightarrow>
                (let assignment =
                       \<lparr>ca_id = string_of_nat (next_id db3), ca_name = cca_name inp,
                        ca_renderer = renderer inp, ca_instructions = instructions inp,
                        interviewee_group = group_id grp, gc_bsd_survey_id = survey_id survey,
                        ca_start_dt = (case startDate inp of None \<Rightarrow> now e | Some d \<Rightarrow> d),
                        ca_end_dt = endDate inp,
                        caller_group =
                          (if truthy_str (callerGroupId inp)
                           then Some (snd (fromGlobalId e (the (callerGroupId inp))))
                           else None)\<rparr>
                 in (Inr (assignment,
                          db3\<lparr>bsd_call_assignments := bsd_call_assignments db3 @ [assignment],
                              seq := next_id db3\<rparr>),
                     (lg @ lg', new_fields)))))"

text \<open>
  \<^verbatim>\<open>
  mutateAndGetPayload: async({name, intervieweeGroup, surveyId, ...}, {rootValue}) => {

    adminRequired(rootValue)
    let groupText = intervieweeGroup
    let group     = null
    let survey    = null
    return knex.transaction(async(trx) => { ... })
  }
  \<close>
\<close>

definition createCallAssignment ::
  "env \<Rightarrow> session \<Rightarrow> createCallAssignment_input \<Rightarrow> database
     \<Rightarrow> (js_error + call_assignment_row) \<times> database \<times> api_request list" where
  "createCallAssignment e s inp db =
     (case adminRequired s of
        Inl err \<Rightarrow> (Inl err, db, [])
      | Inr _ \<Rightarrow>
         (case transaction (createCallAssignment_handler e inp) db of
            (res, db', (lg, new_fields)) \<Rightarrow>
              (res, db'\<lparr>bsd_survey_fields := bsd_survey_fields db' @ new_fields\<rparr>, lg)))"

text \<open>
  \<^verbatim>\<open>
  function eventFieldFromAPIField(field) {
    let mapFields = {
      'id': 'eventId',
      'hostId': 'creatorConsId',
      'startDate': 'startDt',
      'createDate': 'createDt',
      'localTimezone': 'startTz',
      'venueState': 'venueStateCd'
    }
    let newFieldName = field;
    Object.keys(mapFields).forEach((key) => {
        if (field === key)
          newFieldName = mapFields[key]
      }
    )
    return humps.decamelize(newFieldName);
  }
  \<close>
\<close>

definition mapFields :: "(string \<times> string) list" where
  "mapFields =
     [(''id'', ''eventId''), (''hostId'', ''creatorConsId''), (''startDate'', ''startDt''),
      (''createDate'', ''createDt''), (''localTimezone'', ''startTz''),
      (''venueState'', ''venueStateCd'')]"

definition eventFieldFromAPIField :: "env \<Rightarrow> string \<Rightarrow> string" where
  "eventFieldFromAPIField e field =
     decamelize e (case map_of mapFields field of None \<Rightarrow> field | Some newFieldName \<Rightarrow> newFieldName)"

text \<open>
  \<^verbatim>\<open>
  function eventFromAPIFields(fields) {
    let event = {}
    Object.keys(fields).forEach((fieldName) => {
      let newFieldName    = eventFieldFromAPIField(fieldName)
      event[newFieldName] = fields[fieldName]

      if (newFieldName === 'start_dt')
        event[newFieldName] = event[newFieldName].toISOString()
    })

    let idFields = ['event_id', 'creator_cons_id', 'event_type_id'];
    idFields.forEach((field) => {
      if (event[field]) {
        event[field] = fromGlobalId(event[field]).id
      }
    })

    return event
  }
  \<close>
  A start date that is no date has no \<^verbatim>\<open>toISOString\<close>, and an id that is no string
  cannot be decoded.
\<close>

fun rename_fields :: "env \<Rightarrow> js_object \<Rightarrow> js_object \<Rightarrow> js_error + js_object" where
  "rename_fields e [] event = Inr event"
| "rename_fields e ((fieldName, v) # rest) event =
     (let newFieldName = eventFieldFromAPIField e fieldName
      in if newFieldName = ''start_dt'' then
           (case v of
              JDate t \<Rightarrow> rename_fields e rest (js_set event newFieldName (JStr (toISOString e t)))
            | _ \<Rightarrow> Inl TypeError)
         else rename_fields e rest (js_set event newFieldName v))"

fun local_ids :: "env \<Rightarrow> string list \<Rightarrow> js_object \<Rightarrow> js_error + js_object" where
  "local_ids e [] event = Inr event"
| "local_ids e (field # rest) event =
     (if truthy (js_get event field) then
        (case js_get event field of
           JStr gid \<Rightarrow> local_ids e rest (js_set event field (JStr (snd (fromGlobalId e gid))))
         | _ \<Rightarrow> Inl TypeError)
      else local_ids e rest event)"

definition eventFromAPIFields :: "env \<Rightarrow> js_object \<Rightarrow> js_error + js_object" where
  "eventFromAPIFields e flds =
     (case rename_fields e flds [] of
        Inl err \<Rightarrow> Inl err
      | Inr event \<Rightarrow> local_ids e [''event_id'', ''creator_cons_id'', ''event_type_id''] event)"

fun events_from_API :: "env \<Rightarrow> js_object list \<Rightarrow> js_error + js_object list" where
  "events_from_API e [] = Inr []"
| "events_from_API e (ev # evs) =
     (case eventFromAPIFields e ev of
        Inl err \<Rightarrow> Inl err
      | Inr p \<Rightarrow> (case events_from_API e evs of Inl err \<Rightarrow> Inl err | Inr ps \<Rightarrow> Inr (p # ps)))"

text \<open>
  A value in a template string. The text of a date is in the time zone of the server, and
  the text of a number of 22 digits or more is in exponent notation; both are left to the
  environment.
\<close>

fun to_string :: "env \<Rightarrow> jsval \<Rightarrow> string" where
  "to_string e JUndefined = ''undefined''"
| "to_string e JNull = ''null''"
| "to_string e (JBool b) = (if b then ''true'' else ''false'')"
| "to_string e (JNum n) =
     (if \<bar>n\<bar> < 10 ^ 21
      then (if n < 0 then ''-'' @ string_of_nat (nat (- n)) else string_of_nat (nat n))
      else exponent_text e n)"
| "to_string e (JStr s) = s"
| "to_string e (JDate t) = date_text e t"
| "to_string e (JObj kvs) = ''[object Object]''"

definition eventIdsRequiringPhone :: "int list" where
  "eventIdsRequiringPhone = [22, 31, 32, 39, 41, 45]"

definition hostAddressFields :: "string list" where
  "hostAddressFields =
     [''host_addr_addressee'', ''host_addr_addr1'', ''host_addr_addr2'', ''host_addr_zip'',
      ''host_addr_city'', ''host_addr_state_cd'', ''host_addr_country'']"

definition assign_all :: "js_object \<Rightarrow> js_object \<Rightarrow> js_object" where
  "assign_all obj kvs = foldl (\<lambda>acc kv. js_set acc (fst kv) (snd kv)) obj kvs"

text \<open>
  The event as it is sent to the CRM and written back:
  \<^verbatim>\<open>
  event = {
    ...event,
    ...newEventData
  }

  // Delete empty event data
  Object.keys(event).forEach((key) => {
    if (event[key] === '') {
      delete event[key]
    }
  })

  // Require phone number for RSVPs
  const eventIdsRequiringPhone = new Set([22, 31, 32, 39, 41, 45])
  if (eventIdsRequiringPhone.has(Number(event['event_type_id']))) {
    event['attendee_require_phone'] = 1
  }

  // Delete event host address fields (API calls fail if these are incomplete so just remove them all for now)
  const hostAddressFields = [...]
  hostAddressFields.forEach((field) => delete event[field])
  \<close>
\<close>

definition merged_event :: "js_object \<Rightarrow> js_object \<Rightarrow> js_object" where
  "merged_event event newEventData =
     (let merged = assign_all event newEventData;
          pruned = filter (\<lambda>kv. snd kv \<noteq> JStr '''') merged;
          phoned = (if list_ex (number_is (to_number (js_get pruned ''event_type_id'')))
                          eventIdsRequiringPhone
                    then js_set pruned ''attendee_require_phone'' (JNum 1) else pruned)
      in filter (\<lambda>kv. fst kv \<notin> set hostAddressFields) phoned)"

definition update_event_rows :: "env \<Rightarrow> js_object \<Rightarrow> database \<Rightarrow> database" where
  "update_event_rows e event db =
     db\<lparr>bsd_events :=
          map (\<lambda>r. if js_get r ''event_id'' = js_get event ''event_id''
                    then assign_all r (event @ [(''modified_dt'', JDate (now e))]) else r)
            (bsd_events db)\<rparr>"

text \<open>
  The loop of \<^verbatim>\<open>EditEvents\<close>. Nothing here runs in a transaction: when an iteration
  throws, what the earlier ones wrote stays written.
  \<^verbatim>\<open>
  for (let index = 0; index < count; index++) {
    let newEventData = params[index]

    let event = await knex('bsd_events')
      .where('event_id', newEventData.event_id)
      .first()

    // Mark event reviewed if no longer pending approval
    if (event.flag_approval === true && newEventData.flag_approval === false)
      reviewedEvents.push(Number(event.event_id))
    ...
    try {
      log.info('Merged Event Data:', event)
      await BSDClient.updateEvent(event)
    }
    catch (ex) {
      log.error(ex)
      if (ex instanceof BSDValidationError) {
        updateErrors.push(`${event.event_id_obfuscated}: ${ex.message}`)
        continue
      }
      else if (ex instanceof BSDExistsError) {
        await knex('bsd_events')
          .whereIn('event_id', event.event_id)
          .del()
        log.info(`Deleted event ${event.event_id_obfuscated}`)
        continue
      }
      else {
        log.error(`Unknown exception when updating event ${JSON.stringify(event)}`)
        updateErrors.push(`${event.event_id_obfuscated}: ${ex.message}`)
        log.error(ex)
      }
    }

    await knex('bsd_events')
      .where('event_id', event.event_id)
      .update({
        ...event,
        modified_dt: new Date()
      })
  }
  \<close>
  The state of the loop is the database, the update errors, the reviewed events and the
  CRM requests made.
\<close>

type_synonym edit_state = "database \<times> string list \<times> id_param list \<times> api_request list"

fun edit_loop :: "env \<Rightarrow> js_object list \<Rightarrow> edit_state \<Rightarrow> (js_error + unit) \<times> edit_state" where
  "edit_loop e [] st = (Inr (), st)"
| "edit_loop e (newEventData # rest) (db, updateErrors, reviewedEvents, lg) =
     (case find (\<lambda>r. js_get r ''event_id'' = js_get newEventData ''event_id'') (bsd_events db) of
        None \<Rightarrow> (Inl TypeError, (db, updateErrors, reviewedEvents, lg))
      | Some old \<Rightarrow>
         (let reviewed = (if js_get old ''flag_approval'' = JBool True
                             \<and> js_get newEventData ''flag_approval'' = JBool False
                          then reviewedEvents @ [Numeric (to_number (js_get old ''event_id''))]
                          else reviewedEvents);
              event = merged_event old newEventData;
              req = UpdateEvent event;
              failed = (\<lambda>m. to_string e (js_get event ''event_id_obfuscated'') @ '': '' @ m)
          in case api_fails e req of
               None \<Rightarrow>
                 edit_loop e rest
                   (update_event_rows e event db, updateErrors, reviewed, lg @ [req])
             | Some (BSDValidationError m) \<Rightarrow>
                 edit_loop e rest (db, updateErrors @ [failed m], reviewed, lg @ [req])
             | Some (BSDExistsError m) \<Rightarrow>
                 edit_loop e rest
                   (db\<lparr>bsd_events :=
                        filter (\<lambda>r. js_get r ''event_id'' \<noteq> js_get event ''event_id'')
                          (bsd_events db)\<rparr>,
                    updateErrors, reviewed, lg @ [req])
             | Some (HttpError code m) \<Rightarrow>
                 edit_loop e rest
                   (update_event_rows e event db, updateErrors @ [failed m], reviewed,
                    lg @ [req])))"

fun join_with :: "string \<Rightarrow> string list \<Rightarrow> string" where
  "join_with sep [] = []"
| "join_with sep [x] = x"
| "join_with sep (x # y # zs) = x @ sep @ join_with sep (y # zs)"

text \<open>
  \<^verbatim>\<open>
  mutateAndGetPayload: async({events}, {rootValue}) => {
    adminRequired(rootValue)
    let params         = events.map((event) => {
      return eventFromAPIFields(event)
    })
    let count          = params.length;
    let updateErrors   = [];
    let reviewedEvents = [];
    let message        = `${events.length} Event${(events.length > 1) ? 's' : ''} Updated`;

    for (...) { ... }

    if (updateErrors.length > 0) {
      message = updateErrors.join(', ')
    }

    if (reviewedEvents.length > 0)
      await markEventsReviewed(reviewedEvents)

    return {events, message}
  }
  \<close>
\<close>

definition editEvents ::
  "env \<Rightarrow> session \<Rightarrow> js_object list \<Rightarrow> database
     \<Rightarrow> (js_error + js_object list \<times> string) \<times> database \<times> api_request list" where
  "editEvents e s events db =
     (case adminRequired s of
        Inl err \<Rightarrow> (Inl err, db, [])
      | Inr _ \<Rightarrow>
         (case events_from_API e events of
            Inl err \<Rightarrow> (Inl err, db, [])
          | Inr params \<Rightarrow>
             (case edit_loop e params (db, [], [], []) of
                (Inl err, (db1, updateErrors, reviewedEvents, lg)) \<Rightarrow> (Inl err, db1, lg)
              | (Inr _, (db1, updateErrors, reviewedEvents, lg)) \<Rightarrow>
                 (Inr (events,
                       if length updateErrors > 0 then join_with '', '' updateErrors
                       else string_of_nat (length events) @ '' Event''
                            @ (if length events > 1 then ''s'' else '''') @ '' Updated''),
                  (if length reviewedEvents > 0
                   then markEventsReviewed reviewedEvents False db1 else db1),
                  lg))))"

section \<open>Notions used to state the properties\<close>

text \<open>
  The radii at which \<^verbatim>\<open>nearbyPeople\<close> can run its query, in order, and the closed form
  of the \<open>i\<close>-th of them; \<open>rounds\<close> is what a sequence of logged queries returns
  altogether.
\<close>

definition radius_schedule :: "nat list" where
  "radius_schedule =
     [1000, 2000, 3000, 4000, 5000, 6000, 7000, 8000, 9000, 10000, 11000, 12000, 13000,
      14000, 15000, 20000, 25000, 30000, 35000, 40000, 45000, 50000]"

definition sched_at :: "nat \<Rightarrow> nat" where
  "sched_at i = (if i < 15 then 1000 * (i + 1) else 5000 * (i - 11))"

definition rounds :: "env \<Rightarrow> database \<Rightarrow> jsval \<Rightarrow> query_log \<Rightarrow> nearby_row list" where
  "rounds e db g lg = concat (map (\<lambda>(radius, foundConsIds). nearbyPeople_query e db g foundConsIds radius) lg)"

text \<open>The message of the error that \<^verbatim>\<open>authRequired\<close> throws, as serialised.\<close>

definition login_required_message :: string where
  \<open>login_required_message =
     ''{"status":401,"message":"You must login to access that resource."}''\<close>

definition not_authorized_message :: string where
  \<open>not_authorized_message =
     ''{"status":403,"message":"You are not authorized to access that resource."}''\<close>

definition one_event_message :: string where
  \<open>one_event_message =
     ''{"status":403,"message":"Your account is only authorized to delete one event at a time."}''\<close>

text \<open>
  A person may be called now: some primary address of theirs has a zip code that the
  table of zip codes maps to one of the offsets -10, ..., -4 at which the local hour is at
  least 9 and less than 21.
\<close>

definition callable_now :: "env \<Rightarrow> database \<Rightarrow> ident \<Rightarrow> bool" where
  "callable_now e db c \<longleftrightarrow>
     (\<exists>a \<in> set (bsd_addresses db). addr_cons_id a = c \<and> addr_is_primary a = True \<and>
        (\<exists>z \<in> set (zip_codes db). zc_zip z = zip a
            \<and> timezone_offset z \<in> set allOffsets
            \<and> 9 \<le> local_hour (now e) (timezone_offset z)
            \<and> local_hour (now e) (timezone_offset z) < 21))"


section \<open>Example data\<close>

definition empty_db :: database where
  "empty_db = \<lparr>bsd_people = [], bsd_emails = [], bsd_phones = [], bsd_addresses = [],
     zip_codes = [], bsd_assigned_calls = [], bsd_calls = [], bsd_call_assignments = [],
     gc_bsd_surveys = [], gc_bsd_groups = [], bsd_person_bsd_groups = [],
     bsd_person_gc_bsd_groups = [], bsd_survey_fields = [], bsd_events = [],
     gc_bsd_events = [], bsd_event_attendees = [], communications = [],
     bsd_subscriptions = [], fast_fwd_request = [], bsd_surveys = [], bsd_groups = [],
     seq = 100\<rparr>"

text \<open>
  An environment for the examples. Its \<^verbatim>\<open>fromGlobalId\<close>, \<^verbatim>\<open>JSON_parse\<close> and
  \<^verbatim>\<open>decamelize\<close> are tables that agree with graphql-relay, with \<^verbatim>\<open>JSON.parse\<close>
  and with humps on the strings the examples use; geometries are named by their distance
  from the event.
\<close>

definition ex_fromGlobalId :: "string \<Rightarrow> string \<times> string" where
  "ex_fromGlobalId s =
     (if s = ''Q2FsbEFzc2lnbm1lbnQ6Nw=='' then (''CallAssignment'', ''7'')
      else if s = ''UGVyc29uOjE='' then (''Person'', ''1'')
      else if s = ''UGVyc29uOjI='' then (''Person'', ''2'')
      else if s = ''RXZlbnQ6Nzc='' then (''Event'', ''77'')
      else if s = ''RXZlbnQ6Nzg='' then (''Event'', ''78'')
      else ('''', ''''))"

definition ex_JSON_parse :: "string \<Rightarrow> parsed" where
  \<open>ex_JSON_parse s =
     (if s = ''{}'' then Object []
      else if s = ''{"event_id":"4vfx"}'' then Object [(''event_id'', JStr ''4vfx'')]
      else Unparsable)\<close>

definition ex_env :: env where
  "ex_env = \<lparr>fromGlobalId = ex_fromGlobalId, JSON_parse = ex_JSON_parse,
     st_dwithin = (\<lambda>g ev r. ev = JStr ''town hall'' \<and>
        ((g = ''2.5 km away'' \<and> 2500 \<le> r) \<or> (g = ''18 km away'' \<and> 18000 \<le> r))),
     ilike = (\<lambda>s pat. False),
     now = 1478102400000, NODE_ENV = ''production'',
     decamelize = (\<lambda>s. if s = ''eventId'' then ''event_id''
                        else if s = ''flagApproval'' then ''flag_approval'' else s),
     toISOString = (\<lambda>t. ''2016-11-02T16:00:00.000Z''),
     timestamp_text = ''2016-11-02 16:00:00'',
     api_fails = (\<lambda>_. None),
     getForm_response = (\<lambda>i. \<lparr>bs_signup_form_id = i, bs_signup_form_slug = ''survey''\<rparr>),
     listFormFields_response = (\<lambda>i. []),
     getConstituentGroup_response = (\<lambda>i. \<lparr>bg_cons_group_id = i, bg_name = ''group''\<rparr>),
     credentials_valid = (\<lambda>_ _. True),
     ffr_where_id_object = (\<lambda>_ _. Inr []), raw_query_fails = (\<lambda>_. None),
     mail_fails = (\<lambda>_. False),
     date_text = (\<lambda>t. ''Wed Nov 02 2016 16:00:00 GMT+0000 (UTC)''),
     exponent_text = (\<lambda>n. ''1e+21'')\<rparr>"

definition alice :: person_row where
  "alice = \<lparr>cons_id = ''1'', firstname = ''Alice'', lastname = ''Adams''\<rparr>"

definition bob :: person_row where
  "bob = \<lparr>cons_id = ''2'', firstname = ''Bob'', lastname = ''Brown''\<rparr>"

definition carol :: person_row where
  "carol = \<lparr>cons_id = ''3'', firstname = ''Carol'', lastname = ''Clark''\<rparr>"

definition nearby_db :: database where
  "nearby_db = empty_db\<lparr>
     bsd_people := [alice, bob, carol],
     bsd_emails :=
       [\<lparr>email_cons_id = ''1'', email_is_primary = False, email = ''old@example.org''\<rparr>,
        \<lparr>email_cons_id = ''1'', email_is_primary = True, email = ''alice@example.org''\<rparr>,
        \<lparr>email_cons_id = ''2'', email_is_primary = True, email = ''bob@example.org''\<rparr>,
        \<lparr>email_cons_id = ''3'', email_is_primary = True, email = ''carol@example.org''\<rparr>],
     bsd_phones :=
       [\<lparr>phone_cons_id = ''1'', phone_is_primary = True, phone = ''5550001''\<rparr>],
     bsd_addresses :=
       [\<lparr>cons_addr_id = ''10'', addr_cons_id = ''1'', addr_is_primary = True,
         zip = ''11111'', addr_geom = ''2.5 km away''\<rparr>,
        \<lparr>cons_addr_id = ''20'', addr_cons_id = ''2'', addr_is_primary = True,
         zip = ''22222'', addr_geom = ''18 km away''\<rparr>,
        \<lparr>cons_addr_id = ''30'', addr_cons_id = ''3'', addr_is_primary = True,
         zip = ''33333'', addr_geom = ''2.5 km away''\<rparr>],
     communications := [\<lparr>comm_id = 1, comm_person_id = ''3'', comm_type = ''EMAIL''\<rparr>],
     bsd_subscriptions :=
       [\<lparr>sub_cons_id = ''1'', isunsub = False\<rparr>, \<lparr>sub_cons_id = ''2'', isunsub = False\<rparr>,
        \<lparr>sub_cons_id = ''3'', isunsub = False\<rparr>]\<rparr>"

text \<open>
  The same database where Alice has 500 more primary e-mail addresses, each a run of the
  letter a of another length.
\<close>

definition alice_mails :: "email_row list" where
  "alice_mails =
     map (\<lambda>i. \<lparr>email_cons_id = ''1'', email_is_primary = True,
               email = replicate (Suc i) CHR ''a'' @ ''@example.org''\<rparr>) [0..<500]"

definition crowd_db :: database where
  "crowd_db = nearby_db\<lparr>bsd_emails := alice_mails @ bsd_emails nearby_db\<rparr>"

definition town_hall :: js_object where
  "town_hall = [(''event_id'', JStr ''77''), (''geom'', JStr ''town hall'')]"

text \<open>
  A database for the calling examples. Call assignment 7 is for everyone. Alice has been
  canvassed for it already; Bob is assigned to another caller and it is 6am where he
  lives; Carol is the caller herself; Dave lives far from everything, where it is 9am.
  The caller holds two assigned calls, one of them for another call assignment.
\<close>

definition caller1 :: user_row where
  "caller1 = \<lparr>user_id = ''u1'', user_email = ''carol@example.org'',
     is_admin = False, is_superuser = False\<rparr>"

definition dave :: person_row where
  "dave = \<lparr>cons_id = ''4'', firstname = ''Dave'', lastname = ''Davis''\<rparr>"

definition calls_db :: database where
  "calls_db = empty_db\<lparr>
     bsd_people := [alice, bob, carol, dave],
     bsd_emails :=
       [\<lparr>email_cons_id = ''1'', email_is_primary = True, email = ''alice@example.org''\<rparr>,
        \<lparr>email_cons_id = ''3'', email_is_primary = True, email = ''carol@example.org''\<rparr>],
     bsd_phones :=
       [\<lparr>phone_cons_id = ''1'', phone_is_primary = True, phone = ''5550001''\<rparr>,
        \<lparr>phone_cons_id = ''2'', phone_is_primary = True, phone = ''5550002''\<rparr>,
        \<lparr>phone_cons_id = ''3'', phone_is_primary = True, phone = ''5550003''\<rparr>,
        \<lparr>phone_cons_id = ''4'', phone_is_primary = True, phone = ''5550004''\<rparr>],
     bsd_addresses :=
       [\<lparr>cons_addr_id = ''10'', addr_cons_id = ''1'', addr_is_primary = True,
         zip = ''11111'', addr_geom = ''2.5 km away''\<rparr>,
        \<lparr>cons_addr_id = ''20'', addr_cons_id = ''2'', addr_is_primary = True,
         zip = ''22222'', addr_geom = ''18 km away''\<rparr>,
        \<lparr>cons_addr_id = ''30'', addr_cons_id = ''3'', addr_is_primary = True,
         zip = ''11111'', addr_geom = ''2.5 km away''\<rparr>,
        \<lparr>cons_addr_id = ''40'', addr_cons_id = ''4'', addr_is_primary = True,
         zip = ''99999'', addr_geom = ''5000 km away''\<rparr>],
     zip_codes :=
       [\<lparr>zc_zip = ''11111'', timezone_offset = -5\<rparr>,
        \<lparr>zc_zip = ''22222'', timezone_offset = -10\<rparr>,
        \<lparr>zc_zip = ''99999'', timezone_offset = -7\<rparr>],
     bsd_assigned_calls :=
       [\<lparr>ac_id = 1, ac_caller_id = ''u1'', ac_interviewee_id = ''2'',
         ac_call_assignment_id = ''8'', ac_create_dt = 0, ac_modified_dt = 0\<rparr>,
        \<lparr>ac_id = 2, ac_caller_id = ''u1'', ac_interviewee_id = ''1'',
         ac_call_assignment_id = ''7'', ac_create_dt = 0, ac_modified_dt = 0\<rparr>,
        \<lparr>ac_id = 3, ac_caller_id = ''u2'', ac_interviewee_id = ''2'',
         ac_call_assignment_id = ''7'', ac_create_dt = 0, ac_modified_dt = 0\<rparr>],
     bsd_calls :=
       [\<lparr>call_id = 1, call_completed = True, attempted_at = 0, left_voicemail = None,
         sent_text = None, reason_not_completed = None, call_caller_id = ''u2'',
         call_interviewee_id = ''1'', call_call_assignment_id = ''7''\<rparr>],
     bsd_call_assignments :=
       [\<lparr>ca_id = ''7'', ca_name = ''Phone bank'', ca_renderer = ''survey'',
         ca_instructions = None, interviewee_group = ''g1'', gc_bsd_survey_id = ''s1'',
         ca_start_dt = 0, ca_end_dt = None, caller_group = None\<rparr>],
     gc_bsd_surveys :=
       [\<lparr>survey_id = ''s1'', survey_signup_form_id = ''f1'',
         processors = [''bsd-event-rsvper'', ''bsd-form-submitter'']\<rparr>],
     gc_bsd_groups :=
       [\<lparr>group_id = ''g1'', group_cons_group_id = None, group_query = Some ''everyone''\<rparr>],
     bsd_survey_fields :=
       [\<lparr>signup_form_field_id = ''55'', field_signup_form_id = ''f1'', field_label = ''Email''\<rparr>]\<rparr>"

text \<open>The same moment fifteen hours later: 7am UTC, night at every offset from -10 to -4.\<close>

definition night_env :: env where
  "night_env = ex_env\<lparr>now := 1478156400000\<rparr>"

text \<open>An environment in which every request to the CRM fails.\<close>

definition crm_down_env :: env where
  "crm_down_env = ex_env\<lparr>api_fails := (\<lambda>_. Some (HttpError 503 ''Service Unavailable''))\<rparr>"

definition survey_input :: submitCallSurvey_input where
  \<open>survey_input = \<lparr>callAssignmentId = ''Q2FsbEFzc2lnbm1lbnQ6Nw=='', intervieweeId = ''UGVyc29uOjE='',
     completed = True, leftVoicemail = None, sentText = None, reasonNotCompleted = None,
     surveyFieldValues = ''{"event_id":"4vfx"}''\<rparr>\<close>

definition calls_db1 :: database where
  "calls_db1 = calls_db\<lparr>bsd_assigned_calls :=
       [\<lparr>ac_id = 3, ac_caller_id = ''u2'', ac_interviewee_id = ''2'',
         ac_call_assignment_id = ''7'', ac_create_dt = 0, ac_modified_dt = 0\<rparr>]\<rparr>"


text \<open>
  The caller of the example submits the survey of her call to Alice for call assignment
  7; \<open>bad_json_input\<close> is the same submission with field values that are not JSON, and
  \<open>wrong_person_input\<close> the same submission for Bob.
\<close>

definition bad_json_input :: submitCallSurvey_input where
  "bad_json_input = survey_input\<lparr>surveyFieldValues := ''not json''\<rparr>"

definition wrong_person_input :: submitCallSurvey_input where
  "wrong_person_input = survey_input\<lparr>intervieweeId := ''UGVyc29uOjI=''\<rparr>"

definition assigned_call_2 :: assigned_call_row where
  "assigned_call_2 = \<lparr>ac_id = 2, ac_caller_id = ''u1'', ac_interviewee_id = ''1'',
     ac_call_assignment_id = ''7'', ac_create_dt = 0, ac_modified_dt = 0\<rparr>"

definition calls_db_submitted :: database where
  "calls_db_submitted = calls_db\<lparr>
     bsd_assigned_calls :=
       [\<lparr>ac_id = 1, ac_caller_id = ''u1'', ac_interviewee_id = ''2'',
         ac_call_assignment_id = ''8'', ac_create_dt = 0, ac_modified_dt = 0\<rparr>,
        \<lparr>ac_id = 3, ac_caller_id = ''u2'', ac_interviewee_id = ''2'',
         ac_call_assignment_id = ''7'', ac_create_dt = 0, ac_modified_dt = 0\<rparr>],
     bsd_calls :=
       [\<lparr>call_id = 1, call_completed = True, attempted_at = 0, left_voicemail = None,
         sent_text = None, reason_not_completed = None, call_caller_id = ''u2'',
         call_interviewee_id = ''1'', call_call_assignment_id = ''7''\<rparr>,
        \<lparr>call_id = 101, call_completed = True, attempted_at = 1478102400000,
         left_voicemail = None, sent_text = None, reason_not_completed = None,
         call_caller_id = ''u1'', call_interviewee_id = ''1'',
         call_call_assignment_id = ''7''\<rparr>],
     seq := 101\<rparr>"

definition survey_requests :: "api_request list" where
  "survey_requests =
     [AddRSVPToEvent (Some ''alice@example.org'') ''11111'' (Some ''5550001'') (JStr ''4vfx''),
      ProcessSignup ''f1'' [(''55'', JStr ''alice@example.org'')]]"

text \<open>
  Two administrators, of whom the second is a superuser, and a database with two events,
  both hosted by Alice and the first attended by Bob.
\<close>

definition admin1 :: user_row where
  "admin1 = \<lparr>user_id = ''u7'', user_email = ''admin@example.org'',
     is_admin = True, is_superuser = False\<rparr>"

definition root1 :: user_row where
  "root1 = \<lparr>user_id = ''u8'', user_email = ''root@example.org'',
     is_admin = True, is_superuser = True\<rparr>"

definition events_db :: database where
  "events_db = nearby_db\<lparr>
     bsd_events :=
       [[(''event_id'', JStr ''77''), (''event_id_obfuscated'', JStr ''4vfx''),
         (''creator_cons_id'', JStr ''1''), (''name'', JStr ''Town hall''),
         (''flag_approval'', JBool False), (''geom'', JStr ''town hall'')],
        [(''event_id'', JStr ''78''), (''event_id_obfuscated'', JStr ''4vfy''),
         (''creator_cons_id'', JStr ''1''), (''name'', JStr ''Phone bank''),
         (''flag_approval'', JBool True), (''geom'', JStr ''town hall'')]],
     gc_bsd_events :=
       [\<lparr>gce_event_id = ''77'', pending_review = True\<rparr>,
        \<lparr>gce_event_id = ''78'', pending_review = True\<rparr>],
     bsd_event_attendees :=
       [\<lparr>attendee_cons_id = ''2'', attendee_event_id = ''77''\<rparr>]\<rparr>"

definition two_events :: "string list" where
  "two_events = [''RXZlbnQ6Nzc='', ''RXZlbnQ6Nzg='']"

section \<open>Objects\<close>

lemma js_get_js_set: "js_get (js_set obj k v) k' = (if k' = k then v else js_get obj k')"
  by (induction obj) (auto simp add: js_get_def)

lemma named_keys:
  "\<not> is_array_index ''person''" "\<not> is_array_index ''Email''" "\<not> is_array_index ''event_id''"
  by (simp_all add: is_array_index_def is_digit_def)

section \<open>Properties of the radius search of \<^verbatim>\<open>nearbyPeople\<close>\<close>

lemma radius_schedule_eq: "radius_schedule = map sched_at [0..<22]"
  unfolding radius_schedule_def sched_at_def by (simp add: upt_rec)

lemma length_radius_schedule: "length radius_schedule = 22"
  by (simp add: radius_schedule_def)

lemma take_Suc_radius_schedule:
  "i < 22 \<Longrightarrow> take (Suc i) radius_schedule = take i radius_schedule @ [sched_at i]"
  by (simp add: radius_schedule_eq take_Suc_conv_app_nth take_map)

lemma sorted_radius_schedule: "sorted_wrt (<) radius_schedule"
  by (simp add: radius_schedule_def)

lemma nearbyPeople_query_excludes:
  "person \<in> set (nearbyPeople_query e db g foundConsIds radius)
     \<Longrightarrow> cons_id (snd person) \<notin> set foundConsIds"
  unfolding nearbyPeople_query_def by (auto dest!: in_set_takeD)

lemma nearbyPeople_loop_step:
  "length found < 500 \<Longrightarrow> radius \<le> 50000 \<Longrightarrow>
   nearbyPeople_loop e db g found radius backoff lg =
   nearbyPeople_loop e db g
     (found @ nearbyPeople_query e db g (map (\<lambda>person. cons_id (snd person)) found) radius)
     (radius + backoff) (if radius + backoff = 15000 then 5000 else backoff)
     (lg @ [(radius, map (\<lambda>person. cons_id (snd person)) found)])"
  by (subst nearbyPeople_loop.simps) (simp add: maxRadius_def Let_def)

lemma nearbyPeople_loop_stop:
  "\<not> (length found < 500 \<and> radius \<le> 50000) \<Longrightarrow>
   nearbyPeople_loop e db g found radius backoff lg = Some (found, lg)"
  by (subst nearbyPeople_loop.simps) (auto simp add: maxRadius_def)

text \<open>
  The invariant of the loop: after \<open>i\<close> rounds the radius is the \<open>i\<close>-th of the
  schedule, the log holds the first \<open>i\<close> radii, and the people found are what the
  logged queries returned. From any such state the loop returns.
\<close>

lemma nearbyPeople_loop_invariant:
  assumes "i \<le> 22" "radius = sched_at i" "backoff = (if i < 14 then 1000 else 5000)"
    "map fst lg = take i radius_schedule"
    "found = rounds e db g lg"
    "\<forall>k<length lg. length (snd (lg ! k)) < 500 \<and>
        snd (lg ! k) = map (\<lambda>p. cons_id (snd p)) (rounds e db g (take k lg))"
  shows "\<exists>found' lg'. nearbyPeople_loop e db g found radius backoff lg = Some (found', lg')
     \<and> prefix (map fst lg') radius_schedule
     \<and> (500 \<le> length found' \<or> map fst lg' = radius_schedule)
     \<and> found' = rounds e db g lg'
     \<and> (\<forall>k<length lg'. length (snd (lg' ! k)) < 500 \<and>
           snd (lg' ! k) = map (\<lambda>p. cons_id (snd p)) (rounds e db g (take k lg')))"
  using assms
proof (induction "22 - i" arbitrary: i radius backoff lg found)
  case 0
  then have i: "i = 22" by simp
  then have "radius = 55000" using 0 by (simp add: sched_at_def)
  then have a: "nearbyPeople_loop e db g found radius backoff lg = Some (found, lg)"
    by (simp add: nearbyPeople_loop_stop)
  have b: "map fst lg = radius_schedule"
    using "0.prems"(4) i length_radius_schedule by simp
  then have c: "prefix (map fst lg) radius_schedule" by simp
  have d: "500 \<le> length found \<or> map fst lg = radius_schedule" using b by simp
  show ?case
    by (intro exI[of _ found] exI[of _ lg] conjI) (fact a c d "0.prems"(5) "0.prems"(6))+
next
  case (Suc n)
  then have i: "i < 22" by simp
  show ?case
  proof (cases "length found < 500")
    case False
    then have a: "nearbyPeople_loop e db g found radius backoff lg = Some (found, lg)"
      by (simp add: nearbyPeople_loop_stop)
    have c: "prefix (map fst lg) radius_schedule"
      using Suc.prems(4) by (simp add: take_is_prefix)
    have d: "500 \<le> length found \<or> map fst lg = radius_schedule" using False by simp
    show ?thesis
      by (intro exI[of _ found] exI[of _ lg] conjI) (fact a c d Suc.prems(5) Suc.prems(6))+
  next
    case True
    define ids where "ids = map (\<lambda>p. cons_id (snd p)) found"
    define people where "people = nearbyPeople_query e db g ids radius"
    define lg1 where "lg1 = lg @ [(radius, ids)]"
    define backoff1 where "backoff1 = (if radius + backoff = 15000 then 5000 else backoff)"
    have le: "radius \<le> 50000" using i Suc.prems(2) by (auto simp: sched_at_def)
    have unf: "nearbyPeople_loop e db g found radius backoff lg
        = nearbyPeople_loop e db g (found @ people) (radius + backoff) backoff1 lg1"
      using nearbyPeople_loop_step[OF True le]
      by (simp add: ids_def people_def lg1_def backoff1_def)
    have r1: "radius + backoff = sched_at (Suc i)"
      using i Suc.prems(2,3) by (auto simp: sched_at_def)
    have b1: "backoff1 = (if Suc i < 14 then 1000 else 5000)"
      using i Suc.prems(2,3) r1 unfolding backoff1_def by (auto simp: sched_at_def)
    have l1: "map fst lg1 = take (Suc i) radius_schedule"
      using Suc.prems(2,4) i by (simp add: lg1_def take_Suc_radius_schedule)
    have f1: "found @ people = rounds e db g lg1"
      using Suc.prems(5) by (simp add: rounds_def lg1_def people_def ids_def)
    have k1: "\<forall>k<length lg1. length (snd (lg1 ! k)) < 500 \<and>
        snd (lg1 ! k) = map (\<lambda>p. cons_id (snd p)) (rounds e db g (take k lg1))"
    proof (intro allI impI)
      fix k assume "k < length lg1"
      then have "k < length lg \<or> k = length lg" by (auto simp: lg1_def)
      then consider "k < length lg" | "k = length lg" by blast
      then show "length (snd (lg1 ! k)) < 500 \<and>
          snd (lg1 ! k) = map (\<lambda>p. cons_id (snd p)) (rounds e db g (take k lg1))"
      proof cases
        case 1
        have e1: "lg1 ! k = lg ! k" using 1 by (simp add: lg1_def nth_append)
        have e2: "take k lg1 = take k lg" using 1 by (simp add: lg1_def)
        from Suc.prems(6) 1
        have "length (snd (lg ! k)) < 500 \<and>
            snd (lg ! k) = map (\<lambda>p. cons_id (snd p)) (rounds e db g (take k lg))"
          by blast
        then show ?thesis unfolding e1 e2 .
      next
        case 2
        then show ?thesis using True Suc.prems(5) by (simp add: lg1_def ids_def)
      qed
    qed
    have n: "n = 22 - Suc i" using Suc.hyps(2) by simp
    have si: "Suc i \<le> 22" using i by simp
    from Suc.hyps(1)[OF n si r1 b1 l1 f1 k1] show ?thesis unfolding unf .
  qed
qed

lemma nearbyPeople_query_rows:
  assumes "row \<in> set (nearbyPeople_query e db g ex r)"
  shows "\<exists>m p. row = (email m, p) \<and> m \<in> set (filter email_is_primary (bsd_emails db))
           \<and> p \<in> set (bsd_people db) \<and> cons_id p = email_cons_id m"
  using assms unfolding nearbyPeople_query_def
  by (auto dest!: in_set_takeD split: if_splits) metis

lemma nearbyPeople_query_distinct:
  assumes "distinct (map email_cons_id (filter email_is_primary (bsd_emails db)))"
    and "distinct (map cons_id (bsd_people db))"
  shows "distinct (map (\<lambda>p. cons_id (snd p)) (nearbyPeople_query e db g ex r))"
proof -
  have i1: "inj_on email_cons_id (set (filter email_is_primary (bsd_emails db)))"
    using assms(1) by (simp only: distinct_map)
  have i2: "inj_on cons_id (set (bsd_people db))"
    using assms(2) by (simp only: distinct_map)
  have d: "distinct (nearbyPeople_query e db g ex r)"
    unfolding nearbyPeople_query_def by (rule distinct_take) simp
  have "inj_on (\<lambda>p. cons_id (snd p)) (set (nearbyPeople_query e db g ex r))"
  proof (rule inj_onI)
    fix x y
    assume x: "x \<in> set (nearbyPeople_query e db g ex r)"
      and y: "y \<in> set (nearbyPeople_query e db g ex r)"
      and eq: "cons_id (snd x) = cons_id (snd y)"
    from nearbyPeople_query_rows[OF x] obtain m p where
      xr: "x = (email m, p)" "m \<in> set (filter email_is_primary (bsd_emails db))"
        "p \<in> set (bsd_people db)" "cons_id p = email_cons_id m"
      by blast
    from nearbyPeople_query_rows[OF y] obtain m' p' where
      yr: "y = (email m', p')" "m' \<in> set (filter email_is_primary (bsd_emails db))"
        "p' \<in> set (bsd_people db)" "cons_id p' = email_cons_id m'"
      by blast
    from eq xr(1) yr(1) have c: "cons_id p = cons_id p'" by simp
    from i2 c xr(3) yr(3) have p: "p = p'" by (rule inj_onD)
    from c xr(4) yr(4) have c': "email_cons_id m = email_cons_id m'" by simp
    from i1 c' xr(2) yr(2) have "m = m'" by (rule inj_onD)
    with p xr(1) yr(1) show "x = y" by simp
  qed
  with d show ?thesis by (simp only: distinct_map)
qed

lemma rounds_snoc:
  "rounds e db g (lg @ [(r, ex)]) = rounds e db g lg @ nearbyPeople_query e db g ex r"
  by (simp add: rounds_def)

lemma rounds_distinct:
  assumes "distinct (map email_cons_id (filter email_is_primary (bsd_emails db)))"
    and "distinct (map cons_id (bsd_people db))"
    and "\<forall>k<length lg. snd (lg ! k) = map (\<lambda>p. cons_id (snd p)) (rounds e db g (take k lg))"
  shows "distinct (map (\<lambda>p. cons_id (snd p)) (rounds e db g lg))"
  using assms(3)
proof (induction lg rule: rev_induct)
  case Nil
  show ?case by (simp add: rounds_def)
next
  case (snoc x lg)
  obtain r ex where x: "x = (r, ex)" by (cases x)
  have prev: "\<forall>k<length lg. snd (lg ! k) = map (\<lambda>p. cons_id (snd p)) (rounds e db g (take k lg))"
  proof (intro allI impI)
    fix k assume k: "k < length lg"
    then have "k < length (lg @ [x])" by simp
    with snoc.prems have "snd ((lg @ [x]) ! k)
        = map (\<lambda>p. cons_id (snd p)) (rounds e db g (take k (lg @ [x])))"
      by blast
    with k show "snd (lg ! k) = map (\<lambda>p. cons_id (snd p)) (rounds e db g (take k lg))"
      by (simp add: nth_append)
  qed
  from snoc.prems[rule_format, of "length lg"] have "snd ((lg @ [x]) ! length lg)
      = map (\<lambda>p. cons_id (snd p)) (rounds e db g (take (length lg) (lg @ [x])))"
    by simp
  then have ex: "ex = map (\<lambda>p. cons_id (snd p)) (rounds e db g lg)"
    by (simp add: x)
  have a: "distinct (map (\<lambda>p. cons_id (snd p)) (rounds e db g lg))"
    by (rule snoc.IH[OF prev])
  have b: "distinct (map (\<lambda>p. cons_id (snd p)) (nearbyPeople_query e db g ex r))"
    by (rule nearbyPeople_query_distinct[OF assms(1,2)])
  have c: "set (map (\<lambda>p. cons_id (snd p)) (rounds e db g lg))
        \<inter> set (map (\<lambda>p. cons_id (snd p)) (nearbyPeople_query e db g ex r)) = {}"
    using nearbyPeople_query_excludes[of _ e db g ex r] unfolding ex[symmetric] by auto
  show ?case
    unfolding x rounds_snoc map_append using a b c by (simp only: distinct_append)
qed

text \<open>
  Claim C4, as amended. The radius search of \<^verbatim>\<open>nearbyPeople\<close> returns, with at most 500
  rows and so at most 500 people; a row is a primary e-mail address with its person, and
  a person with several primary addresses has several rows. The radii of the queries it
  runs are an initial part of 1000, 2000, ..., 15000, 20000, 25000, ..., 50000: they start
  at 1000, grow by 1000 up to 15000 and by 5000 from there, and none exceeds the maximum
  of 50000. A query is run only while fewer than 500 rows have been accumulated, and the
  search ends with 500 rows or with the whole schedule run. Every query excludes exactly
  the people that the earlier queries found, and returns none of them. When no person has
  two primary e-mail addresses and no two people share a \<^verbatim>\<open>cons_id\<close>, the rows are
  distinct people, and the count of rows is the count of people.
\<close>

theorem nearbyPeople_radius_search:
  "\<exists>foundPeople lg.
      nearbyPeople e db event = Some (foundPeople, lg)
    \<and> length foundPeople \<le> 500
    \<and> card ((\<lambda>p. cons_id (snd p)) ` set foundPeople) \<le> 500
    \<and> prefix (map fst lg) radius_schedule
    \<and> sorted_wrt (<) (map fst lg)
    \<and> (length foundPeople = 500 \<or> map fst lg = radius_schedule)
    \<and> foundPeople = take 500 (rounds e db (js_get event ''geom'') lg)
    \<and> (\<forall>k<length lg.
          length (snd (lg ! k)) < 500
        \<and> card (set (snd (lg ! k))) < 500
        \<and> snd (lg ! k) =
            map (\<lambda>p. cons_id (snd p)) (rounds e db (js_get event ''geom'') (take k lg))
        \<and> (\<forall>person \<in> set (nearbyPeople_query e db (js_get event ''geom'')
                               (snd (lg ! k)) (fst (lg ! k))).
              cons_id (snd person) \<notin> set (snd (lg ! k))))
    \<and> (distinct (map email_cons_id (filter email_is_primary (bsd_emails db)))
          \<and> distinct (map cons_id (bsd_people db))
        \<longrightarrow> distinct (map (\<lambda>p. cons_id (snd p)) foundPeople)
          \<and> card ((\<lambda>p. cons_id (snd p)) ` set foundPeople) = length foundPeople)"
proof -
  define g where "g = js_get event ''geom''"
  have "\<exists>found' lg'. nearbyPeople_loop e db g [] 1000 1000 [] = Some (found', lg')
     \<and> prefix (map fst lg') radius_schedule
     \<and> (500 \<le> length found' \<or> map fst lg' = radius_schedule)
     \<and> found' = rounds e db g lg'
     \<and> (\<forall>k<length lg'. length (snd (lg' ! k)) < 500 \<and>
           snd (lg' ! k) = map (\<lambda>p. cons_id (snd p)) (rounds e db g (take k lg')))"
    by (rule nearbyPeople_loop_invariant[where i = 0]) (simp_all add: sched_at_def rounds_def)
  then obtain found' lg' where
    run: "nearbyPeople_loop e db g [] 1000 1000 [] = Some (found', lg')" and
    pre: "prefix (map fst lg') radius_schedule" and
    fin: "500 \<le> length found' \<or> map fst lg' = radius_schedule" and
    fnd: "found' = rounds e db g lg'" and
    lgs: "\<forall>k<length lg'. length (snd (lg' ! k)) < 500 \<and>
           snd (lg' ! k) = map (\<lambda>p. cons_id (snd p)) (rounds e db g (take k lg'))"
    by blast
  have 1: "nearbyPeople e db event = Some (take 500 found', lg')"
    using run by (simp add: nearbyPeople_def g_def)
  have 2: "length (take 500 found') \<le> 500" by simp
  have people: "card ((\<lambda>p. cons_id (snd p)) ` set (take 500 found')) \<le> 500"
  proof -
    have "card ((\<lambda>p. cons_id (snd p)) ` set (take 500 found')) \<le> card (set (take 500 found'))"
      by (rule card_image_le) simp
    also have "\<dots> \<le> length (take 500 found')" by (rule card_length)
    also have "\<dots> \<le> 500" by simp
    finally show ?thesis .
  qed
  have 3: "sorted_wrt (<) (map fst lg')"
  proof -
    from pre obtain zs where "radius_schedule = map fst lg' @ zs" by (auto simp: prefix_def)
    with sorted_radius_schedule have "sorted_wrt (<) (map fst lg' @ zs)" by simp
    then show ?thesis by (simp only: sorted_wrt_append)
  qed
  have 4: "length (take 500 found') = 500 \<or> map fst lg' = radius_schedule"
    using fin by auto
  have 5: "take 500 found' = take 500 (rounds e db g lg')" using fnd by simp
  have 6: "\<forall>k<length lg'.
          length (snd (lg' ! k)) < 500
        \<and> card (set (snd (lg' ! k))) < 500
        \<and> snd (lg' ! k) = map (\<lambda>p. cons_id (snd p)) (rounds e db g (take k lg'))
        \<and> (\<forall>person \<in> set (nearbyPeople_query e db g (snd (lg' ! k)) (fst (lg' ! k))).
              cons_id (snd person) \<notin> set (snd (lg' ! k)))"
  proof (intro allI impI conjI ballI)
    fix k assume k: "k < length lg'"
    with lgs show a: "length (snd (lg' ! k)) < 500" by blast
    show "card (set (snd (lg' ! k))) < 500"
      using a card_length[of "snd (lg' ! k)"] by linarith
    from lgs k show "snd (lg' ! k) = map (\<lambda>p. cons_id (snd p)) (rounds e db g (take k lg'))"
      by blast
  next
    fix k person
    assume "person \<in> set (nearbyPeople_query e db g (snd (lg' ! k)) (fst (lg' ! k)))"
    then show "cons_id (snd person) \<notin> set (snd (lg' ! k))"
      by (rule nearbyPeople_query_excludes)
  qed
  have 7: "distinct (map email_cons_id (filter email_is_primary (bsd_emails db)))
          \<and> distinct (map cons_id (bsd_people db))
        \<longrightarrow> distinct (map (\<lambda>p. cons_id (snd p)) (take 500 found'))
          \<and> card ((\<lambda>p. cons_id (snd p)) ` set (take 500 found')) = length (take 500 found')"
  proof
    assume inv: "distinct (map email_cons_id (filter email_is_primary (bsd_emails db)))
          \<and> distinct (map cons_id (bsd_people db))"
    from lgs have "\<forall>k<length lg'. snd (lg' ! k)
        = map (\<lambda>p. cons_id (snd p)) (rounds e db g (take k lg'))"
      by blast
    with inv have "distinct (map (\<lambda>p. cons_id (snd p)) (rounds e db g lg'))"
      by (intro rounds_distinct) blast+
    then have "distinct (take 500 (map (\<lambda>p. cons_id (snd p)) found'))"
      unfolding fnd by (rule distinct_take)
    then have d: "distinct (map (\<lambda>p. cons_id (snd p)) (take 500 found'))"
      by (simp only: take_map)
    from distinct_card[OF d]
    have "card ((\<lambda>p. cons_id (snd p)) ` set (take 500 found')) = length (take 500 found')"
      by (simp only: set_map length_map)
    with d show "distinct (map (\<lambda>p. cons_id (snd p)) (take 500 found'))
          \<and> card ((\<lambda>p. cons_id (snd p)) ` set (take 500 found')) = length (take 500 found')"
      by (rule conjI)
  qed
  show ?thesis
    unfolding g_def[symmetric]
    by (intro exI[of _ "take 500 found'"] exI[of _ lg'] conjI) (fact 1 2 people pre 3 4 5 6 7)+
qed

lemma nearby_db_query:
  "nearbyPeople_query ex_env nearby_db (JStr ''town hall'') ex r =
     (if 2500 \<le> r \<and> ''1'' \<notin> set ex then [(''alice@example.org'', alice)] else []) @
     (if 18000 \<le> r \<and> ''2'' \<notin> set ex then [(''bob@example.org'', bob)] else [])"
  by (simp add: nearbyPeople_query_def nearby_db_def empty_db_def ex_env_def alice_def bob_def
      carol_def left_join_def)

lemma nearby_db_run:
  "nearbyPeople ex_env nearby_db town_hall =
     Some ([(''alice@example.org'', alice), (''bob@example.org'', bob)],
       [(1000, []), (2000, []), (3000, []), (4000, [''1'']), (5000, [''1'']),
        (6000, [''1'']), (7000, [''1'']), (8000, [''1'']), (9000, [''1'']), (10000, [''1'']),
        (11000, [''1'']), (12000, [''1'']), (13000, [''1'']), (14000, [''1'']),
        (15000, [''1'']), (20000, [''1'']), (25000, [''1'', ''2'']), (30000, [''1'', ''2'']),
        (35000, [''1'', ''2'']), (40000, [''1'', ''2'']), (45000, [''1'', ''2'']),
        (50000, [''1'', ''2''])])"
  by (simp add: nearbyPeople_def nearbyPeople_loop_step nearbyPeople_loop_stop nearby_db_query
      town_hall_def js_get_def alice_def bob_def)

text \<open>
  At the example event the search runs all 22 queries: Alice, 2.5 km away, is found at
  radius 3000 and excluded from then on, Bob at radius 20000; Carol has been written to
  already and is never returned.
\<close>

theorem nearbyPeople_radius_search_witness:
  "\<exists>foundPeople lg.
      nearbyPeople ex_env nearby_db town_hall = Some (foundPeople, lg)
    \<and> map (\<lambda>p. firstname (snd p)) foundPeople = [''Alice'', ''Bob'']
    \<and> map fst lg = radius_schedule
    \<and> distinct (map email_cons_id (filter email_is_primary (bsd_emails nearby_db)))
    \<and> distinct (map cons_id (bsd_people nearby_db))
    \<and> distinct (map (\<lambda>p. cons_id (snd p)) foundPeople)
    \<and> (\<forall>k<length lg.
          length (snd (lg ! k)) < 500
        \<and> card (set (snd (lg ! k))) < 500
        \<and> snd (lg ! k) =
            map (\<lambda>p. cons_id (snd p)) (rounds ex_env nearby_db (js_get town_hall ''geom'') (take k lg))
        \<and> (\<forall>person \<in> set (nearbyPeople_query ex_env nearby_db (js_get town_hall ''geom'')
                               (snd (lg ! k)) (fst (lg ! k))).
              cons_id (snd person) \<notin> set (snd (lg ! k))))"
proof -
  from nearbyPeople_radius_search[of ex_env nearby_db town_hall]
  obtain foundPeople lg where
    run: "nearbyPeople ex_env nearby_db town_hall = Some (foundPeople, lg)" and
    rest: "\<forall>k<length lg.
          length (snd (lg ! k)) < 500
        \<and> card (set (snd (lg ! k))) < 500
        \<and> snd (lg ! k) =
            map (\<lambda>p. cons_id (snd p)) (rounds ex_env nearby_db (js_get town_hall ''geom'') (take k lg))
        \<and> (\<forall>person \<in> set (nearbyPeople_query ex_env nearby_db (js_get town_hall ''geom'')
                               (snd (lg ! k)) (fst (lg ! k))).
              cons_id (snd person) \<notin> set (snd (lg ! k)))" and
    inv: "distinct (map email_cons_id (filter email_is_primary (bsd_emails nearby_db)))
          \<and> distinct (map cons_id (bsd_people nearby_db))
        \<longrightarrow> distinct (map (\<lambda>p. cons_id (snd p)) foundPeople)
          \<and> card ((\<lambda>p. cons_id (snd p)) ` set foundPeople) = length foundPeople"
    by blast
  have i1: "distinct (map email_cons_id (filter email_is_primary (bsd_emails nearby_db)))"
    and i2: "distinct (map cons_id (bsd_people nearby_db))"
    by (simp_all add: nearby_db_def empty_db_def alice_def bob_def carol_def)
  from inv i1 i2 have d: "distinct (map (\<lambda>p. cons_id (snd p)) foundPeople)" by blast
  from run have names: "map (\<lambda>p. firstname (snd p)) foundPeople = [''Alice'', ''Bob'']"
    by (auto simp add: nearby_db_run alice_def bob_def)
  from run have radii: "map fst lg = radius_schedule"
    by (auto simp add: nearby_db_run radius_schedule_def)
  show ?thesis
    by (intro exI[of _ foundPeople] exI[of _ lg] conjI) (fact run names radii i1 i2 d rest)+
qed

lemma alice_mails_rows:
  "m \<in> set alice_mails \<Longrightarrow> email_cons_id m = ''1''"
  "m \<in> set alice_mails \<Longrightarrow> email_is_primary m = True"
  by (auto simp add: alice_mails_def)

lemma length_alice_mails: "length alice_mails = 500"
  by (simp add: alice_mails_def)

lemma distinct_alice_mails: "distinct (map email alice_mails)"
proof -
  have "inj_on (\<lambda>i. replicate (Suc i) CHR ''a'' @ ''@example.org'') {0..<500}"
  proof (rule inj_onI)
    fix i j :: nat
    assume "replicate (Suc i) CHR ''a'' @ ''@example.org'' = replicate (Suc j) CHR ''a'' @ ''@example.org''"
    then have "length (replicate (Suc i) CHR ''a'' @ ''@example.org'')
        = length (replicate (Suc j) CHR ''a'' @ ''@example.org'')"
      by (rule arg_cong)
    then show "i = j" by simp
  qed
  then show ?thesis
    by (simp add: alice_mails_def comp_def distinct_map)
qed

lemma alice_mails_not_alice: "''alice@example.org'' \<notin> set (map email alice_mails)"
proof
  assume "''alice@example.org'' \<in> set (map email alice_mails)"
  then obtain i where i: "''alice@example.org'' = replicate (Suc i) CHR ''a'' @ ''@example.org''"
    by (auto simp add: alice_mails_def)
  then have "length ''alice@example.org'' = length (replicate (Suc i) CHR ''a'' @ ''@example.org'')"
    by (rule arg_cong)
  then have "i = 4" by simp
  with i show False by (simp add: numeral_eq_Suc)
qed

lemma concat_map_Nil: "concat (map (\<lambda>x. []) xs) = []"
  by (induction xs) simp_all

lemma crowd_join:
  "[(email m, p).
          a \<leftarrow> bsd_addresses crowd_db,
          p \<leftarrow> bsd_people crowd_db, addr_cons_id a = cons_id p,
          m \<leftarrow> bsd_emails crowd_db, cons_id p = email_cons_id m,
          c \<leftarrow> left_join (filter (\<lambda>c. cons_id p = comm_person_id c) (communications crowd_db)),
          s \<leftarrow> bsd_subscriptions crowd_db, cons_id p = sub_cons_id s,
          addr_is_primary a = True,
          email_is_primary m = True,
          isunsub s = False,
          cons_id p \<notin> set ex,
          st_dwithin ex_env (addr_geom a) (JStr ''town hall'') r,
          c = None]
   = (if 2500 \<le> r \<and> ''1'' \<notin> set ex
      then map (\<lambda>m. (email m, alice)) alice_mails @ [(''alice@example.org'', alice)] else []) @
     (if 18000 \<le> r \<and> ''2'' \<notin> set ex then [(''bob@example.org'', bob)] else [])"
  by (simp add: crowd_db_def nearby_db_def empty_db_def ex_env_def left_join_def
        alice_mails_rows concat_map_Nil alice_def bob_def carol_def cong: map_cong)

lemma crowd_distinct:
  "distinct ((if 2500 \<le> (r::nat) \<and> ''1'' \<notin> set ex
      then map (\<lambda>m. (email m, alice)) alice_mails @ [(''alice@example.org'', alice)] else []) @
     (if 18000 \<le> r \<and> ''2'' \<notin> set ex then [(''bob@example.org'', bob)] else []))"
proof -
  have d: "distinct (map (\<lambda>m. (email m, alice)) alice_mails)"
    using distinct_alice_mails by (simp add: distinct_map inj_on_def)
  have a: "(''alice@example.org'', alice) \<notin> set (map (\<lambda>m. (email m, alice)) alice_mails)"
    using alice_mails_not_alice by auto
  have b: "(''bob@example.org'', bob) \<notin> set (map (\<lambda>m. (email m, alice)) alice_mails)"
    by (auto simp add: alice_def bob_def)
  have c: "(''bob@example.org'', bob) \<noteq> (''alice@example.org'', alice)" by simp
  show ?thesis using d a b c by (auto simp del: set_map)
qed

lemma crowd_db_query:
  "nearbyPeople_query ex_env crowd_db (JStr ''town hall'') ex r =
     take 500 (
       (if 2500 \<le> r \<and> ''1'' \<notin> set ex
        then map (\<lambda>m. (email m, alice)) alice_mails @ [(''alice@example.org'', alice)] else []) @
       (if 18000 \<le> r \<and> ''2'' \<notin> set ex then [(''bob@example.org'', bob)] else []))"
  unfolding nearbyPeople_query_def crowd_join
  by (simp only: distinct_remdups_id[OF crowd_distinct])

lemma crowd_db_run:
  "nearbyPeople ex_env crowd_db town_hall =
     Some (map (\<lambda>m. (email m, alice)) alice_mails, [(1000, []), (2000, []), (3000, [])])"
  by (simp add: nearbyPeople_def nearbyPeople_loop_step nearbyPeople_loop_stop crowd_db_query
      town_hall_def js_get_def length_alice_mails)

text \<open>
  Claim C4 as stated fails where it counts distinct people: the loop counts rows. Here
  Alice, 2.5 km from the event, has 501 primary e-mail addresses. The query of radius 3000
  returns 500 rows, all of them Alice, and the search ends there: with one person found,
  the next radius of 4000 still within the maximum, and Bob, whom the query of radius
  20000 would have returned, not found.
\<close>

theorem nearbyPeople_rows_counterexample:
  "nearbyPeople ex_env crowd_db town_hall
     = Some (map (\<lambda>m. (email m, alice)) alice_mails, [(1000, []), (2000, []), (3000, [])])
   \<and> length (map (\<lambda>m. (email m, alice)) alice_mails) = 500
   \<and> (\<lambda>p. cons_id (snd p)) ` set (map (\<lambda>m. (email m, alice)) alice_mails) = {''1''}
   \<and> card ((\<lambda>p. cons_id (snd p)) ` set (map (\<lambda>m. (email m, alice)) alice_mails)) = 1
   \<and> (3000::nat) + 1000 \<le> maxRadius
   \<and> nearbyPeople_query ex_env crowd_db (js_get town_hall ''geom'') [''1''] 20000
       = [(''bob@example.org'', bob)]"
proof -
  have ne: "set alice_mails \<noteq> {}" using length_alice_mails by auto
  have "(\<lambda>p. cons_id (snd p)) ` set (map (\<lambda>m. (email m, alice)) alice_mails)
      = (\<lambda>m. ''1'') ` set alice_mails"
    by (simp add: image_image alice_def)
  also have "\<dots> = {''1''}" using ne by (simp add: image_constant_conv)
  finally have img: "(\<lambda>p. cons_id (snd p)) ` set (map (\<lambda>m. (email m, alice)) alice_mails) = {''1''}" .
  have c: "card ((\<lambda>p. cons_id (snd p)) ` set (map (\<lambda>m. (email m, alice)) alice_mails)) = 1"
    unfolding img by simp
  have l: "length (map (\<lambda>m. (email m, alice)) alice_mails) = 500"
    by (simp add: length_alice_mails)
  have m: "(3000::nat) + 1000 \<le> maxRadius" by (simp add: maxRadius_def)
  have q: "nearbyPeople_query ex_env crowd_db (js_get town_hall ''geom'') [''1''] 20000
       = [(''bob@example.org'', bob)]"
    by (simp add: crowd_db_query town_hall_def js_get_def)
  show ?thesis
    by (intro conjI) (fact crowd_db_run l img c m q)+
qed

section \<open>Primary rows\<close>

lemma find_first_index:
  "(case find P xs of None \<Rightarrow> None | Some r \<Rightarrow> Some (f r)) = Some v \<longleftrightarrow>
     (\<exists>i<length xs. P (xs ! i) \<and> v = f (xs ! i) \<and> (\<forall>j<i. \<not> P (xs ! j)))"
proof (cases "find P xs")
  case None
  then have "\<And>i. i < length xs \<Longrightarrow> \<not> P (xs ! i)"
    by (simp add: find_None_iff)
  with None show ?thesis by auto
next
  case (Some r)
  then obtain i where i: "i < length xs" "P (xs ! i)" "r = xs ! i" "\<forall>j<i. \<not> P (xs ! j)"
    unfolding find_Some_iff by blast
  show ?thesis
  proof
    assume "(case find P xs of None \<Rightarrow> None | Some r \<Rightarrow> Some (f r)) = Some v"
    then have "v = f r" using Some by simp
    with i show "\<exists>i<length xs. P (xs ! i) \<and> v = f (xs ! i) \<and> (\<forall>j<i. \<not> P (xs ! j))"
      by blast
  next
    assume "\<exists>i<length xs. P (xs ! i) \<and> v = f (xs ! i) \<and> (\<forall>j<i. \<not> P (xs ! j))"
    then obtain k where k: "k < length xs" "P (xs ! k)" "v = f (xs ! k)" "\<forall>j<k. \<not> P (xs ! j)"
      by blast
    have "k = i"
    proof (rule ccontr)
      assume "k \<noteq> i"
      then have "k < i \<or> i < k" by arith
      then show False using i(2,4) k(2,4) by blast
    qed
    then show "(case find P xs of None \<Rightarrow> None | Some r \<Rightarrow> Some (f r)) = Some v"
      using Some i(3) k(3) by simp
  qed
qed

lemma find_none_primary:
  "(case find P xs of None \<Rightarrow> None | Some r \<Rightarrow> Some (f r)) = None \<longleftrightarrow> \<not> (\<exists>r\<in>set xs. P r)"
proof (cases "find P xs")
  case None
  then have "\<not> (\<exists>r\<in>set xs. P r)" by (simp add: find_None_iff)
  with None show ?thesis by simp
next
  case (Some r)
  then have "\<exists>r\<in>set xs. P r" unfolding find_Some_iff by (metis nth_mem)
  with Some show ?thesis by simp
qed

text \<open>
  Claim C7. What \<^verbatim>\<open>getPrimaryEmail\<close>, \<^verbatim>\<open>getPrimaryPhone\<close> and
  \<^verbatim>\<open>getPrimaryAddress\<close> return for a person comes from the first row of the table whose
  \<^verbatim>\<open>is_primary\<close> flag is true and whose \<^verbatim>\<open>cons_id\<close> is the person's: no
  earlier row has both. When the table has no such row, the e-mail and the phone are
  \<^verbatim>\<open>null\<close> and the address is no row.
\<close>

theorem getPrimary_first_primary_row:
  "(getPrimaryEmail db person = Some v \<longleftrightarrow>
      (\<exists>i<length (bsd_emails db).
          email_is_primary (bsd_emails db ! i) = True
        \<and> email_cons_id (bsd_emails db ! i) = cons_id person
        \<and> v = email (bsd_emails db ! i)
        \<and> (\<forall>j<i. \<not> (email_is_primary (bsd_emails db ! j) = True
                     \<and> email_cons_id (bsd_emails db ! j) = cons_id person))))
 \<and> (getPrimaryEmail db person = None \<longleftrightarrow>
      \<not> (\<exists>r \<in> set (bsd_emails db). email_is_primary r = True \<and> email_cons_id r = cons_id person))
 \<and> (getPrimaryPhone db person = Some w \<longleftrightarrow>
      (\<exists>i<length (bsd_phones db).
          phone_is_primary (bsd_phones db ! i) = True
        \<and> phone_cons_id (bsd_phones db ! i) = cons_id person
        \<and> w = phone (bsd_phones db ! i)
        \<and> (\<forall>j<i. \<not> (phone_is_primary (bsd_phones db ! j) = True
                     \<and> phone_cons_id (bsd_phones db ! j) = cons_id person))))
 \<and> (getPrimaryPhone db person = None \<longleftrightarrow>
      \<not> (\<exists>r \<in> set (bsd_phones db). phone_is_primary r = True \<and> phone_cons_id r = cons_id person))
 \<and> (getPrimaryAddress db person = Some a \<longleftrightarrow>
      (\<exists>i<length (bsd_addresses db).
          addr_is_primary (bsd_addresses db ! i) = True
        \<and> addr_cons_id (bsd_addresses db ! i) = cons_id person
        \<and> a = bsd_addresses db ! i
        \<and> (\<forall>j<i. \<not> (addr_is_primary (bsd_addresses db ! j) = True
                     \<and> addr_cons_id (bsd_addresses db ! j) = cons_id person))))
 \<and> (getPrimaryAddress db person = None \<longleftrightarrow>
      \<not> (\<exists>r \<in> set (bsd_addresses db). addr_is_primary r = True \<and> addr_cons_id r = cons_id person))"
proof (intro conjI)
  show "getPrimaryEmail db person = Some v \<longleftrightarrow>
      (\<exists>i<length (bsd_emails db).
          email_is_primary (bsd_emails db ! i) = True
        \<and> email_cons_id (bsd_emails db ! i) = cons_id person
        \<and> v = email (bsd_emails db ! i)
        \<and> (\<forall>j<i. \<not> (email_is_primary (bsd_emails db ! j) = True
                     \<and> email_cons_id (bsd_emails db ! j) = cons_id person)))"
    unfolding getPrimaryEmail_def
    using find_first_index[where P = "\<lambda>r. email_is_primary r = True \<and> email_cons_id r = cons_id person" and xs = "bsd_emails db"
        and f = email and v = v] by (simp only: conj_assoc)
  show "getPrimaryEmail db person = None \<longleftrightarrow>
      \<not> (\<exists>r \<in> set (bsd_emails db). email_is_primary r = True \<and> email_cons_id r = cons_id person)"
    unfolding getPrimaryEmail_def
    using find_none_primary[where P = "\<lambda>r. email_is_primary r = True \<and> email_cons_id r = cons_id person" and xs = "bsd_emails db"
        and f = email] .
  show "getPrimaryPhone db person = Some w \<longleftrightarrow>
      (\<exists>i<length (bsd_phones db).
          phone_is_primary (bsd_phones db ! i) = True
        \<and> phone_cons_id (bsd_phones db ! i) = cons_id person
        \<and> w = phone (bsd_phones db ! i)
        \<and> (\<forall>j<i. \<not> (phone_is_primary (bsd_phones db ! j) = True
                     \<and> phone_cons_id (bsd_phones db ! j) = cons_id person)))"
    unfolding getPrimaryPhone_def
    using find_first_index[where P = "\<lambda>r. phone_is_primary r = True \<and> phone_cons_id r = cons_id person" and xs = "bsd_phones db"
        and f = phone and v = w] by (simp only: conj_assoc)
  show "getPrimaryPhone db person = None \<longleftrightarrow>
      \<not> (\<exists>r \<in> set (bsd_phones db). phone_is_primary r = True \<and> phone_cons_id r = cons_id person)"
    unfolding getPrimaryPhone_def
    using find_none_primary[where P = "\<lambda>r. phone_is_primary r = True \<and> phone_cons_id r = cons_id person" and xs = "bsd_phones db"
        and f = phone] .
  show "getPrimaryAddress db person = Some a \<longleftrightarrow>
      (\<exists>i<length (bsd_addresses db).
          addr_is_primary (bsd_addresses db ! i) = True
        \<and> addr_cons_id (bsd_addresses db ! i) = cons_id person
        \<and> a = bsd_addresses db ! i
        \<and> (\<forall>j<i. \<not> (addr_is_primary (bsd_addresses db ! j) = True
                     \<and> addr_cons_id (bsd_addresses db ! j) = cons_id person)))"
    unfolding getPrimaryAddress_def
    using find_Some_iff[where P = "\<lambda>r. addr_is_primary r = True \<and> addr_cons_id r = cons_id person" and xs = "bsd_addresses db"
        and x = a] by (simp only: conj_assoc)
  show "getPrimaryAddress db person = None \<longleftrightarrow>
      \<not> (\<exists>r \<in> set (bsd_addresses db). addr_is_primary r = True \<and> addr_cons_id r = cons_id person)"
    unfolding getPrimaryAddress_def
    using find_None_iff[where P = "\<lambda>r. addr_is_primary r = True \<and> addr_cons_id r = cons_id person" and xs = "bsd_addresses db"] unfolding Bex_def .
qed

text \<open>
  Alice has an old e-mail row before her primary one, one primary phone and one primary
  address; Bob has no phone row.
\<close>

theorem getPrimary_first_primary_row_witness:
  "getPrimaryEmail nearby_db alice = Some ''alice@example.org''
 \<and> getPrimaryPhone nearby_db alice = Some ''5550001''
 \<and> getPrimaryPhone nearby_db bob = None
 \<and> (\<exists>i<length (bsd_emails nearby_db).
          email_is_primary (bsd_emails nearby_db ! i) = True
        \<and> email_cons_id (bsd_emails nearby_db ! i) = cons_id alice
        \<and> ''alice@example.org'' = email (bsd_emails nearby_db ! i)
        \<and> (\<forall>j<i. \<not> (email_is_primary (bsd_emails nearby_db ! j) = True
                     \<and> email_cons_id (bsd_emails nearby_db ! j) = cons_id alice)))
 \<and> \<not> (\<exists>r \<in> set (bsd_phones nearby_db). phone_is_primary r = True \<and> phone_cons_id r = cons_id bob)"
proof -
  have e: "getPrimaryEmail nearby_db alice = Some ''alice@example.org''"
    by (simp add: getPrimaryEmail_def nearby_db_def empty_db_def alice_def)
  have p: "getPrimaryPhone nearby_db alice = Some ''5550001''"
    by (simp add: getPrimaryPhone_def nearby_db_def empty_db_def alice_def)
  have n: "getPrimaryPhone nearby_db bob = None"
    by (simp add: getPrimaryPhone_def nearby_db_def empty_db_def bob_def)
  from getPrimary_first_primary_row[of nearby_db alice "''alice@example.org''" "''5550001''"] e
  have 1: "\<exists>i<length (bsd_emails nearby_db).
          email_is_primary (bsd_emails nearby_db ! i) = True
        \<and> email_cons_id (bsd_emails nearby_db ! i) = cons_id alice
        \<and> ''alice@example.org'' = email (bsd_emails nearby_db ! i)
        \<and> (\<forall>j<i. \<not> (email_is_primary (bsd_emails nearby_db ! j) = True
                     \<and> email_cons_id (bsd_emails nearby_db ! j) = cons_id alice))"
    by blast
  from getPrimary_first_primary_row[of nearby_db bob] n
  have 2: "\<not> (\<exists>r \<in> set (bsd_phones nearby_db). phone_is_primary r = True \<and> phone_cons_id r = cons_id bob)"
    by blast
  show ?thesis by (intro conjI) (fact e p n 1 2)+
qed

section \<open>Errors of the guards\<close>

lemma login_required:
  "newGraphQLError \<lparr>status = 401, message = ''You must login to access that resource.''\<rparr>
     = GraphQLError login_required_message"
  by (simp add: newGraphQLError_def JSON_stringify_def json_quote_def json_escape_char_def
      digit_char_def login_required_message_def)

lemma not_authorized: "notAuthorized = GraphQLError not_authorized_message"
  by (simp add: notAuthorized_def newGraphQLError_def JSON_stringify_def json_quote_def
      json_escape_char_def digit_char_def not_authorized_message_def)

text \<open>
  Claim C8. For a session without a logged-in user, each operation guarded by
  \<^verbatim>\<open>authRequired\<close> (the queries \<^verbatim>\<open>currentUser\<close>, \<^verbatim>\<open>callAssignment\<close> and
  \<^verbatim>\<open>fastFwdRequest\<close>, the mutations \<^verbatim>\<open>submitCallSurvey\<close> and
  \<^verbatim>\<open>changeUserPassword\<close>) throws the \<^verbatim>\<open>GraphQLError\<close> built from status 401,
  whose message is the JSON text
  \<^verbatim>\<open>{"status":401,"message":"You must login to access that resource."}\<close>; the text
  contains \<^verbatim>\<open>"status":401\<close>. The mutations leave the database as it was and make no
  request to the CRM.
\<close>

theorem login_required_401:
  assumes "user s = None"
  shows "currentUser s = Inl (GraphQLError login_required_message)
       \<and> callAssignment e db s gid = Inl (GraphQLError login_required_message)
       \<and> fastFwdRequest e db s gid = Inl (GraphQLError login_required_message)
       \<and> submitCallSurvey e s inp db = (Inl (GraphQLError login_required_message), db, [])
       \<and> changeUserPassword e s currentPassword newPassword
            = (Inl (GraphQLError login_required_message), [])
       \<and> authRequired s = Inl (newGraphQLError
            \<lparr>status = 401, message = ''You must login to access that resource.''\<rparr>)
       \<and> sublist (''\"status\":'' @ string_of_nat 401) login_required_message"
proof -
  have a: "authRequired s = Inl (GraphQLError login_required_message)"
    using assms by (simp add: authRequired_def login_required)
  have sub: "sublist (''\"status\":'' @ string_of_nat 401) login_required_message"
    unfolding sublist_def
    by (rule exI[of _ "''{''"], rule exI[of _ "'',\"message\":\"You must login to access that resource.\"}''"])
       (simp add: login_required_message_def digit_char_def)
  show ?thesis
    using a sub
    by (simp add: currentUser_def callAssignment_def fastFwdRequest_def submitCallSurvey_def
        changeUserPassword_def login_required)
qed

theorem login_required_401_witness:
  "user \<lparr>user = None\<rparr> = None
   \<and> currentUser \<lparr>user = None\<rparr> = Inl (GraphQLError login_required_message)
   \<and> submitCallSurvey ex_env \<lparr>user = None\<rparr> survey_input calls_db
        = (Inl (GraphQLError login_required_message), calls_db, [])"
  using login_required_401[of "\<lparr>user = None\<rparr>" ex_env calls_db "''7''" survey_input None None]
  by simp

section \<open>Properties of interviewee selection\<close>

lemma find_own_calls_deleted:
  "find (\<lambda>r. ac_caller_id r = u \<and> Q r) (bsd_assigned_calls (delete_assigned_calls_of u db)) = None"
  by (simp add: delete_assigned_calls_of_def find_None_iff)

lemma intervieweeForCallAssignment_cases:
  fixes e db usr gid
  defines "db1 \<equiv> delete_assigned_calls_of (user_id usr) db"
    and "l \<equiv> localIdOf e ''CallAssignment'' gid"
  shows "(\<exists>res lg. intervieweeForCallAssignment e db usr gid = (res, db1, lg)
            \<and> (res = Inr None \<or> res = Inl TypeError) \<and> length lg \<le> 1
            \<and> (validOffsets e = [] \<longrightarrow> res = Inr None))
       \<or> (\<exists>person grp ua q.
              person \<in> set (intervieweeQuery e db1 grp l ua)
            \<and> ua = find (\<lambda>r. email r = user_email usr) (bsd_emails db1)
            \<and> validOffsets e \<noteq> []
            \<and> intervieweeForCallAssignment e db usr gid =
                (Inr (load_bsdPeople (insert_assigned_call e (user_id usr) person l db1) person),
                 insert_assigned_call e (user_id usr) person l db1, [q]))"
proof (cases "validOffsets e = []")
  case True
  then show ?thesis
    by (simp add: intervieweeForCallAssignment_def Let_def db1_def)
next
  case False
  note vo = this
  show ?thesis
  proof (cases "load_bsdCallAssignments db1 l")
    case None
    with vo show ?thesis
      by (simp add: intervieweeForCallAssignment_def Let_def db1_def l_def)
  next
    case (Some ca)
    note ca = this
    show ?thesis
    proof (cases "load_gcBsdGroups db1 (interviewee_group ca)")
      case None
      with vo ca show ?thesis
        by (simp add: intervieweeForCallAssignment_def Let_def db1_def l_def)
    next
      case (Some grp)
      define ua where "ua = find (\<lambda>r. email r = user_email usr) (bsd_emails db1)"
      show ?thesis
      proof (cases "intervieweeQuery e db1 grp l ua")
        case Nil
        with vo ca Some show ?thesis
          by (simp add: intervieweeForCallAssignment_def Let_def db1_def l_def ua_def)
      next
        case (Cons person rest)
        then have mem: "person \<in> set (intervieweeQuery e db1 grp l ua)" by simp
        have run: "intervieweeForCallAssignment e db usr gid =
                (Inr (load_bsdPeople (insert_assigned_call e (user_id usr) person l db1) person),
                 insert_assigned_call e (user_id usr) person l db1,
                 [intervieweeQuery_logged e grp l ua])"
        proof -
          have nf: "find (\<lambda>r. ac_caller_id r = user_id usr \<and> ac_call_assignment_id r = l)
                      (bsd_assigned_calls db1) = None"
            unfolding db1_def by (rule find_own_calls_deleted)
          show ?thesis
            using vo ca Some Cons nf
            by (simp add: intervieweeForCallAssignment_def Let_def db1_def[symmetric]
                l_def[symmetric] ua_def[symmetric])
        qed
        show ?thesis
          apply (rule disjI2)
          apply (rule exI[of _ person], rule exI[of _ grp], rule exI[of _ ua],
                 rule exI[of _ "intervieweeQuery_logged e grp l ua"])
          using mem run vo ua_def by simp
      qed
    qed
  qed
qed

lemma in_intervieweeQuery:
  assumes "c \<in> set (intervieweeQuery e db grp l ua)"
  shows "c \<notin> set (previousCallsSubquery e db l)"
    and "c \<notin> set (assignedCallsSubquery db)"
    and "\<exists>ph \<in> set (bsd_phones db). phone_cons_id ph = c \<and> phone_is_primary ph = True"
    and "\<exists>a \<in> set (bsd_addresses db). addr_cons_id a = c \<and> addr_is_primary a = True \<and>
           (\<exists>z \<in> set (zip_codes db). zc_zip z = zip a \<and> timezone_offset z \<in> set (validOffsets e))"
    and "\<forall>u. ua = Some u \<longrightarrow> c \<noteq> email_cons_id u"
  using assms unfolding intervieweeQuery_def by (auto split: option.splits if_splits)

lemma set_allOffsets: "set allOffsets = {-10..-4}"
  unfolding allOffsets_def by (auto simp: atLeastAtMost_iff)


text \<open>
  Claim C10. After \<^verbatim>\<open>intervieweeForCallAssignment\<close>, whatever it returned or threw, the
  table of assigned calls is what it was without the rows of the requesting user (of every
  call assignment, not only the requested one), followed by at most one new row, which is
  the requesting user's and for the requested call assignment. So the rows of all other
  callers are unchanged, and the requesting user holds at most one assigned call.
\<close>

theorem interviewee_replaces_own_assigned_calls:
  "(\<exists>new. bsd_assigned_calls (fst (snd (intervieweeForCallAssignment e db usr gid)))
            = filter (\<lambda>r. ac_caller_id r \<noteq> user_id usr) (bsd_assigned_calls db) @ new
          \<and> length new \<le> 1
          \<and> (\<forall>r \<in> set new. ac_caller_id r = user_id usr
                \<and> ac_call_assignment_id r = localIdOf e ''CallAssignment'' gid))
   \<and> filter (\<lambda>r. ac_caller_id r \<noteq> user_id usr)
        (bsd_assigned_calls (fst (snd (intervieweeForCallAssignment e db usr gid))))
      = filter (\<lambda>r. ac_caller_id r \<noteq> user_id usr) (bsd_assigned_calls db)
   \<and> length (filter (\<lambda>r. ac_caller_id r = user_id usr)
        (bsd_assigned_calls (fst (snd (intervieweeForCallAssignment e db usr gid))))) \<le> 1"
proof -
  define db1 where "db1 = delete_assigned_calls_of (user_id usr) db"
  define l where "l = localIdOf e ''CallAssignment'' gid"
  define others where "others = filter (\<lambda>r. ac_caller_id r \<noteq> user_id usr) (bsd_assigned_calls db)"
  have o1: "bsd_assigned_calls db1 = others"
    by (simp add: db1_def others_def delete_assigned_calls_of_def)
  have o2: "filter (\<lambda>r. ac_caller_id r \<noteq> user_id usr) others = others"
    "filter (\<lambda>r. ac_caller_id r = user_id usr) others = []"
    by (auto simp: others_def filter_empty_conv)
  from intervieweeForCallAssignment_cases[of e db usr gid]
  consider (same) "fst (snd (intervieweeForCallAssignment e db usr gid)) = db1"
    | (ins) person where "fst (snd (intervieweeForCallAssignment e db usr gid))
         = insert_assigned_call e (user_id usr) person l db1"
    unfolding db1_def l_def by fastforce
  then show ?thesis
  proof cases
    case same
    show ?thesis
      unfolding same o1 others_def[symmetric]
      by (intro conjI exI[of _ "[]"]) (simp_all add: o2)
  next
    case ins
    define new where "new = [\<lparr>ac_id = next_id db1, ac_caller_id = user_id usr,
       ac_interviewee_id = person, ac_call_assignment_id = l,
       ac_create_dt = now e, ac_modified_dt = now e\<rparr>]"
    have n: "bsd_assigned_calls (insert_assigned_call e (user_id usr) person l db1) = others @ new"
      by (simp add: insert_assigned_call_def o1 new_def)
    show ?thesis
      unfolding ins n others_def[symmetric] l_def[symmetric]
      by (intro conjI exI[of _ new]) (simp_all add: o2 new_def)
  qed
qed

lemma validOffsets_production:
  "NODE_ENV e \<noteq> ''development'' \<Longrightarrow>
   set (validOffsets e) = {offset \<in> set allOffsets. 9 \<le> local_hour (now e) offset \<and> local_hour (now e) offset < 21}"
  by (auto simp: validOffsets_def)

lemma callable_after_delete:
  "callable_now e (delete_assigned_calls_of u db) c = callable_now e db c"
  by (simp add: callable_now_def delete_assigned_calls_of_def)

lemma query_callable:
  assumes "NODE_ENV e \<noteq> ''development''" "c \<in> set (intervieweeQuery e db grp l ua)"
  shows "callable_now e db c"
proof -
  from in_intervieweeQuery(4)[OF assms(2)]
  obtain a z where a: "a \<in> set (bsd_addresses db)" "addr_cons_id a = c" "addr_is_primary a = True"
    and z: "z \<in> set (zip_codes db)" "zc_zip z = zip a" "timezone_offset z \<in> set (validOffsets e)"
    by blast
  from z(3) validOffsets_production[OF assms(1)]
  have "timezone_offset z \<in> set allOffsets \<and> 9 \<le> local_hour (now e) (timezone_offset z)
      \<and> local_hour (now e) (timezone_offset z) < 21" by simp
  with a z(1,2) show ?thesis unfolding callable_now_def by blast
qed

lemma load_bsdPeople_cons_id: "load_bsdPeople db c = Some p \<Longrightarrow> cons_id p = c"
  unfolding load_bsdPeople_def by (auto simp: find_Some_iff)

text \<open>
  Claim C5. Outside development mode, every assigned call that the requesting user holds
  after \<^verbatim>\<open>intervieweeForCallAssignment\<close>, and every person it returns, is callable
  now: a primary address of the person has a zip code mapped to an offset among
  -10, ..., -4 at which the local hour is at least 9 and less than 21. When no offset
  qualifies, the resolver returns \<^verbatim>\<open>null\<close> and the table of assigned calls is
  what it was without the rows of the requesting user: nothing is inserted.
\<close>

theorem interviewee_only_in_calling_hours:
  assumes "NODE_ENV e \<noteq> ''development''"
  shows "(\<forall>r \<in> set (bsd_assigned_calls (fst (snd (intervieweeForCallAssignment e db usr gid)))).
            ac_caller_id r = user_id usr \<longrightarrow> callable_now e db (ac_interviewee_id r))
       \<and> (\<forall>p. fst (intervieweeForCallAssignment e db usr gid) = Inr (Some p)
              \<longrightarrow> callable_now e db (cons_id p))
       \<and> ((\<forall>offset \<in> set allOffsets.
               \<not> (9 \<le> local_hour (now e) offset \<and> local_hour (now e) offset < 21))
            \<longrightarrow> fst (intervieweeForCallAssignment e db usr gid) = Inr None
              \<and> bsd_assigned_calls (fst (snd (intervieweeForCallAssignment e db usr gid)))
                  = filter (\<lambda>r. ac_caller_id r \<noteq> user_id usr) (bsd_assigned_calls db))"
proof -
  define db1 where "db1 = delete_assigned_calls_of (user_id usr) db"
  define l where "l = localIdOf e ''CallAssignment'' gid"
  have o1: "bsd_assigned_calls db1 = filter (\<lambda>r. ac_caller_id r \<noteq> user_id usr) (bsd_assigned_calls db)"
    by (simp add: db1_def delete_assigned_calls_of_def)
  have night: "validOffsets e = []"
    if "\<forall>offset \<in> set allOffsets. \<not> (9 \<le> local_hour (now e) offset \<and> local_hour (now e) offset < 21)"
    using that assms by (simp add: validOffsets_def filter_empty_conv)
  from intervieweeForCallAssignment_cases[of e db usr gid]
  consider (same) res lg where "intervieweeForCallAssignment e db usr gid = (res, db1, lg)"
        "res = Inr None \<or> res = Inl TypeError" "validOffsets e = [] \<longrightarrow> res = Inr None"
    | (ins) person grp ua q where "person \<in> set (intervieweeQuery e db1 grp l ua)"
        "validOffsets e \<noteq> []"
        "intervieweeForCallAssignment e db usr gid =
           (Inr (load_bsdPeople (insert_assigned_call e (user_id usr) person l db1) person),
            insert_assigned_call e (user_id usr) person l db1, [q])"
    unfolding db1_def l_def by blast
  then show ?thesis
  proof cases
    case same
    show ?thesis
      using same(2,3) night unfolding same(1) by (auto simp: o1)
  next
    case ins
    have c: "callable_now e db person"
      using query_callable[OF assms ins(1)] by (simp add: db1_def callable_after_delete)
    have rows: "bsd_assigned_calls (insert_assigned_call e (user_id usr) person l db1)
        = filter (\<lambda>r. ac_caller_id r \<noteq> user_id usr) (bsd_assigned_calls db) @
          [\<lparr>ac_id = next_id db1, ac_caller_id = user_id usr, ac_interviewee_id = person,
            ac_call_assignment_id = l, ac_create_dt = now e, ac_modified_dt = now e\<rparr>]"
      by (simp add: insert_assigned_call_def o1)
    show ?thesis
      unfolding ins(3)
      using c ins(2) night load_bsdPeople_cons_id
      by (auto simp: rows)
  qed
qed

lemma ex_validOffsets: "validOffsets ex_env = [-7, -6, -5, -4]"
  by (simp add: validOffsets_def ex_env_def allOffsets_def local_hour_def)

lemma night_validOffsets: "validOffsets night_env = []"
  by (simp add: validOffsets_def night_env_def ex_env_def allOffsets_def local_hour_def)

lemma ex_localId: "localIdOf ex_env ''CallAssignment'' ''7'' = ''7''"
  by (simp add: localIdOf_def ex_env_def ex_fromGlobalId_def)

lemma night_localId: "localIdOf night_env ''CallAssignment'' ''7'' = ''7''"
  by (simp add: localIdOf_def night_env_def ex_env_def ex_fromGlobalId_def)

lemma calls_db_delete: "delete_assigned_calls_of (user_id caller1) calls_db = calls_db1"
  by (simp add: delete_assigned_calls_of_def calls_db_def calls_db1_def empty_db_def caller1_def)

lemma calls_db1_query:
  "intervieweeQuery ex_env calls_db1
     \<lparr>group_id = ''g1'', group_cons_group_id = None, group_query = Some ''everyone''\<rparr> ''7''
     (Some \<lparr>email_cons_id = ''3'', email_is_primary = True, email = ''carol@example.org''\<rparr>)
   = [''4'']"
  by (simp add: intervieweeQuery_def intervieweeSource_def truthy_str_def EVERYONE_GROUP_def
      previousCallsSubquery_def assignedCallsSubquery_def ex_validOffsets
      calls_db1_def calls_db_def empty_db_def alice_def bob_def carol_def dave_def)

lemma calls_db_run:
  "intervieweeForCallAssignment ex_env calls_db caller1 ''7'' =
     (Inr (Some dave),
      calls_db\<lparr>bsd_assigned_calls :=
        [\<lparr>ac_id = 3, ac_caller_id = ''u2'', ac_interviewee_id = ''2'',
          ac_call_assignment_id = ''7'', ac_create_dt = 0, ac_modified_dt = 0\<rparr>,
         \<lparr>ac_id = 101, ac_caller_id = ''u1'', ac_interviewee_id = ''4'',
          ac_call_assignment_id = ''7'', ac_create_dt = 1478102400000,
          ac_modified_dt = 1478102400000\<rparr>],
        seq := 101\<rparr>,
      [\<lparr>iq_from = ''bsd_people'', iq_call_assignment_id = ''7'',
        iq_valid_offsets = [-7, -6, -5, -4], iq_not_cons_id = Some ''3''\<rparr>])"
proof -
  have ca: "load_bsdCallAssignments calls_db1 ''7'' =
      Some \<lparr>ca_id = ''7'', ca_name = ''Phone bank'', ca_renderer = ''survey'',
         ca_instructions = None, interviewee_group = ''g1'', gc_bsd_survey_id = ''s1'',
         ca_start_dt = 0, ca_end_dt = None, caller_group = None\<rparr>"
    by (simp add: load_bsdCallAssignments_def calls_db1_def calls_db_def empty_db_def)
  have g: "load_gcBsdGroups calls_db1 ''g1'' =
      Some \<lparr>group_id = ''g1'', group_cons_group_id = None, group_query = Some ''everyone''\<rparr>"
    by (simp add: load_gcBsdGroups_def calls_db1_def calls_db_def empty_db_def)
  have ua: "find (\<lambda>r. email r = user_email caller1) (bsd_emails calls_db1) =
      Some \<lparr>email_cons_id = ''3'', email_is_primary = True, email = ''carol@example.org''\<rparr>"
    by (simp add: calls_db1_def calls_db_def empty_db_def caller1_def)
  have nf: "find (\<lambda>r. ac_caller_id r = user_id caller1 \<and> ac_call_assignment_id r = ''7'')
      (bsd_assigned_calls calls_db1) = None"
    by (simp add: calls_db1_def caller1_def)
  have ins: "insert_assigned_call ex_env (user_id caller1) ''4'' ''7'' calls_db1 =
      calls_db\<lparr>bsd_assigned_calls :=
        [\<lparr>ac_id = 3, ac_caller_id = ''u2'', ac_interviewee_id = ''2'',
          ac_call_assignment_id = ''7'', ac_create_dt = 0, ac_modified_dt = 0\<rparr>,
         \<lparr>ac_id = 101, ac_caller_id = ''u1'', ac_interviewee_id = ''4'',
          ac_call_assignment_id = ''7'', ac_create_dt = 1478102400000,
          ac_modified_dt = 1478102400000\<rparr>],
        seq := 101\<rparr>"
    by (simp add: insert_assigned_call_def calls_db1_def calls_db_def empty_db_def caller1_def
        next_id_def ex_env_def)
  have ld: "load_bsdPeople (insert_assigned_call ex_env (user_id caller1) ''4'' ''7'' calls_db1) ''4''
      = Some dave"
    unfolding ins
    by (simp add: load_bsdPeople_def calls_db_def empty_db_def alice_def bob_def carol_def dave_def)
  show ?thesis
    unfolding intervieweeForCallAssignment_def Let_def ex_localId calls_db_delete
    by (simp add: ex_validOffsets ca g ua calls_db1_query nf ld intervieweeQuery_logged_def
        truthy_str_def EVERYONE_GROUP_def) (simp add: ins)
qed

lemma calls_db_night_run:
  "intervieweeForCallAssignment night_env calls_db caller1 ''7'' = (Inr None, calls_db1, [])"
  unfolding intervieweeForCallAssignment_def Let_def night_localId calls_db_delete
  by (simp add: night_validOffsets)

text \<open>
  At 4pm UTC the caller of the example is given Dave, for whom it is 9am; at 7am UTC no
  offset qualifies and she is given nobody.
\<close>

theorem interviewee_only_in_calling_hours_witness:
  "NODE_ENV ex_env \<noteq> ''development''
   \<and> fst (intervieweeForCallAssignment ex_env calls_db caller1 ''7'') = Inr (Some dave)
   \<and> callable_now ex_env calls_db (cons_id dave)
   \<and> NODE_ENV night_env \<noteq> ''development''
   \<and> \<not> (\<exists>offset \<in> set allOffsets.
         9 \<le> local_hour (now night_env) offset \<and> local_hour (now night_env) offset < 21)
   \<and> fst (intervieweeForCallAssignment night_env calls_db caller1 ''7'') = Inr None
   \<and> bsd_assigned_calls (fst (snd (intervieweeForCallAssignment night_env calls_db caller1 ''7'')))
        = filter (\<lambda>r. ac_caller_id r \<noteq> user_id caller1) (bsd_assigned_calls calls_db)"
proof -
  have day: "NODE_ENV ex_env \<noteq> ''development''" by (simp add: ex_env_def)
  have night: "NODE_ENV night_env \<noteq> ''development''" by (simp add: night_env_def ex_env_def)
  have run: "fst (intervieweeForCallAssignment ex_env calls_db caller1 ''7'') = Inr (Some dave)"
    by (simp add: calls_db_run)
  have dark: "\<forall>offset \<in> set allOffsets.
         \<not> (9 \<le> local_hour (now night_env) offset \<and> local_hour (now night_env) offset < 21)"
    by (simp add: allOffsets_def night_env_def ex_env_def local_hour_def)
  from interviewee_only_in_calling_hours[OF day, of calls_db caller1 "''7''"] run
  have c: "callable_now ex_env calls_db (cons_id dave)" by blast
  from interviewee_only_in_calling_hours[OF night, of calls_db caller1 "''7''"] dark
  have n: "fst (intervieweeForCallAssignment night_env calls_db caller1 ''7'') = Inr None
      \<and> bsd_assigned_calls (fst (snd (intervieweeForCallAssignment night_env calls_db caller1 ''7'')))
        = filter (\<lambda>r. ac_caller_id r \<noteq> user_id caller1) (bsd_assigned_calls calls_db)"
    by blast
  from dark have dark': "\<not> (\<exists>offset \<in> set allOffsets.
         9 \<le> local_hour (now night_env) offset \<and> local_hour (now night_env) offset < 21)"
    by blast
  show ?thesis using day night run dark' c n by blast
qed

text \<open>
  The caller of the example held two assigned calls, for the call assignments 8 and 7;
  after asking for an interviewee of 7 she holds the new one only, and the call assigned
  to the other caller is still there.
\<close>

theorem interviewee_replaces_own_assigned_calls_witness:
  "length (filter (\<lambda>r. ac_caller_id r = user_id caller1) (bsd_assigned_calls calls_db)) = 2
   \<and> map ac_call_assignment_id
        (filter (\<lambda>r. ac_caller_id r = user_id caller1) (bsd_assigned_calls calls_db)) = [''8'', ''7'']
   \<and> map ac_id (bsd_assigned_calls
        (fst (snd (intervieweeForCallAssignment ex_env calls_db caller1 ''7'')))) = [3, 101]
   \<and> filter (\<lambda>r. ac_caller_id r \<noteq> user_id caller1)
        (bsd_assigned_calls (fst (snd (intervieweeForCallAssignment ex_env calls_db caller1 ''7''))))
      = filter (\<lambda>r. ac_caller_id r \<noteq> user_id caller1) (bsd_assigned_calls calls_db)
   \<and> length (filter (\<lambda>r. ac_caller_id r = user_id caller1)
        (bsd_assigned_calls (fst (snd (intervieweeForCallAssignment ex_env calls_db caller1 ''7''))))) \<le> 1
   \<and> (\<exists>new. bsd_assigned_calls (fst (snd (intervieweeForCallAssignment ex_env calls_db caller1 ''7'')))
            = filter (\<lambda>r. ac_caller_id r \<noteq> user_id caller1) (bsd_assigned_calls calls_db) @ new
          \<and> length new \<le> 1
          \<and> (\<forall>r \<in> set new. ac_caller_id r = user_id caller1
                \<and> ac_call_assignment_id r = localIdOf ex_env ''CallAssignment'' ''7''))"
proof -
  have a: "length (filter (\<lambda>r. ac_caller_id r = user_id caller1) (bsd_assigned_calls calls_db)) = 2"
    "map ac_call_assignment_id
        (filter (\<lambda>r. ac_caller_id r = user_id caller1) (bsd_assigned_calls calls_db)) = [''8'', ''7'']"
    by (simp_all add: calls_db_def empty_db_def caller1_def)
  have b: "map ac_id (bsd_assigned_calls
        (fst (snd (intervieweeForCallAssignment ex_env calls_db caller1 ''7'')))) = [3, 101]"
    by (simp add: calls_db_run)
  show ?thesis
    using a b interviewee_replaces_own_assigned_calls[of ex_env calls_db caller1 "''7''"]
    by blast
qed











section \<open>Properties of \<^verbatim>\<open>SubmitCallSurvey\<close>\<close>

lemma noFailApiRequest_returns: "noFailApiRequest e r = Inr ()"
  by (simp add: noFailApiRequest_def split: sum.splits)

lemma survey_field_id_api: "survey_field_id (e\<lparr>api_fails := f\<rparr>) = survey_field_id e"
  by (simp add: survey_field_id_def fun_eq_iff cong: option.case_cong if_cong)

lemma bsdFormValues_of_api:
  "bsdFormValues_of (e\<lparr>api_fails := f\<rparr>) db survey fieldValues ks acc
     = bsdFormValues_of e db survey fieldValues ks acc"
  by (induction ks arbitrary: acc) (simp_all add: survey_field_id_api)

lemma run_processors_api:
  "run_processors (e\<lparr>api_fails := f\<rparr>) db survey person eml ps fieldValues lg
     = run_processors e db survey person eml ps fieldValues lg"
proof (induction ps arbitrary: fieldValues lg)
  case Nil
  show ?case by simp
next
  case (Cons p ps)
  show ?case
    by (simp add: noFailApiRequest_returns bsdFormValues_of_api Cons.IH Let_def
        split: option.splits)
qed

lemma handler_api:
  "submitCallSurvey_handler (e\<lparr>api_fails := f\<rparr>) caller inp i l db
     = submitCallSurvey_handler e caller inp i l db"
proof -
  have r: "record_call (e\<lparr>api_fails := f\<rparr>) = record_call e"
    by (simp add: record_call_def fun_eq_iff)
  show ?thesis
    unfolding submitCallSurvey_handler_def r run_processors_api Let_def
    by (simp cong: option.case_cong parsed.case_cong if_cong)
qed

lemma submitCallSurvey_api:
  "submitCallSurvey (e\<lparr>api_fails := f\<rparr>) s inp db = submitCallSurvey e s inp db"
proof -
  have l: "localIdOf (e\<lparr>api_fails := f\<rparr>) = localIdOf e"
    by (simp add: localIdOf_def fun_eq_iff)
  show ?thesis
    unfolding submitCallSurvey_def l handler_api
    by (simp cong: option.case_cong sum.case_cong)
qed

lemma handler_cases:
  fixes e caller inp i l db
  defines "ac \<equiv> find (\<lambda>r. ac_caller_id r = user_id caller \<and> ac_call_assignment_id r = l)
                   (bsd_assigned_calls db)"
  shows "(\<exists>err lg. submitCallSurvey_handler e caller inp i l db = (Inl err, lg)
            \<and> ((ac = None \<or> (\<exists>a. ac = Some a \<and> (ac_caller_id a \<noteq> user_id caller
                    \<or> ac_interviewee_id a \<noteq> i \<or> ac_call_assignment_id a \<noteq> l)))
                 \<longrightarrow> (\<exists>msg. err = Error msg) \<and> lg = []))
       \<or> (\<exists>a lg. ac = Some a \<and> ac_caller_id a = user_id caller \<and> ac_interviewee_id a = i
            \<and> ac_call_assignment_id a = l
            \<and> submitCallSurvey_handler e caller inp i l db
                = (Inr (caller, record_call e caller inp a db), lg))"
proof (cases ac)
  case None
  then show ?thesis
    unfolding ac_def by (simp add: submitCallSurvey_handler_def noAssignedCall_def)
next
  case (Some a)
  show ?thesis
  proof (cases "ac_caller_id a \<noteq> user_id caller \<or> ac_interviewee_id a \<noteq> i
                  \<or> ac_call_assignment_id a \<noteq> l")
    case True
    with Some show ?thesis
      unfolding ac_def by (auto simp add: submitCallSurvey_handler_def callMismatch_def Let_def)
  next
    case False
    with Some show ?thesis
      unfolding ac_def
      by (auto simp add: submitCallSurvey_handler_def Let_def
          split: option.splits parsed.splits prod.splits sum.splits)
  qed
qed

lemma ex_ids:
  "snd (fromGlobalId ex_env (intervieweeId survey_input)) = ''1''"
  "localIdOf ex_env ''CallAssignment'' (callAssignmentId survey_input) = ''7''"
  "snd (fromGlobalId ex_env (intervieweeId bad_json_input)) = ''1''"
  "localIdOf ex_env ''CallAssignment'' (callAssignmentId bad_json_input) = ''7''"
  "snd (fromGlobalId ex_env (intervieweeId wrong_person_input)) = ''2''"
  "localIdOf ex_env ''CallAssignment'' (callAssignmentId wrong_person_input) = ''7''"
  by (simp_all add: localIdOf_def ex_env_def ex_fromGlobalId_def survey_input_def
      bad_json_input_def wrong_person_input_def)

lemma ex_assigned_call:
  "find (\<lambda>r. ac_caller_id r = user_id caller1 \<and> ac_call_assignment_id r = ''7'')
     (bsd_assigned_calls calls_db) = Some assigned_call_2"
  by (simp add: calls_db_def empty_db_def caller1_def assigned_call_2_def)

lemma ex_handler_bad_json:
  "submitCallSurvey_handler ex_env caller1 bad_json_input ''1'' ''7'' calls_db = (Inl SyntaxError, [])"
proof -
  have ca: "find (\<lambda>r. ca_id r = ''7'') (bsd_call_assignments calls_db) =
      Some \<lparr>ca_id = ''7'', ca_name = ''Phone bank'', ca_renderer = ''survey'',
         ca_instructions = None, interviewee_group = ''g1'', gc_bsd_survey_id = ''s1'',
         ca_start_dt = 0, ca_end_dt = None, caller_group = None\<rparr>"
    by (simp add: calls_db_def empty_db_def)
  have p: "JSON_parse ex_env (surveyFieldValues bad_json_input) = Unparsable"
    by (simp add: ex_env_def ex_JSON_parse_def bad_json_input_def survey_input_def)
  show ?thesis
    unfolding submitCallSurvey_handler_def ex_assigned_call
    by (simp add: ca p) (simp add: assigned_call_2_def caller1_def)
qed

lemma ex_handler_ok:
  "submitCallSurvey_handler ex_env caller1 survey_input ''1'' ''7'' calls_db
     = (Inr (caller1, calls_db_submitted), survey_requests)"
proof -
  have ca: "find (\<lambda>r. ca_id r = ''7'') (bsd_call_assignments calls_db) =
      Some \<lparr>ca_id = ''7'', ca_name = ''Phone bank'', ca_renderer = ''survey'',
         ca_instructions = None, interviewee_group = ''g1'', gc_bsd_survey_id = ''s1'',
         ca_start_dt = 0, ca_end_dt = None, caller_group = None\<rparr>"
    by (simp add: calls_db_def empty_db_def)
  have sv: "find (\<lambda>r. survey_id r = ''s1'') (gc_bsd_surveys calls_db) =
      Some \<lparr>survey_id = ''s1'', survey_signup_form_id = ''f1'',
         processors = [''bsd-event-rsvper'', ''bsd-form-submitter'']\<rparr>"
    by (simp add: calls_db_def empty_db_def)
  have p: "JSON_parse ex_env (surveyFieldValues survey_input) = Object [(''event_id'', JStr ''4vfx'')]"
    by (simp add: ex_env_def ex_JSON_parse_def survey_input_def)
  have pe: "find (\<lambda>r. cons_id r = ''1'') (bsd_people calls_db) = Some alice"
    by (simp add: calls_db_def empty_db_def alice_def)
  have em: "getPrimaryEmail calls_db alice = Some ''alice@example.org''"
    by (simp add: getPrimaryEmail_def calls_db_def empty_db_def alice_def)
  have ad: "getPrimaryAddress calls_db alice = Some \<lparr>cons_addr_id = ''10'', addr_cons_id = ''1'',
         addr_is_primary = True, zip = ''11111'', addr_geom = ''2.5 km away''\<rparr>"
    by (simp add: getPrimaryAddress_def calls_db_def empty_db_def alice_def)
  have ph: "getPrimaryPhone calls_db alice = Some ''5550001''"
    by (simp add: getPrimaryPhone_def calls_db_def empty_db_def alice_def)
  have sf: "bsd_survey_fields calls_db =
      [\<lparr>signup_form_field_id = ''55'', field_signup_form_id = ''f1'', field_label = ''Email''\<rparr>]"
    by (simp add: calls_db_def empty_db_def)
  have fid: "survey_field_id ex_env calls_db \<lparr>survey_id = ''s1'', survey_signup_form_id = ''f1'',
         processors = [''bsd-event-rsvper'', ''bsd-form-submitter'']\<rparr> k
       = (if k = ''Email'' then Some ''55'' else if is_numeric_id k then Some k else None)" for k
    by (auto simp add: survey_field_id_def sf ex_env_def is_numeric_id_def)
  have rp: "run_processors ex_env calls_db \<lparr>survey_id = ''s1'', survey_signup_form_id = ''f1'',
         processors = [''bsd-event-rsvper'', ''bsd-form-submitter'']\<rparr> alice (Some ''alice@example.org'')
         [''bsd-event-rsvper'', ''bsd-form-submitter'']
         [(''event_id'', JStr ''4vfx''), (''person'', person_object (Some alice))] []
       = (Inr (), survey_requests)"
    by (simp add: ad ph noFailApiRequest_returns js_get_def person_object_def truthy_str_def
        fid is_numeric_id_def survey_requests_def named_keys)
  have rc: "record_call ex_env caller1 survey_input assigned_call_2 calls_db = calls_db_submitted"
    by (simp add: record_call_def calls_db_submitted_def calls_db_def empty_db_def
        assigned_call_2_def caller1_def survey_input_def ex_env_def next_id_def)
  have c: "completed survey_input" by (simp add: survey_input_def)
  show ?thesis
    unfolding submitCallSurvey_handler_def ex_assigned_call
    by (simp add: ca sv p pe em rp rc c named_keys del: run_processors.simps)
       (simp add: assigned_call_2_def caller1_def)
qed

lemma ex_submit_ok:
  "submitCallSurvey ex_env \<lparr>user = Some caller1\<rparr> survey_input calls_db
     = (Inr caller1, calls_db_submitted, survey_requests)"
  by (simp add: submitCallSurvey_def authRequired_def ex_ids transaction_def ex_handler_ok)

lemma ex_submit_bad_json:
  "submitCallSurvey ex_env \<lparr>user = Some caller1\<rparr> bad_json_input calls_db
     = (Inl SyntaxError, calls_db, [])"
  by (simp add: submitCallSurvey_def authRequired_def ex_ids transaction_def ex_handler_bad_json)

lemma record_call_tables:
  "bsd_calls (record_call e caller inp a db) = bsd_calls db @
      [\<lparr>call_id = next_id db, call_completed = completed inp, attempted_at = now e,
        left_voicemail = leftVoicemail inp, sent_text = sentText inp,
        reason_not_completed = reasonNotCompleted inp, call_caller_id = user_id caller,
        call_interviewee_id = ac_interviewee_id a,
        call_call_assignment_id = ac_call_assignment_id a\<rparr>]"
  "bsd_assigned_calls (record_call e caller inp a db)
     = filter (\<lambda>r. ac_id r \<noteq> ac_id a) (bsd_assigned_calls db)"
  by (simp_all add: record_call_def)

lemma submitCallSurvey_unfold:
  "user s = Some caller \<Longrightarrow>
   submitCallSurvey e s inp db =
     transaction (submitCallSurvey_handler e caller inp (snd (fromGlobalId e (intervieweeId inp)))
        (localIdOf e ''CallAssignment'' (callAssignmentId inp))) db"
  by (simp add: submitCallSurvey_def authRequired_def)

lemma submitCallSurvey_throws:
  assumes "submitCallSurvey e s inp db = (Inl err, db', lg)"
  shows "db' = db"
proof (cases "user s")
  case None
  with assms show ?thesis by (simp add: submitCallSurvey_def authRequired_def)
next
  case (Some caller)
  with assms show ?thesis
    by (simp add: submitCallSurvey_unfold transaction_def split: prod.splits sum.splits)
qed

lemma submitCallSurvey_returns:
  assumes "submitCallSurvey e s inp db = (Inr v, db', lg)"
  shows "\<exists>a. user s = Some v
     \<and> find (\<lambda>r. ac_caller_id r = user_id v
                 \<and> ac_call_assignment_id r = localIdOf e ''CallAssignment'' (callAssignmentId inp))
          (bsd_assigned_calls db) = Some a
     \<and> ac_interviewee_id a = snd (fromGlobalId e (intervieweeId inp))
     \<and> ac_call_assignment_id a = localIdOf e ''CallAssignment'' (callAssignmentId inp)
     \<and> db' = record_call e v inp a db"
proof (cases "user s")
  case None
  with assms show ?thesis by (simp add: submitCallSurvey_def authRequired_def)
next
  case (Some caller)
  define i where "i = snd (fromGlobalId e (intervieweeId inp))"
  define l where "l = localIdOf e ''CallAssignment'' (callAssignmentId inp)"
  from assms Some have t: "transaction (submitCallSurvey_handler e caller inp i l) db = (Inr v, db', lg)"
    by (simp add: submitCallSurvey_unfold i_def l_def)
  from handler_cases[of e caller inp i l db]
  show ?thesis
  proof (elim disjE exE conjE)
    fix err lg'
    assume "submitCallSurvey_handler e caller inp i l db = (Inl err, lg')"
    with t show ?thesis by (simp add: transaction_def)
  next
    fix a lg'
    assume a: "find (\<lambda>r. ac_caller_id r = user_id caller \<and> ac_call_assignment_id r = l)
        (bsd_assigned_calls db) = Some a" "ac_interviewee_id a = i" "ac_call_assignment_id a = l"
      and h: "submitCallSurvey_handler e caller inp i l db
                = (Inr (caller, record_call e caller inp a db), lg')"
    from t h have "v = caller" "db' = record_call e caller inp a db"
      by (auto simp add: transaction_def)
    with a Some show ?thesis unfolding i_def l_def by (intro exI[of _ a]) simp
  qed
qed

lemma submitCallSurvey_checks:
  assumes "user s = Some caller"
    and "find (\<lambda>r. ac_caller_id r = user_id caller
                 \<and> ac_call_assignment_id r = localIdOf e ''CallAssignment'' (callAssignmentId inp))
          (bsd_assigned_calls db) = None
       \<or> (\<exists>a. find (\<lambda>r. ac_caller_id r = user_id caller
                 \<and> ac_call_assignment_id r = localIdOf e ''CallAssignment'' (callAssignmentId inp))
            (bsd_assigned_calls db) = Some a
          \<and> (ac_caller_id a \<noteq> user_id caller
              \<or> ac_interviewee_id a \<noteq> snd (fromGlobalId e (intervieweeId inp))
              \<or> ac_call_assignment_id a \<noteq> localIdOf e ''CallAssignment'' (callAssignmentId inp)))"
  shows "\<exists>msg. submitCallSurvey e s inp db = (Inl (Error msg), db, [])"
proof -
  define i where "i = snd (fromGlobalId e (intervieweeId inp))"
  define l where "l = localIdOf e ''CallAssignment'' (callAssignmentId inp)"
  have R: "submitCallSurvey e s inp db = transaction (submitCallSurvey_handler e caller inp i l) db"
    using assms(1) by (simp add: submitCallSurvey_unfold i_def l_def)
  from handler_cases[of e caller inp i l db] assms(2)
  obtain msg where "submitCallSurvey_handler e caller inp i l db = (Inl (Error msg), [])"
    unfolding i_def[symmetric] l_def[symmetric] by fastforce
  then show ?thesis unfolding R by (simp add: transaction_def)
qed

text \<open>
  The processors return unless the RSVP processor runs and finds no primary address, and
  so does the handler once the checks on the assigned call have passed and the rows it
  reads are there.
\<close>

lemma run_processors_returns:
  assumes "''bsd-event-rsvper'' \<in> set ps \<and> truthy (js_get fieldValues ''event_id'')
             \<longrightarrow> getPrimaryAddress db p \<noteq> None"
  shows "\<exists>lg'. run_processors e db sv p eml ps fieldValues lg = (Inr (), lg')"
  using assms
proof (induction ps arbitrary: fieldValues lg)
  case Nil
  show ?case by simp
next
  case (Cons processor rest)
  have keep: "js_get (js_set fieldValues ''Email'' v) ''event_id'' = js_get fieldValues ''event_id''" for v
    by (simp add: js_get_js_set)
  have r: "''bsd-event-rsvper'' \<in> set rest \<and> truthy (js_get fv ''event_id'')
             \<longrightarrow> getPrimaryAddress db p \<noteq> None"
    if "js_get fv ''event_id'' = js_get fieldValues ''event_id''" for fv
    using Cons.prems that by simp
  note ih = Cons.IH[OF r]
  show ?case
  proof (cases "processor = ''bsd-event-rsvper''")
    case True
    show ?thesis
    proof (cases "truthy (js_get fieldValues ''event_id'')")
      case False
      with True ih[of fieldValues lg] show ?thesis by simp
    next
      case t: True
      with True Cons.prems obtain address where a: "getPrimaryAddress db p = Some address"
        by auto
      from ih[of fieldValues] True t a show ?thesis
        by (simp add: noFailApiRequest_returns Let_def)
    qed
  next
    case False
    note nr = this
    show ?thesis
    proof (cases "processor = ''bsd-form-submitter'' \<and> truthy_str eml")
      case True
      with nr ih[OF keep] show ?thesis
        by (simp add: noFailApiRequest_returns Let_def)
    next
      case False
      with nr ih[of fieldValues lg] show ?thesis by auto
    qed
  qed
qed

lemma handler_returns:
  assumes "find (\<lambda>r. ac_caller_id r = user_id caller \<and> ac_call_assignment_id r = l)
             (bsd_assigned_calls db) = Some a"
    and "ac_interviewee_id a = i"
    and "find (\<lambda>r. ca_id r = l) (bsd_call_assignments db) = Some assignment"
    and "find (\<lambda>r. survey_id r = gc_bsd_survey_id assignment) (gc_bsd_surveys db) = Some sv"
    and "JSON_parse e (surveyFieldValues inp) = Object vals"
    and "find (\<lambda>r. cons_id r = i) (bsd_people db) = Some p"
    and "completed inp \<and> ''bsd-event-rsvper'' \<in> set (processors sv)
           \<and> truthy (js_get vals ''event_id'') \<longrightarrow> getPrimaryAddress db p \<noteq> None"
  shows "\<exists>lg. submitCallSurvey_handler e caller inp i l db
                = (Inr (caller, record_call e caller inp a db), lg)"
proof -
  from assms(1) have m: "ac_caller_id a = user_id caller" "ac_call_assignment_id a = l"
    by (auto dest: find_Some_iff[THEN iffD1])
  define fv where "fv = js_set vals ''person'' (person_object (Some p))"
  have ev: "js_get fv ''event_id'' = js_get vals ''event_id''"
    by (simp add: fv_def js_get_js_set)
  show ?thesis
  proof (cases "completed inp \<and> processors sv \<noteq> []")
    case True
    with assms(7) ev
    have "''bsd-event-rsvper'' \<in> set (processors sv) \<and> truthy (js_get fv ''event_id'')
             \<longrightarrow> getPrimaryAddress db p \<noteq> None"
      by simp
    from run_processors_returns[OF this]
    obtain lg where "run_processors e db sv p (getPrimaryEmail db p) (processors sv) fv [] = (Inr (), lg)"
      by blast
    with True have "submitCallSurvey_handler e caller inp i l db
                = (Inr (caller, record_call e caller inp a db), lg)"
      unfolding submitCallSurvey_handler_def assms(1) Let_def fv_def
      by (simp add: m assms(2-6) del: run_processors.simps)
    then show ?thesis by blast
  next
    case False
    then have "submitCallSurvey_handler e caller inp i l db
                = (Inr (caller, record_call e caller inp a db), [])"
      unfolding submitCallSurvey_handler_def assms(1) Let_def
      by (auto simp add: m assms(2-6) simp del: run_processors.simps)
    then show ?thesis by blast
  qed
qed

text \<open>
  Claim C1, as amended. \<^verbatim>\<open>SubmitCallSurvey\<close> runs its whole workflow in one
  transaction and is atomic on every error: whenever it throws, the database is as it
  was. It throws an \<^verbatim>\<open>Error\<close> whenever the submitting caller has no assigned call for
  the given call assignment, or the assigned call's caller, interviewee or call
  assignment differs from what was submitted. Whenever it returns, the checks passed, the
  value is the caller, exactly one \<^verbatim>\<open>bsd_calls\<close> row has been added and the rows with the
  id of the assigned call are gone from \<^verbatim>\<open>bsd_assigned_calls\<close>. And it does return, with
  that row added and those rows gone, when the checks pass and no later step throws: the
  call assignment, its survey and the person row of the interviewee exist, the field
  values parse as a JSON object and, for a completed call whose survey has the RSVP
  processor and whose field values name an event, the person has a primary address.
\<close>

theorem submitCallSurvey_atomic:
  fixes e s inp db
  defines "R \<equiv> submitCallSurvey e s inp db"
    and "i \<equiv> snd (fromGlobalId e (intervieweeId inp))"
    and "l \<equiv> localIdOf e ''CallAssignment'' (callAssignmentId inp)"
  shows "(\<forall>err. fst R = Inl err \<longrightarrow> fst (snd R) = db)
   \<and> (\<forall>caller. user s = Some caller
         \<and> (find (\<lambda>r. ac_caller_id r = user_id caller \<and> ac_call_assignment_id r = l)
               (bsd_assigned_calls db) = None
            \<or> (\<exists>a. find (\<lambda>r. ac_caller_id r = user_id caller \<and> ac_call_assignment_id r = l)
                      (bsd_assigned_calls db) = Some a
                  \<and> (ac_caller_id a \<noteq> user_id caller \<or> ac_interviewee_id a \<noteq> i
                       \<or> ac_call_assignment_id a \<noteq> l)))
         \<longrightarrow> (\<exists>msg. fst R = Inl (Error msg)) \<and> fst (snd R) = db \<and> snd (snd R) = [])
   \<and> (\<forall>v. fst R = Inr v \<longrightarrow>
         (\<exists>a. user s = Some v
            \<and> find (\<lambda>r. ac_caller_id r = user_id v \<and> ac_call_assignment_id r = l)
                 (bsd_assigned_calls db) = Some a
            \<and> ac_interviewee_id a = i
            \<and> bsd_calls (fst (snd R)) = bsd_calls db @
                 [\<lparr>call_id = next_id db, call_completed = completed inp, attempted_at = now e,
                   left_voicemail = leftVoicemail inp, sent_text = sentText inp,
                   reason_not_completed = reasonNotCompleted inp, call_caller_id = user_id v,
                   call_interviewee_id = i, call_call_assignment_id = l\<rparr>]
            \<and> bsd_assigned_calls (fst (snd R))
                 = filter (\<lambda>r. ac_id r \<noteq> ac_id a) (bsd_assigned_calls db)))
   \<and> (\<forall>caller a assignment sv vals p.
         user s = Some caller
       \<and> find (\<lambda>r. ac_caller_id r = user_id caller \<and> ac_call_assignment_id r = l)
            (bsd_assigned_calls db) = Some a
       \<and> ac_interviewee_id a = i
       \<and> find (\<lambda>r. ca_id r = l) (bsd_call_assignments db) = Some assignment
       \<and> find (\<lambda>r. survey_id r = gc_bsd_survey_id assignment) (gc_bsd_surveys db) = Some sv
       \<and> JSON_parse e (surveyFieldValues inp) = Object vals
       \<and> find (\<lambda>r. cons_id r = i) (bsd_people db) = Some p
       \<and> (completed inp \<and> ''bsd-event-rsvper'' \<in> set (processors sv)
              \<and> truthy (js_get vals ''event_id'') \<longrightarrow> getPrimaryAddress db p \<noteq> None)
       \<longrightarrow> fst R = Inr caller
         \<and> bsd_calls (fst (snd R)) = bsd_calls db @
                 [\<lparr>call_id = next_id db, call_completed = completed inp, attempted_at = now e,
                   left_voicemail = leftVoicemail inp, sent_text = sentText inp,
                   reason_not_completed = reasonNotCompleted inp,
                   call_caller_id = user_id caller,
                   call_interviewee_id = i, call_call_assignment_id = l\<rparr>]
         \<and> bsd_assigned_calls (fst (snd R))
              = filter (\<lambda>r. ac_id r \<noteq> ac_id a) (bsd_assigned_calls db))"
proof -
  have first: "(\<forall>err. fst R = Inl err \<longrightarrow> fst (snd R) = db)
   \<and> (\<forall>caller. user s = Some caller
         \<and> (find (\<lambda>r. ac_caller_id r = user_id caller \<and> ac_call_assignment_id r = l)
               (bsd_assigned_calls db) = None
            \<or> (\<exists>a. find (\<lambda>r. ac_caller_id r = user_id caller \<and> ac_call_assignment_id r = l)
                      (bsd_assigned_calls db) = Some a
                  \<and> (ac_caller_id a \<noteq> user_id caller \<or> ac_interviewee_id a \<noteq> i
                       \<or> ac_call_assignment_id a \<noteq> l)))
         \<longrightarrow> (\<exists>msg. fst R = Inl (Error msg)) \<and> fst (snd R) = db \<and> snd (snd R) = [])
   \<and> (\<forall>v. fst R = Inr v \<longrightarrow>
         (\<exists>a. user s = Some v
            \<and> find (\<lambda>r. ac_caller_id r = user_id v \<and> ac_call_assignment_id r = l)
                 (bsd_assigned_calls db) = Some a
            \<and> ac_interviewee_id a = i
            \<and> bsd_calls (fst (snd R)) = bsd_calls db @
                 [\<lparr>call_id = next_id db, call_completed = completed inp, attempted_at = now e,
                   left_voicemail = leftVoicemail inp, sent_text = sentText inp,
                   reason_not_completed = reasonNotCompleted inp, call_caller_id = user_id v,
                   call_interviewee_id = i, call_call_assignment_id = l\<rparr>]
            \<and> bsd_assigned_calls (fst (snd R))
                 = filter (\<lambda>r. ac_id r \<noteq> ac_id a) (bsd_assigned_calls db)))"
  proof (intro conjI allI impI)
    fix err assume "fst R = Inl err"
    then have "R = (Inl err, fst (snd R), snd (snd R))" by (metis prod.collapse)
    then show "fst (snd R) = db" unfolding R_def by (rule submitCallSurvey_throws)
  next
    fix caller
    assume a: "user s = Some caller
           \<and> (find (\<lambda>r. ac_caller_id r = user_id caller \<and> ac_call_assignment_id r = l)
                 (bsd_assigned_calls db) = None
              \<or> (\<exists>a. find (\<lambda>r. ac_caller_id r = user_id caller \<and> ac_call_assignment_id r = l)
                        (bsd_assigned_calls db) = Some a
                    \<and> (ac_caller_id a \<noteq> user_id caller \<or> ac_interviewee_id a \<noteq> i
                         \<or> ac_call_assignment_id a \<noteq> l)))"
    from submitCallSurvey_checks[of s caller e inp db] a
    obtain msg where m: "R = (Inl (Error msg), db, [])"
      unfolding R_def i_def l_def by blast
    show "\<exists>msg. fst R = Inl (Error msg)" unfolding m by simp
    show "fst (snd R) = db" unfolding m by simp
    show "snd (snd R) = []" unfolding m by simp
  next
    fix v assume "fst R = Inr v"
    then have "R = (Inr v, fst (snd R), snd (snd R))" by (metis prod.collapse)
    from submitCallSurvey_returns[OF this[unfolded R_def]]
    obtain a where a: "user s = Some v"
       "find (\<lambda>r. ac_caller_id r = user_id v \<and> ac_call_assignment_id r = l)
            (bsd_assigned_calls db) = Some a"
       "ac_interviewee_id a = i" "ac_call_assignment_id a = l"
       "fst (snd (submitCallSurvey e s inp db)) = record_call e v inp a db"
      unfolding i_def l_def by blast
    show "\<exists>a. user s = Some v
              \<and> find (\<lambda>r. ac_caller_id r = user_id v \<and> ac_call_assignment_id r = l)
                   (bsd_assigned_calls db) = Some a
              \<and> ac_interviewee_id a = i
              \<and> bsd_calls (fst (snd R)) = bsd_calls db @
                   [\<lparr>call_id = next_id db, call_completed = completed inp, attempted_at = now e,
                     left_voicemail = leftVoicemail inp, sent_text = sentText inp,
                     reason_not_completed = reasonNotCompleted inp, call_caller_id = user_id v,
                     call_interviewee_id = i, call_call_assignment_id = l\<rparr>]
              \<and> bsd_assigned_calls (fst (snd R))
                   = filter (\<lambda>r. ac_id r \<noteq> ac_id a) (bsd_assigned_calls db)"
      unfolding R_def a(5)
      by (rule exI[of _ a]) (simp add: a(1-4) record_call_tables)
  qed
  have last: "(\<forall>caller a assignment sv vals p.
         user s = Some caller
       \<and> find (\<lambda>r. ac_caller_id r = user_id caller \<and> ac_call_assignment_id r = l)
            (bsd_assigned_calls db) = Some a
       \<and> ac_interviewee_id a = i
       \<and> find (\<lambda>r. ca_id r = l) (bsd_call_assignments db) = Some assignment
       \<and> find (\<lambda>r. survey_id r = gc_bsd_survey_id assignment) (gc_bsd_surveys db) = Some sv
       \<and> JSON_parse e (surveyFieldValues inp) = Object vals
       \<and> find (\<lambda>r. cons_id r = i) (bsd_people db) = Some p
       \<and> (completed inp \<and> ''bsd-event-rsvper'' \<in> set (processors sv)
              \<and> truthy (js_get vals ''event_id'') \<longrightarrow> getPrimaryAddress db p \<noteq> None)
       \<longrightarrow> fst R = Inr caller
         \<and> bsd_calls (fst (snd R)) = bsd_calls db @
                 [\<lparr>call_id = next_id db, call_completed = completed inp, attempted_at = now e,
                   left_voicemail = leftVoicemail inp, sent_text = sentText inp,
                   reason_not_completed = reasonNotCompleted inp,
                   call_caller_id = user_id caller,
                   call_interviewee_id = i, call_call_assignment_id = l\<rparr>]
         \<and> bsd_assigned_calls (fst (snd R))
              = filter (\<lambda>r. ac_id r \<noteq> ac_id a) (bsd_assigned_calls db))"
  proof (intro allI impI)
    fix caller a assignment sv vals p
    assume h: "user s = Some caller
       \<and> find (\<lambda>r. ac_caller_id r = user_id caller \<and> ac_call_assignment_id r = l)
            (bsd_assigned_calls db) = Some a
       \<and> ac_interviewee_id a = i
       \<and> find (\<lambda>r. ca_id r = l) (bsd_call_assignments db) = Some assignment
       \<and> find (\<lambda>r. survey_id r = gc_bsd_survey_id assignment) (gc_bsd_surveys db) = Some sv
       \<and> JSON_parse e (surveyFieldValues inp) = Object vals
       \<and> find (\<lambda>r. cons_id r = i) (bsd_people db) = Some p
       \<and> (completed inp \<and> ''bsd-event-rsvper'' \<in> set (processors sv)
              \<and> truthy (js_get vals ''event_id'') \<longrightarrow> getPrimaryAddress db p \<noteq> None)"
    then have f: "find (\<lambda>r. ac_caller_id r = user_id caller \<and> ac_call_assignment_id r = l)
            (bsd_assigned_calls db) = Some a" and ia: "ac_interviewee_id a = i"
      by blast+
    from f have la: "ac_call_assignment_id a = l" by (auto dest: find_Some_iff[THEN iffD1])
    from h handler_returns[of caller l db a i assignment sv e inp vals p]
    obtain lg where "submitCallSurvey_handler e caller inp i l db
                = (Inr (caller, record_call e caller inp a db), lg)"
      by blast
    with h have r: "R = (Inr caller, record_call e caller inp a db, lg)"
      unfolding R_def i_def l_def by (simp add: submitCallSurvey_unfold transaction_def)
    show "fst R = Inr caller
         \<and> bsd_calls (fst (snd R)) = bsd_calls db @
                 [\<lparr>call_id = next_id db, call_completed = completed inp, attempted_at = now e,
                   left_voicemail = leftVoicemail inp, sent_text = sentText inp,
                   reason_not_completed = reasonNotCompleted inp,
                   call_caller_id = user_id caller,
                   call_interviewee_id = i, call_call_assignment_id = l\<rparr>]
         \<and> bsd_assigned_calls (fst (snd R))
              = filter (\<lambda>r. ac_id r \<noteq> ac_id a) (bsd_assigned_calls db)"
      unfolding r by (simp add: record_call_tables ia la)
  qed
  from conjI[OF first last] show ?thesis by (simp only: conj_assoc)
qed

lemma ex_rows:
  "find (\<lambda>r. ca_id r = ''7'') (bsd_call_assignments calls_db) =
      Some \<lparr>ca_id = ''7'', ca_name = ''Phone bank'', ca_renderer = ''survey'',
         ca_instructions = None, interviewee_group = ''g1'', gc_bsd_survey_id = ''s1'',
         ca_start_dt = 0, ca_end_dt = None, caller_group = None\<rparr>"
  "find (\<lambda>r. survey_id r = ''s1'') (gc_bsd_surveys calls_db) =
      Some \<lparr>survey_id = ''s1'', survey_signup_form_id = ''f1'',
         processors = [''bsd-event-rsvper'', ''bsd-form-submitter'']\<rparr>"
  "JSON_parse ex_env (surveyFieldValues survey_input) = Object [(''event_id'', JStr ''4vfx'')]"
  "find (\<lambda>r. cons_id r = ''1'') (bsd_people calls_db) = Some alice"
  "getPrimaryAddress calls_db alice = Some \<lparr>cons_addr_id = ''10'', addr_cons_id = ''1'',
         addr_is_primary = True, zip = ''11111'', addr_geom = ''2.5 km away''\<rparr>"
  by (simp_all add: calls_db_def empty_db_def ex_env_def ex_JSON_parse_def survey_input_def
      alice_def getPrimaryAddress_def)

text \<open>
  The survey of the call to Alice meets every condition, so it is recorded and the
  assigned call 2 deleted; the same submission for Bob does not match the assigned call
  and is refused.
\<close>

theorem submitCallSurvey_atomic_witness:
  "user \<lparr>user = Some caller1\<rparr> = Some caller1
   \<and> find (\<lambda>r. ac_caller_id r = user_id caller1
              \<and> ac_call_assignment_id r
                  = localIdOf ex_env ''CallAssignment'' (callAssignmentId survey_input))
         (bsd_assigned_calls calls_db) = Some assigned_call_2
   \<and> ac_interviewee_id assigned_call_2 = snd (fromGlobalId ex_env (intervieweeId survey_input))
   \<and> JSON_parse ex_env (surveyFieldValues survey_input) = Object [(''event_id'', JStr ''4vfx'')]
   \<and> find (\<lambda>r. cons_id r = snd (fromGlobalId ex_env (intervieweeId survey_input)))
         (bsd_people calls_db) = Some alice
   \<and> getPrimaryAddress calls_db alice \<noteq> None
   \<and> fst (submitCallSurvey ex_env \<lparr>user = Some caller1\<rparr> survey_input calls_db) = Inr caller1
   \<and> length (bsd_calls (fst (snd (submitCallSurvey ex_env \<lparr>user = Some caller1\<rparr> survey_input calls_db))))
        = length (bsd_calls calls_db) + 1
   \<and> bsd_assigned_calls (fst (snd (submitCallSurvey ex_env \<lparr>user = Some caller1\<rparr> survey_input calls_db)))
        = filter (\<lambda>r. ac_id r \<noteq> 2) (bsd_assigned_calls calls_db)
   \<and> find (\<lambda>r. ac_caller_id r = user_id caller1
              \<and> ac_call_assignment_id r
                  = localIdOf ex_env ''CallAssignment'' (callAssignmentId wrong_person_input))
         (bsd_assigned_calls calls_db) = Some assigned_call_2
   \<and> ac_interviewee_id assigned_call_2
        \<noteq> snd (fromGlobalId ex_env (intervieweeId wrong_person_input))
   \<and> (\<exists>msg. fst (submitCallSurvey ex_env \<lparr>user = Some caller1\<rparr> wrong_person_input calls_db)
               = Inl (Error msg))
   \<and> fst (snd (submitCallSurvey ex_env \<lparr>user = Some caller1\<rparr> wrong_person_input calls_db))
        = calls_db"
proof -
  note thm1 = submitCallSurvey_atomic[of ex_env "\<lparr>user = Some caller1\<rparr>" survey_input calls_db]
  note thm2 = submitCallSurvey_atomic[of ex_env "\<lparr>user = Some caller1\<rparr>" wrong_person_input calls_db]
  have u: "user \<lparr>user = Some caller1\<rparr> = Some caller1" by simp
  have f1: "find (\<lambda>r. ac_caller_id r = user_id caller1
              \<and> ac_call_assignment_id r
                  = localIdOf ex_env ''CallAssignment'' (callAssignmentId survey_input))
         (bsd_assigned_calls calls_db) = Some assigned_call_2"
    by (simp add: ex_ids ex_assigned_call)
  have i1: "ac_interviewee_id assigned_call_2 = snd (fromGlobalId ex_env (intervieweeId survey_input))"
    by (simp add: ex_ids assigned_call_2_def)
  have ca: "find (\<lambda>r. ca_id r = localIdOf ex_env ''CallAssignment'' (callAssignmentId survey_input))
          (bsd_call_assignments calls_db) =
      Some \<lparr>ca_id = ''7'', ca_name = ''Phone bank'', ca_renderer = ''survey'',
         ca_instructions = None, interviewee_group = ''g1'', gc_bsd_survey_id = ''s1'',
         ca_start_dt = 0, ca_end_dt = None, caller_group = None\<rparr>"
    by (simp add: ex_ids ex_rows)
  have sv: "find (\<lambda>r. survey_id r = gc_bsd_survey_id \<lparr>ca_id = ''7'', ca_name = ''Phone bank'',
         ca_renderer = ''survey'', ca_instructions = None, interviewee_group = ''g1'',
         gc_bsd_survey_id = ''s1'', ca_start_dt = 0, ca_end_dt = None, caller_group = None\<rparr>)
        (gc_bsd_surveys calls_db) =
      Some \<lparr>survey_id = ''s1'', survey_signup_form_id = ''f1'',
         processors = [''bsd-event-rsvper'', ''bsd-form-submitter'']\<rparr>"
    by (simp add: ex_rows)
  note js = ex_rows(3)
  have pe: "find (\<lambda>r. cons_id r = snd (fromGlobalId ex_env (intervieweeId survey_input)))
         (bsd_people calls_db) = Some alice"
    by (simp add: ex_ids ex_rows)
  have ad: "getPrimaryAddress calls_db alice \<noteq> None" by (simp add: ex_rows)
  from thm1 u f1 i1 ca sv js pe ad
  have r: "fst (submitCallSurvey ex_env \<lparr>user = Some caller1\<rparr> survey_input calls_db) = Inr caller1
     \<and> bsd_calls (fst (snd (submitCallSurvey ex_env \<lparr>user = Some caller1\<rparr> survey_input calls_db)))
         = bsd_calls calls_db @
                 [\<lparr>call_id = next_id calls_db, call_completed = completed survey_input,
                   attempted_at = now ex_env,
                   left_voicemail = leftVoicemail survey_input, sent_text = sentText survey_input,
                   reason_not_completed = reasonNotCompleted survey_input,
                   call_caller_id = user_id caller1,
                   call_interviewee_id = snd (fromGlobalId ex_env (intervieweeId survey_input)),
                   call_call_assignment_id
                     = localIdOf ex_env ''CallAssignment'' (callAssignmentId survey_input)\<rparr>]
     \<and> bsd_assigned_calls (fst (snd (submitCallSurvey ex_env \<lparr>user = Some caller1\<rparr> survey_input calls_db)))
         = filter (\<lambda>r. ac_id r \<noteq> ac_id assigned_call_2) (bsd_assigned_calls calls_db)"
    by blast
  then have ok: "fst (submitCallSurvey ex_env \<lparr>user = Some caller1\<rparr> survey_input calls_db) = Inr caller1"
    by blast
  have id: "ac_id assigned_call_2 = 2" by (simp add: assigned_call_2_def)
  from r have 1: "length (bsd_calls (fst (snd (submitCallSurvey ex_env \<lparr>user = Some caller1\<rparr> survey_input calls_db))))
        = length (bsd_calls calls_db) + 1"
    by simp
  from r have 2: "bsd_assigned_calls (fst (snd (submitCallSurvey ex_env \<lparr>user = Some caller1\<rparr> survey_input calls_db)))
        = filter (\<lambda>r. ac_id r \<noteq> 2) (bsd_assigned_calls calls_db)"
    unfolding id by blast
  have f: "find (\<lambda>r. ac_caller_id r = user_id caller1
              \<and> ac_call_assignment_id r
                  = localIdOf ex_env ''CallAssignment'' (callAssignmentId wrong_person_input))
         (bsd_assigned_calls calls_db) = Some assigned_call_2"
    by (simp add: ex_ids ex_assigned_call)
  have m: "ac_interviewee_id assigned_call_2
        \<noteq> snd (fromGlobalId ex_env (intervieweeId wrong_person_input))"
    by (simp add: ex_ids assigned_call_2_def)
  from thm2 u f m
  have 3: "(\<exists>msg. fst (submitCallSurvey ex_env \<lparr>user = Some caller1\<rparr> wrong_person_input calls_db)
               = Inl (Error msg))
      \<and> fst (snd (submitCallSurvey ex_env \<lparr>user = Some caller1\<rparr> wrong_person_input calls_db))
        = calls_db"
    by blast
  show ?thesis
    by (intro conjI) (use u f1 i1 js pe ad ok 1 2 f m 3 in \<open>blast+\<close>)
qed

text \<open>
  Claim C1 as stated fails in its last part: passing the checks on the assigned call does
  not ensure that a call is recorded. Here the assigned call exists and matches the
  submission, the field values are not JSON, \<^verbatim>\<open>JSON.parse\<close> throws inside the
  transaction, and no \<^verbatim>\<open>bsd_calls\<close> row is inserted nor the assigned call deleted.
\<close>

theorem submitCallSurvey_checks_pass_counterexample:
  "find (\<lambda>r. ac_caller_id r = user_id caller1
            \<and> ac_call_assignment_id r
                = localIdOf ex_env ''CallAssignment'' (callAssignmentId bad_json_input))
      (bsd_assigned_calls calls_db) = Some assigned_call_2
   \<and> ac_caller_id assigned_call_2 = user_id caller1
   \<and> ac_interviewee_id assigned_call_2 = snd (fromGlobalId ex_env (intervieweeId bad_json_input))
   \<and> ac_call_assignment_id assigned_call_2
        = localIdOf ex_env ''CallAssignment'' (callAssignmentId bad_json_input)
   \<and> submitCallSurvey ex_env \<lparr>user = Some caller1\<rparr> bad_json_input calls_db
        = (Inl SyntaxError, calls_db, [])
   \<and> bsd_calls (fst (snd (submitCallSurvey ex_env \<lparr>user = Some caller1\<rparr> bad_json_input calls_db)))
        = bsd_calls calls_db
   \<and> assigned_call_2 \<in> set (bsd_assigned_calls
        (fst (snd (submitCallSurvey ex_env \<lparr>user = Some caller1\<rparr> bad_json_input calls_db))))"
  by (simp add: ex_ids ex_assigned_call ex_submit_bad_json)
     (simp add: assigned_call_2_def caller1_def calls_db_def empty_db_def)

text \<open>
  Claim C6. The processors reach the CRM through \<^verbatim>\<open>noFailApiRequest\<close> only, which
  returns whether or not the request fails; so what \<^verbatim>\<open>SubmitCallSurvey\<close> returns, the
  database it leaves and the requests it makes are the same whichever requests fail. In
  particular a submission of a completed call that is recorded when the CRM answers is
  recorded when the CRM fails: the assigned call is deleted and the \<^verbatim>\<open>bsd_calls\<close> row
  inserted.
\<close>

theorem crm_failures_ignored:
  "submitCallSurvey (e\<lparr>api_fails := f\<rparr>) s inp db = submitCallSurvey e s inp db
   \<and> noFailApiRequest (e\<lparr>api_fails := f\<rparr>) req = Inr ()
   \<and> (completed inp \<longrightarrow>
        (\<forall>caller db' lg.
           submitCallSurvey (e\<lparr>api_fails := (\<lambda>_. None)\<rparr>) s inp db = (Inr caller, db', lg) \<longrightarrow>
             submitCallSurvey (e\<lparr>api_fails := f\<rparr>) s inp db = (Inr caller, db', lg)
           \<and> (\<exists>a. find (\<lambda>r. ac_caller_id r = user_id caller
                           \<and> ac_call_assignment_id r
                               = localIdOf e ''CallAssignment'' (callAssignmentId inp))
                     (bsd_assigned_calls db) = Some a
                \<and> bsd_assigned_calls db' = filter (\<lambda>r. ac_id r \<noteq> ac_id a) (bsd_assigned_calls db)
                \<and> bsd_calls db' = bsd_calls db @
                     [\<lparr>call_id = next_id db, call_completed = True, attempted_at = now e,
                       left_voicemail = leftVoicemail inp, sent_text = sentText inp,
                       reason_not_completed = reasonNotCompleted inp,
                       call_caller_id = user_id caller,
                       call_interviewee_id = snd (fromGlobalId e (intervieweeId inp)),
                       call_call_assignment_id
                         = localIdOf e ''CallAssignment'' (callAssignmentId inp)\<rparr>])))"
proof (intro conjI impI allI)
  show "submitCallSurvey (e\<lparr>api_fails := f\<rparr>) s inp db = submitCallSurvey e s inp db"
    by (rule submitCallSurvey_api)
  show "noFailApiRequest (e\<lparr>api_fails := f\<rparr>) req = Inr ()"
    by (rule noFailApiRequest_returns)
next
  fix caller db' lg
  assume c: "completed inp"
    and ok: "submitCallSurvey (e\<lparr>api_fails := (\<lambda>_. None)\<rparr>) s inp db = (Inr caller, db', lg)"
  then have run: "submitCallSurvey e s inp db = (Inr caller, db', lg)"
    by (simp add: submitCallSurvey_api)
  then show "submitCallSurvey (e\<lparr>api_fails := f\<rparr>) s inp db = (Inr caller, db', lg)"
    by (simp add: submitCallSurvey_api)
  from submitCallSurvey_returns[OF run]
  obtain a where a: "find (\<lambda>r. ac_caller_id r = user_id caller
                 \<and> ac_call_assignment_id r = localIdOf e ''CallAssignment'' (callAssignmentId inp))
          (bsd_assigned_calls db) = Some a"
     "ac_interviewee_id a = snd (fromGlobalId e (intervieweeId inp))"
     "ac_call_assignment_id a = localIdOf e ''CallAssignment'' (callAssignmentId inp)"
     "db' = record_call e caller inp a db"
    by blast
  show "\<exists>a. find (\<lambda>r. ac_caller_id r = user_id caller
                           \<and> ac_call_assignment_id r
                               = localIdOf e ''CallAssignment'' (callAssignmentId inp))
                     (bsd_assigned_calls db) = Some a
                \<and> bsd_assigned_calls db' = filter (\<lambda>r. ac_id r \<noteq> ac_id a) (bsd_assigned_calls db)
                \<and> bsd_calls db' = bsd_calls db @
                     [\<lparr>call_id = next_id db, call_completed = True, attempted_at = now e,
                       left_voicemail = leftVoicemail inp, sent_text = sentText inp,
                       reason_not_completed = reasonNotCompleted inp,
                       call_caller_id = user_id caller,
                       call_interviewee_id = snd (fromGlobalId e (intervieweeId inp)),
                       call_call_assignment_id
                         = localIdOf e ''CallAssignment'' (callAssignmentId inp)\<rparr>]"
    unfolding a(4)
    by (rule exI[of _ a]) (simp add: a(1-3) c record_call_tables)
qed

lemma crm_down_requests:
  "api_fails crm_down_env r = Some (HttpError 503 ''Service Unavailable'')"
  "apiRequest crm_down_env r = Inl (Rejected ''Service Unavailable'')"
  by (simp_all add: crm_down_env_def apiRequest_def)

text \<open>
  With the CRM down both requests of the example fail, and the call is recorded all the same.
\<close>

theorem crm_failures_ignored_witness:
  "completed survey_input
   \<and> submitCallSurvey (ex_env\<lparr>api_fails := (\<lambda>_. None)\<rparr>) \<lparr>user = Some caller1\<rparr> survey_input calls_db
       = (Inr caller1, calls_db_submitted, survey_requests)
   \<and> map (apiRequest crm_down_env) survey_requests
       = [Inl (Rejected ''Service Unavailable''), Inl (Rejected ''Service Unavailable'')]
   \<and> submitCallSurvey crm_down_env \<lparr>user = Some caller1\<rparr> survey_input calls_db
       = (Inr caller1, calls_db_submitted, survey_requests)
   \<and> map ac_id (bsd_assigned_calls calls_db) = [1, 2, 3]
   \<and> map ac_id (bsd_assigned_calls calls_db_submitted) = [1, 3]
   \<and> length (bsd_calls calls_db_submitted) = length (bsd_calls calls_db) + 1"
proof -
  have c: "completed survey_input" by (simp add: survey_input_def)
  have e: "ex_env\<lparr>api_fails := (\<lambda>_. None)\<rparr> = ex_env" by (simp add: ex_env_def)
  have ok: "submitCallSurvey (ex_env\<lparr>api_fails := (\<lambda>_. None)\<rparr>) \<lparr>user = Some caller1\<rparr> survey_input calls_db
       = (Inr caller1, calls_db_submitted, survey_requests)"
    unfolding e by (rule ex_submit_ok)
  have d: "ex_env\<lparr>api_fails := (\<lambda>_. Some (HttpError 503 ''Service Unavailable''))\<rparr> = crm_down_env"
    by (simp add: crm_down_env_def)
  from crm_failures_ignored[where e = ex_env
      and f = "\<lambda>_. Some (HttpError 503 ''Service Unavailable'')"
      and s = "\<lparr>user = Some caller1\<rparr>" and inp = survey_input and db = calls_db] c ok
  have down: "submitCallSurvey crm_down_env \<lparr>user = Some caller1\<rparr> survey_input calls_db
       = (Inr caller1, calls_db_submitted, survey_requests)"
    unfolding d by blast
  have t: "map ac_id (bsd_assigned_calls calls_db) = [1, 2, 3]"
    "map ac_id (bsd_assigned_calls calls_db_submitted) = [1, 3]"
    "length (bsd_calls calls_db_submitted) = length (bsd_calls calls_db) + 1"
    by (simp_all add: calls_db_submitted_def calls_db_def empty_db_def)
  show ?thesis using c ok down t by (simp add: crm_down_requests survey_requests_def)
qed

section \<open>Administrative operations\<close>

lemma adminRequired_not_admin:
  "user s = Some usr \<Longrightarrow> \<not> is_admin usr \<Longrightarrow> adminRequired s = Inl (GraphQLError not_authorized_message)"
  by (simp add: adminRequired_def authRequired_def not_authorized)

lemma adminRequired_admin:
  "user s = Some usr \<Longrightarrow> is_admin usr \<Longrightarrow> adminRequired s = Inr ()"
  by (simp add: adminRequired_def authRequired_def)

text \<open>
  Claim C3. For a session whose user lacks the admin flag, each operation behind
  \<^verbatim>\<open>adminRequired\<close> (the \<^verbatim>\<open>listContainer\<close> query and the mutations \<^verbatim>\<open>editEvents\<close>,
  \<^verbatim>\<open>reviewEvents\<close>, \<^verbatim>\<open>deleteEvents\<close>, \<^verbatim>\<open>emailHostAttendees\<close>, \<^verbatim>\<open>createAdminEventEmail\<close> and
  \<^verbatim>\<open>createCallAssignment\<close>) fails with the \<^verbatim>\<open>GraphQLError\<close> built from status 403; the
  database is returned as it was, no CRM request is made and no mail is sent.
\<close>

theorem admin_required_403:
  assumes "user s = Some usr" and "\<not> is_admin usr"
  shows "listContainer s = Inl (GraphQLError not_authorized_message)
   \<and> editEvents e s events db = (Inl (GraphQLError not_authorized_message), db, [])
   \<and> reviewEvents e s ids pendingReview db = (Inl (GraphQLError not_authorized_message), db)
   \<and> deleteEvents e s ids msg db = (Inl (GraphQLError not_authorized_message), db, [], [])
   \<and> emailHostAttendees e s ids replyTo bcc subject text target db
        = (Inl (GraphQLError not_authorized_message), [])
   \<and> createAdminEventEmail e s mail_inp db = (Inl (GraphQLError not_authorized_message), db, [])
   \<and> createCallAssignment e s assignment_inp db
        = (Inl (GraphQLError not_authorized_message), db, [])
   \<and> adminRequired s = Inl (newGraphQLError
        \<lparr>status = 403, message = ''You are not authorized to access that resource.''\<rparr>)
   \<and> JSON_stringify \<lparr>status = 403, message = ''You are not authorized to access that resource.''\<rparr>
        = not_authorized_message"
proof -
  note a = adminRequired_not_admin[OF assms]
  have j: "JSON_stringify \<lparr>status = 403, message = ''You are not authorized to access that resource.''\<rparr>
        = not_authorized_message"
    using not_authorized by (simp add: notAuthorized_def newGraphQLError_def)
  have n: "adminRequired s = Inl (newGraphQLError
        \<lparr>status = 403, message = ''You are not authorized to access that resource.''\<rparr>)"
    using a by (simp add: newGraphQLError_def j)
  show ?thesis
    using j n
    by (simp add: a listContainer_def editEvents_def reviewEvents_def deleteEvents_def
        emailHostAttendees_def createAdminEventEmail_def createCallAssignment_def)
qed

text \<open>
  A caller without the admin flag asks for the list container, and tries to delete and to
  review the two events of the example.
\<close>

theorem admin_required_403_witness:
  "user \<lparr>user = Some caller1\<rparr> = Some caller1 \<and> \<not> is_admin caller1
   \<and> listContainer \<lparr>user = Some caller1\<rparr> = Inl (GraphQLError not_authorized_message)
   \<and> deleteEvents ex_env \<lparr>user = Some caller1\<rparr> two_events (Some ''Cancelled.'') events_db
        = (Inl (GraphQLError not_authorized_message), events_db, [], [])
   \<and> reviewEvents ex_env \<lparr>user = Some caller1\<rparr> two_events None events_db
        = (Inl (GraphQLError not_authorized_message), events_db)"
proof -
  have u: "user \<lparr>user = Some caller1\<rparr> = Some caller1" by simp
  have n: "\<not> is_admin caller1" by (simp add: caller1_def)
  from admin_required_403[OF u n, where e = ex_env and db = events_db and ids = two_events
      and msg = "Some ''Cancelled.''" and pendingReview = None]
  show ?thesis using u n by blast
qed

lemma one_event: "oneEventAtATime = GraphQLError one_event_message"
  by (simp add: oneEventAtATime_def newGraphQLError_def JSON_stringify_def json_quote_def
      json_escape_char_def digit_char_def one_event_message_def)

lemma markEventsReviewed_events: "bsd_events (markEventsReviewed ids b db) = bsd_events db"
  by (simp add: markEventsReviewed_def)

text \<open>
  Claim C9. In \<^verbatim>\<open>deleteEvents\<close>, an admin who is not a superuser and passes a list of ids
  whose length is not 1 gets the \<^verbatim>\<open>GraphQLError\<close> built from status 403, with the database
  unchanged, no CRM request and no mail. An admin who is a superuser is not restricted: when
  the CRM accepts the request, the mutation returns every local id and removes every listed
  event from \<^verbatim>\<open>bsd_events\<close>, whatever the length of the list.
\<close>

theorem deleteEvents_one_at_a_time:
  assumes "user s = Some usr" and "is_admin usr"
  shows "(\<not> is_superuser usr \<and> length ids \<noteq> 1 \<longrightarrow>
            deleteEvents e s ids msg db = (Inl (GraphQLError one_event_message), db, [], [])
          \<and> GraphQLError one_event_message = newGraphQLError \<lparr>status = 403,
               message = ''Your account is only authorized to delete one event at a time.''\<rparr>)
       \<and> (is_superuser usr \<and> api_fails e (DeleteEvents (map (\<lambda>gid. snd (fromGlobalId e gid)) ids)) = None
            \<longrightarrow> fst (deleteEvents e s ids msg db) = Inr (map (\<lambda>gid. snd (fromGlobalId e gid)) ids)
              \<and> bsd_events (fst (snd (deleteEvents e s ids msg db)))
                  = filter (\<lambda>ev. js_get ev ''event_id''
                                   \<notin> set (map (\<lambda>gid. JStr (snd (fromGlobalId e gid))) ids))
                      (bsd_events db))"
proof -
  note a = adminRequired_admin[OF assms]
  show ?thesis
    using assms(1) one_event
    by (auto simp add: a deleteEvents_def apiRequest_def Let_def markEventsReviewed_events
        event_in_def comp_def oneEventAtATime_def)
qed

lemma two_events_local:
  "map (\<lambda>gid. snd (fromGlobalId ex_env gid)) two_events = [''77'', ''78'']"
  "map (\<lambda>gid. JStr (snd (fromGlobalId ex_env gid))) two_events = [JStr ''77'', JStr ''78'']"
  by (simp_all add: two_events_def ex_env_def ex_fromGlobalId_def)

text \<open>
  Two events at once: refused for an admin who is not a superuser, carried out for one who is.
\<close>

theorem deleteEvents_one_at_a_time_witness:
  "user \<lparr>user = Some admin1\<rparr> = Some admin1 \<and> is_admin admin1 \<and> \<not> is_superuser admin1
   \<and> length two_events = 2
   \<and> deleteEvents ex_env \<lparr>user = Some admin1\<rparr> two_events (Some ''Cancelled.'') events_db
        = (Inl (GraphQLError one_event_message), events_db, [], [])
   \<and> user \<lparr>user = Some root1\<rparr> = Some root1 \<and> is_admin root1 \<and> is_superuser root1
   \<and> api_fails ex_env (DeleteEvents (map (\<lambda>gid. snd (fromGlobalId ex_env gid)) two_events)) = None
   \<and> length (bsd_events events_db) = 2
   \<and> fst (deleteEvents ex_env \<lparr>user = Some root1\<rparr> two_events (Some ''Cancelled.'') events_db)
        = Inr [''77'', ''78'']
   \<and> bsd_events (fst (snd (deleteEvents ex_env \<lparr>user = Some root1\<rparr> two_events
        (Some ''Cancelled.'') events_db))) = []"
proof -
  have a: "user \<lparr>user = Some admin1\<rparr> = Some admin1" "is_admin admin1" "\<not> is_superuser admin1"
    by (simp_all add: admin1_def)
  have r: "user \<lparr>user = Some root1\<rparr> = Some root1" "is_admin root1" "is_superuser root1"
    by (simp_all add: root1_def)
  have l: "length two_events = 2" "length two_events \<noteq> 1" by (simp_all add: two_events_def)
  have ok: "api_fails ex_env (DeleteEvents (map (\<lambda>gid. snd (fromGlobalId ex_env gid)) two_events)) = None"
    by (simp add: ex_env_def)
  have n: "length (bsd_events events_db) = 2" by (simp add: events_db_def)
  from deleteEvents_one_at_a_time[OF a(1,2), of two_events ex_env "Some ''Cancelled.''" events_db] a(3) l(2)
  have 1: "deleteEvents ex_env \<lparr>user = Some admin1\<rparr> two_events (Some ''Cancelled.'') events_db
        = (Inl (GraphQLError one_event_message), events_db, [], [])"
    by blast
  from deleteEvents_one_at_a_time[OF r(1,2), of two_events ex_env "Some ''Cancelled.''" events_db] r(3) ok
  have 2: "fst (deleteEvents ex_env \<lparr>user = Some root1\<rparr> two_events (Some ''Cancelled.'') events_db)
             = Inr (map (\<lambda>gid. snd (fromGlobalId ex_env gid)) two_events)
         \<and> bsd_events (fst (snd (deleteEvents ex_env \<lparr>user = Some root1\<rparr> two_events
               (Some ''Cancelled.'') events_db)))
             = filter (\<lambda>ev. js_get ev ''event_id''
                              \<notin> set (map (\<lambda>gid. JStr (snd (fromGlobalId ex_env gid))) two_events))
                 (bsd_events events_db)"
    by blast
  have f: "filter (\<lambda>ev. js_get ev ''event_id''
                              \<notin> set (map (\<lambda>gid. JStr (snd (fromGlobalId ex_env gid))) two_events))
                 (bsd_events events_db) = []"
    unfolding two_events_local by (simp add: events_db_def js_get_def)
  from 2 have 3: "fst (deleteEvents ex_env \<lparr>user = Some root1\<rparr> two_events (Some ''Cancelled.'') events_db)
             = Inr [''77'', ''78'']"
    by (simp only: two_events_local)
  from 2 have 4: "bsd_events (fst (snd (deleteEvents ex_env \<lparr>user = Some root1\<rparr> two_events
               (Some ''Cancelled.'') events_db))) = []"
    by (simp only: f)
  show ?thesis
    by (intro conjI) (fact a r l(1) ok n 1 3 4)+
qed

end
